(* ===== verification/Prelude.thy ===== *)
theory Prelude
  imports Complex_Main "HOL-Library.Word"
begin

text \<open>
  Shared vocabulary of the development. The Python program runs its statements against
  mutable objects and may raise at any point; a statement is modelled as a function from
  a state to a result that is either a normal return with the new state (\<open>Ret\<close>) or a
  raised exception with the state reached when it was raised (\<open>Exc\<close>), so that the
  effects performed before an exception are kept, as in Python. The theory also fixes the
  Python exceptions the program can raise, the byte type of the instrument's samples and
  the list helpers (\<open>max\<close>, \<open>min\<close>, indexing) with Python's failure behaviour.
\<close>

named_theorems py_simps "evaluation rules of the modelled Python operations"
named_theorems keeps_intros "rules showing that a statement preserves a state predicate"

type_synonym byte = "8 word"

section \<open>Exceptions and results\<close>

text \<open>The exceptions raised by the code: dictionary misses, \<open>max\<close>/\<open>min\<close> of an empty
  sequence, indexing past the end, instrument bus errors (pyvisa's \<open>VisaIOError\<close>), an
  attribute read on \<open>None\<close>, pyqtgraph's refusal of x and y arrays of different
  shapes, and pyvisa's error for an I/O call on a closed session.\<close>

datatype py_exc =
    KeyError string
  | ValueError
  | IndexError
  | VisaIOError
  | AttributeError
  | ShapeError
  | InvalidSession

datatype ('a, 's) res = Ret 'a 's | Exc py_exc 's

type_synonym ('a, 's) pyfn = "'s \<Rightarrow> ('a, 's) res"

definition pret :: "'a \<Rightarrow> ('a, 's) pyfn" where
  "pret a s = Ret a s"

definition praise :: "py_exc \<Rightarrow> ('a, 's) pyfn" where
  "praise e s = Exc e s"

definition pbind :: "('a, 's) pyfn \<Rightarrow> ('a \<Rightarrow> ('b, 's) pyfn) \<Rightarrow> ('b, 's) pyfn" where
  "pbind m f s = (case m s of Ret a s' \<Rightarrow> f a s' | Exc e s' \<Rightarrow> Exc e s')"

text \<open>A statement that only changes the state, and a read of the state.\<close>

definition pmodify :: "('s \<Rightarrow> 's) \<Rightarrow> (unit, 's) pyfn" where
  "pmodify f s = Ret () (f s)"

definition pgets :: "('s \<Rightarrow> 'a) \<Rightarrow> ('a, 's) pyfn" where
  "pgets f s = Ret (f s) s"

text \<open>A pure computation that may raise (a sum, \<open>Inl\<close> the exception) lifted to a statement.\<close>

definition plift :: "py_exc + 'a \<Rightarrow> ('a, 's) pyfn" where
  "plift r s = (case r of Inl e \<Rightarrow> Exc e s | Inr a \<Rightarrow> Ret a s)"

text \<open>\<open>try: m except E: h\<close>, where \<open>E\<close> is a predicate on the exception.\<close>

definition ptry :: "('a, 's) pyfn \<Rightarrow> (py_exc \<Rightarrow> bool) \<Rightarrow> ('a, 's) pyfn \<Rightarrow> ('a, 's) pyfn" where
  "ptry m E h s = (case m s of Exc e s' \<Rightarrow> (if E e then h s' else Exc e s') | r \<Rightarrow> r)"

text \<open>\<open>for c in cs: body c\<close>.\<close>

primrec pfor :: "'c list \<Rightarrow> ('c \<Rightarrow> (unit, 's) pyfn) \<Rightarrow> (unit, 's) pyfn" where
  "pfor [] body = pret ()"
| "pfor (c # cs) body = pbind (body c) (\<lambda>_. pfor cs body)"

fun res_state :: "('a, 's) res \<Rightarrow> 's" where
  "res_state (Ret a s) = s"
| "res_state (Exc e s) = s"

fun is_Ret :: "('a, 's) res \<Rightarrow> bool" where
  "is_Ret (Ret a s) = True"
| "is_Ret (Exc e s) = False"

text \<open>A statement keeps a state predicate when every state it can end in (returning or
  raising) satisfies the predicate whenever the start state did.\<close>

definition keeps :: "('s \<Rightarrow> bool) \<Rightarrow> ('a, 's) pyfn \<Rightarrow> bool" where
  "keeps P m \<longleftrightarrow> (\<forall>s. P s \<longrightarrow> P (res_state (m s)))"

section \<open>Python list helpers\<close>

text \<open>\<open>max\<close> and \<open>min\<close> of a sequence (Python's builtins and numpy's \<open>np.max\<close>,
  \<open>np.min\<close>) raise \<open>ValueError\<close> on an empty sequence.\<close>

fun py_max :: "real list \<Rightarrow> py_exc + real" where
  "py_max [] = Inl ValueError"
| "py_max (v # vs) = Inr (fold max vs v)"

fun py_min :: "real list \<Rightarrow> py_exc + real" where
  "py_min [] = Inl ValueError"
| "py_min (v # vs) = Inr (fold min vs v)"

text \<open>\<open>xs[0]\<close>: \<open>IndexError\<close> on an empty list.\<close>

fun py_first :: "'a list \<Rightarrow> py_exc + 'a" where
  "py_first [] = Inl IndexError"
| "py_first (v # vs) = Inr v"

text \<open>\<open>d[k]\<close> on a dictionary: \<open>KeyError\<close> when the key is absent.\<close>

definition py_getitem :: "('k \<rightharpoonup> 'v) \<Rightarrow> 'k \<Rightarrow> string \<Rightarrow> py_exc + 'v" where
  "py_getitem d k kname = (case d k of None \<Rightarrow> Inl (KeyError kname) | Some v \<Rightarrow> Inr v)"

section \<open>Lemmas on the statement combinators\<close>

lemma pbind_Ret [simp]: "m s = Ret a s' \<Longrightarrow> pbind m f s = f a s'"
  by (simp add: pbind_def)

lemma pbind_Exc [simp]: "m s = Exc e s' \<Longrightarrow> pbind m f s = Exc e s'"
  by (simp add: pbind_def)

lemma pbind_assoc: "pbind (pbind m f) g = pbind m (\<lambda>a. pbind (f a) g)"
  by (rule ext) (simp add: pbind_def split: res.splits)

lemma pbind_pret [simp]: "pbind (pret a) f = f a"
  by (rule ext) (simp add: pbind_def pret_def)

lemma pbind_pmodify [simp]: "pbind (pmodify g) f s = f () (g s)"
  by (simp add: pbind_def pmodify_def)

lemma pbind_pgets [simp]: "pbind (pgets g) f s = f (g s) s"
  by (simp add: pbind_def pgets_def)

lemma pbind_plift_Inr [simp]: "pbind (plift (Inr a)) f s = f a s"
  by (simp add: pbind_def plift_def)

lemma pbind_plift_Inl [simp]: "pbind (plift (Inl e)) f s = Exc e s"
  by (simp add: pbind_def plift_def)

lemma plift_Inr [simp]: "plift (Inr a) s = Ret a s"
  by (simp add: plift_def)

lemma plift_Inl [simp]: "plift (Inl e) s = Exc e s"
  by (simp add: plift_def)

lemma pbind_praise [simp]: "pbind (praise e) f s = Exc e s"
  by (simp add: pbind_def praise_def)

lemmas [py_simps] = pret_def praise_def pmodify_def pgets_def plift_def

lemma pfor_append:
  "pfor (cs @ ds) body = pbind (pfor cs body) (\<lambda>_. pfor ds body)"
  by (induction cs) (simp_all add: pbind_assoc)

lemma keepsD: "keeps P m \<Longrightarrow> P s \<Longrightarrow> P (res_state (m s))"
  by (simp add: keeps_def)

lemma keeps_pret [keeps_intros]: "keeps P (pret a)"
  by (simp add: keeps_def pret_def)

lemma keeps_praise [keeps_intros]: "keeps P (praise e)"
  by (simp add: keeps_def praise_def)

lemma keeps_pgets [keeps_intros]: "keeps P (pgets g)"
  by (simp add: keeps_def pgets_def)

lemma keeps_plift [keeps_intros]: "keeps P (plift r)"
  by (simp add: keeps_def plift_def split: sum.splits)

lemma keeps_pmodify [keeps_intros]: "(\<And>s. P s \<Longrightarrow> P (f s)) \<Longrightarrow> keeps P (pmodify f)"
  by (simp add: keeps_def pmodify_def)

lemma keeps_pbind [keeps_intros]:
  "keeps P m \<Longrightarrow> (\<And>a. keeps P (f a)) \<Longrightarrow> keeps P (pbind m f)"
  unfolding keeps_def pbind_def by (auto split: res.splits)

lemma keeps_if [keeps_intros]: "keeps P m1 \<Longrightarrow> keeps P m2 \<Longrightarrow> keeps P (if b then m1 else m2)"
  by simp

lemma keeps_ptry [keeps_intros]: "keeps P m \<Longrightarrow> keeps P h \<Longrightarrow> keeps P (ptry m E h)"
  unfolding keeps_def ptry_def by (auto split: res.splits)

lemma keeps_pfor [keeps_intros]: "(\<And>c. keeps P (body c)) \<Longrightarrow> keeps P (pfor cs body)"
  by (induction cs) (simp_all add: keeps_pret keeps_pbind)

lemma keeps_conj [keeps_intros]: "keeps P m \<Longrightarrow> keeps Q m \<Longrightarrow> keeps (\<lambda>s. P s \<and> Q s) m"
  by (simp add: keeps_def)

section \<open>Lemmas on the list helpers\<close>

lemma fold_max_set: "fold max vs (v::real) = Max (set (v # vs))"
  by (rule Max.set_eq_fold [symmetric])

lemma fold_min_set: "fold min vs (v::real) = Min (set (v # vs))"
  by (rule Min.set_eq_fold [symmetric])

lemma py_max_Max: "vs \<noteq> [] \<Longrightarrow> py_max vs = Inr (Max (set vs))"
  by (cases vs) (simp_all add: fold_max_set)

lemma py_min_Min: "vs \<noteq> [] \<Longrightarrow> py_min vs = Inr (Min (set vs))"
  by (cases vs) (simp_all add: fold_min_set)

lemma py_max_Inl_iff [simp]: "py_max vs = Inl e \<longleftrightarrow> vs = [] \<and> e = ValueError"
  by (cases vs) auto

lemma py_min_Inl_iff [simp]: "py_min vs = Inl e \<longleftrightarrow> vs = [] \<and> e = ValueError"
  by (cases vs) auto

lemma py_getitem_Some [simp]: "d k = Some v \<Longrightarrow> py_getitem d k n = Inr v"
  by (simp add: py_getitem_def)

lemma py_getitem_None [simp]: "d k = None \<Longrightarrow> py_getitem d k n = Inl (KeyError n)"
  by (simp add: py_getitem_def)

end
