(* ===== verification/Waveform.thy ===== *)
theory Waveform
  imports Prelude
begin

text \<open>
  The sample-to-physical-units transform of \<open>Rigol_get_Data.getData_online\<close>
  (src/Rigol_Live_View.py, lines 159--165). The instrument returns one unsigned byte per
  sample (\<open>query_binary_values(..., datatype='B')\<close>), modelled as \<open>8 word\<close> and read with
  \<open>uint\<close>; \<open>np.array(all_data) - 128\<close> is integer arithmetic on those values; the
  scaling parameters are the floats the instrument reports, modelled as \<open>real\<close> (the
  rounding of IEEE doubles is not modelled).
\<close>

section \<open>Definitions\<close>

text \<open>\<open>time_array = np.arange(len(all_data)) * x_increment + x_origin\<close>.\<close>

definition time_array :: "nat \<Rightarrow> real \<Rightarrow> real \<Rightarrow> real list" where
  "time_array n x_increment x_origin = map (\<lambda>i. real i * x_increment + x_origin) [0..<n]"

text \<open>The first, discarded assignment of line 162:
  \<open>(np.array(all_data) - 128) * 10 * vscale / 256 - voffset + y_increment\<close>.\<close>

definition voltage_array_abs :: "byte list \<Rightarrow> real \<Rightarrow> real \<Rightarrow> real \<Rightarrow> real list" where
  "voltage_array_abs raw vscale voffset y_increment =
     map (\<lambda>b. real_of_int (uint b - 128) * 10 * vscale / 256 - voffset + y_increment) raw"

text \<open>One sample of the final assignment of line 165:
  \<open>y_origin + ((raw - 128) * 10 * vscale / 256 - voffset + y_increment)\<close>.\<close>

definition sample_voltage :: "real \<Rightarrow> real \<Rightarrow> real \<Rightarrow> real \<Rightarrow> byte \<Rightarrow> real" where
  "sample_voltage y_origin vscale voffset y_increment b =
     y_origin + (real_of_int (uint b - 128) * 10 * vscale / 256 - voffset + y_increment)"

definition voltage_array :: "byte list \<Rightarrow> real \<Rightarrow> real \<Rightarrow> real \<Rightarrow> real \<Rightarrow> real list" where
  "voltage_array raw y_origin vscale voffset y_increment =
     map (sample_voltage y_origin vscale voffset y_increment) raw"

text \<open>The voltage at mid-scale (raw byte 128), around which the samples are spread.\<close>

definition mid_voltage :: "real \<Rightarrow> real \<Rightarrow> real \<Rightarrow> real" where
  "mid_voltage y_origin voffset y_increment = y_origin - voffset + y_increment"

section \<open>Basic facts\<close>

lemma length_time_array [simp]: "length (time_array n xi xo) = n"
  by (simp add: time_array_def)

lemma length_voltage_array [simp]: "length (voltage_array raw yo vs vo yi) = length raw"
  by (simp add: voltage_array_def)

lemma nth_time_array [simp]: "i < n \<Longrightarrow> time_array n xi xo ! i = real i * xi + xo"
  by (simp add: time_array_def)

lemma nth_voltage_array [simp]:
  "i < length raw \<Longrightarrow> voltage_array raw yo vs vo yi ! i = sample_voltage yo vs vo yi (raw ! i)"
  by (simp add: voltage_array_def)

lemma sample_voltage_mid:
  "sample_voltage yo vs vo yi b = mid_voltage yo vo yi + real_of_int (uint b - 128) * 10 * vs / 256"
  by (simp add: sample_voltage_def mid_voltage_def)

lemma uint_byte_bounds: "0 \<le> uint (b::byte) \<and> uint b \<le> 255"
proof -
  have "uint b < 2 ^ LENGTH(8)" by (rule uint_bounded)
  then show ?thesis by simp
qed

lemma time_array_Suc:
  "time_array (Suc n) xi xo = time_array n xi xo @ [real n * xi + xo]"
  by (simp add: time_array_def)

section \<open>Properties of the transform\<close>

lemma voltage_array_is_shifted_abs:
  "voltage_array raw y_origin vscale voffset y_increment =
     map (\<lambda>v. y_origin + v) (voltage_array_abs raw vscale voffset y_increment)"
  by (simp add: voltage_array_def voltage_array_abs_def sample_voltage_def)

lemma sample_voltage_bounds:
  assumes "0 \<le> vs"
  shows "mid_voltage yo vo yi - 5 * vs \<le> sample_voltage yo vs vo yi b
       \<and> sample_voltage yo vs vo yi b \<le> mid_voltage yo vo yi + 635 / 128 * vs"
proof -
  define k where "k = uint b - 128"
  have s: "sample_voltage yo vs vo yi b = mid_voltage yo vo yi + real_of_int k * 10 * vs / 256"
    by (simp add: sample_voltage_mid k_def)
  have "-128 \<le> k \<and> k \<le> 127"
    using uint_byte_bounds [of b] by (simp add: k_def)
  then have lo: "-128 \<le> real_of_int k" and hi: "real_of_int k \<le> 127"
    by simp_all
  from lo assms have "-128 * vs \<le> real_of_int k * vs"
    by (rule mult_right_mono)
  moreover from hi assms have "real_of_int k * vs \<le> 127 * vs"
    by (rule mult_right_mono)
  ultimately show ?thesis
    by (simp add: s mult.commute)
qed

text \<open>Claim C13: with a non-negative vertical scale, every voltage the transform produces
  lies within five vertical divisions of the mid-scale voltage: at least
  \<open>mid - 5 * vscale\<close> (raw byte 0) and at most \<open>mid + 635/128 * vscale\<close> (raw byte 255).\<close>

theorem voltage_array_bounds:
  assumes "0 \<le> vscale" and "v \<in> set (voltage_array raw y_origin vscale voffset y_increment)"
  shows "mid_voltage y_origin voffset y_increment - 5 * vscale \<le> v
       \<and> v \<le> mid_voltage y_origin voffset y_increment + 635 / 128 * vscale"
  using assms sample_voltage_bounds by (auto simp: voltage_array_def)

lemma sample_voltage_mono:
  assumes "0 \<le> vs" and "b1 \<le> b2"
  shows "sample_voltage yo vs vo yi b1 \<le> sample_voltage yo vs vo yi b2"
proof -
  have u: "uint b1 \<le> uint b2" using assms(2) by (simp add: word_le_def)
  have "real_of_int (uint b1 - 128) \<le> real_of_int (uint b2 - 128)"
    by (rule iffD2 [OF of_int_le_iff], rule diff_right_mono [OF u])
  then have "real_of_int (uint b1 - 128) * 10 * vs \<le> real_of_int (uint b2 - 128) * 10 * vs"
    using assms(1) by (intro mult_right_mono) simp_all
  then show ?thesis by (simp add: sample_voltage_def divide_right_mono)
qed

text \<open>Claim C14: the transform keeps the order of the samples: with a non-negative vertical
  scale a larger raw byte never reads a lower voltage, so the trace keeps the shape of the
  raw capture. Every operation of line 165 on the byte (the subtraction of 128, the
  scaling by non-negative constants, the added offsets) is monotone, in IEEE arithmetic
  as on the reals.\<close>

theorem voltage_array_monotone:
  assumes "0 \<le> vscale" and "i < length raw" and "j < length raw" and "raw ! i \<le> raw ! j"
  shows "voltage_array raw y_origin vscale voffset y_increment ! i
           \<le> voltage_array raw y_origin vscale voffset y_increment ! j"
  using assms sample_voltage_mono by simp

lemma time_array_sorted:
  assumes "0 < xi"
  shows "sorted_wrt (<) (time_array n xi xo)"
  using assms by (auto simp: time_array_def sorted_wrt_map sorted_wrt_iff_nth_less)

text \<open>Claim C15: with a non-negative time increment, the smallest time of a non-empty
  capture is the time origin and the largest is \<open>(n - 1) * x_increment + x_origin\<close>; these
  are the extremes the display sizes its horizontal axis with.\<close>

theorem time_array_extremes:
  assumes "0 \<le> xi" and "0 < n"
  shows "py_min (time_array n xi xo) = Inr xo
       \<and> py_max (time_array n xi xo) = Inr (real (n - 1) * xi + xo)"
proof -
  have ne: "time_array n xi xo \<noteq> []" using assms by (simp add: time_array_def)
  have set_eq: "set (time_array n xi xo) = (\<lambda>i. real i * xi + xo) ` {0..<n}"
    by (simp add: time_array_def)
  have "Min ((\<lambda>i. real i * xi + xo) ` {0..<n}) = xo"
  proof (rule Min_eqI)
    show "xo \<in> (\<lambda>i. real i * xi + xo) ` {0..<n}" using assms by force
  qed (use assms in auto)
  moreover have "Max ((\<lambda>i. real i * xi + xo) ` {0..<n}) = real (n - 1) * xi + xo"
  proof (rule Max_eqI)
    show "real (n - 1) * xi + xo \<in> (\<lambda>i. real i * xi + xo) ` {0..<n}"
      by (rule image_eqI [of _ _ "n - 1"]) (use assms in auto)
  next
    fix t assume "t \<in> (\<lambda>i. real i * xi + xo) ` {0..<n}"
    then obtain i where "i < n" "t = real i * xi + xo" by auto
    then show "t \<le> real (n - 1) * xi + xo"
      using assms by (auto intro!: mult_right_mono)
  qed simp
  ultimately show ?thesis
    using ne by (simp add: py_min_Min py_max_Max set_eq)
qed

section \<open>Witnesses\<close>

theorem voltage_array_bounds_witness:
  "0 \<le> (1::real) \<and> 3.90625 \<in> set (voltage_array [128, 228] 0 1 0 0)
   \<and> mid_voltage 0 0 0 - 5 * 1 \<le> (3.90625::real) \<and> (3.90625::real) \<le> mid_voltage 0 0 0 + 635 / 128 * 1"
  using voltage_array_bounds [of 1 "3.90625" "[128, 228]" 0 0 0]
  by (simp add: voltage_array_def sample_voltage_def mid_voltage_def)

theorem voltage_array_monotone_witness:
  "0 \<le> (2::real) \<and> 0 < length [100, 228 :: byte] \<and> 1 < length [100, 228 :: byte]
   \<and> [100, 228 :: byte] ! 0 \<le> [100, 228 :: byte] ! 1
   \<and> voltage_array [100, 228] 0 2 0 0 ! 0 = - 2.1875 \<and> voltage_array [100, 228] 0 2 0 0 ! 1 = 7.8125
   \<and> voltage_array [100, 228] 0 2 0 0 ! 0 \<le> voltage_array [100, 228] 0 2 0 0 ! 1"
  using voltage_array_monotone [of 2 0 "[100, 228]" 1 0 0 0] by (simp add: sample_voltage_def)

theorem time_array_extremes_witness:
  "0 \<le> (2::real) \<and> 0 < (3::nat) \<and> py_min (time_array 3 2 1) = Inr 1 \<and> py_max (time_array 3 2 1) = Inr 5"
  using time_array_extremes [of 2 3 1] by simp

end
