(* ===== verification/ScopeData.thy ===== *)
theory ScopeData
  imports Prelude
begin

text \<open>
  The waveform container \<open>ScopeData_nativ\<close> (src/Rigol_Live_View.py, lines 41--67), the
  two oscilloscope channels, and the Python object heap on which both threads hold
  references to the same \<open>ScopeData_nativ\<close> objects. Python objects are shared by
  reference: the worker's dictionary and the display's dictionary can name the same object,
  and a field assignment through one name is seen through the other. The heap makes that
  aliasing explicit: an object is a reference, its fields are read and written through the
  heap.
\<close>

section \<open>Channels\<close>

text \<open>The dictionaries of the code are keyed by the strings \<open>'CHAN1'\<close> and \<open>'CHAN2'\<close>;
  no other key is ever stored, so the keys are a two-constructor datatype with the string
  each one stands for.\<close>

datatype chan = CHAN1 | CHAN2

fun chan_name :: "chan \<Rightarrow> string" where
  "chan_name CHAN1 = ''CHAN1''"
| "chan_name CHAN2 = ''CHAN2''"

text \<open>\<open>channels = ['CHAN1','CHAN2']\<close> in \<open>getData_online\<close>.\<close>

definition channels :: "chan list" where
  "channels = [CHAN1, CHAN2]"

section \<open>The waveform record\<close>

text \<open>The fields of \<open>ScopeData_nativ\<close>, in the order \<open>__init__\<close> assigns them; the
  Python fields \<open>x\<close> and \<open>y\<close> are \<open>sd_x\<close> and \<open>sd_y\<close> here (a record field is a
  constant, and \<open>x\<close>, \<open>y\<close> are needed as variables). Python numbers (ints and floats
  alike) are \<open>real\<close>. \<open>horUnit\<close> is not set by \<open>__init__\<close>: \<open>getData_online\<close> adds
  the attribute later, so it is \<open>None\<close> until then.\<close>

record scope_data =
  path :: string
  sd_x :: "real list"
  sd_y :: "real list"
  endianness :: string
  instrumentName :: string
  instrumentNumber :: real
  templateName :: string
  waveSource :: string
  waveArrayCount :: nat
  verticalCoupling :: string
  verticalGain :: real
  verticalOffset :: real
  bandwidthLimit :: string
  recordType :: string
  processingDone :: string
  timeBase :: string
  vertUnit :: string
  triggerTime :: string
  horizInterval :: real
  horizOffset :: real
  zerocross :: real
  horUnit :: "string option"

text \<open>\<open>ScopeData_nativ()\<close>: the object \<open>__init__\<close> builds.\<close>

definition ScopeData_nativ_init :: scope_data where
  "ScopeData_nativ_init =
     \<lparr>path = '''', sd_x = [], sd_y = [], endianness = ''<'', instrumentName = ''Native'',
      instrumentNumber = 1, templateName = '''', waveSource = '''', waveArrayCount = 1,
      verticalCoupling = '''', verticalGain = 1, verticalOffset = 0, bandwidthLimit = '''',
      recordType = '''', processingDone = '''', timeBase = '''', vertUnit = '''',
      triggerTime = '''', horizInterval = 1, horizOffset = 0, zerocross = 0,
      horUnit = None\<rparr>"

text \<open>The consistency the code aims at: both arrays and the declared count agree.\<close>

definition sd_consistent :: "scope_data \<Rightarrow> bool" where
  "sd_consistent d \<longleftrightarrow> length (sd_x d) = length (sd_y d) \<and> waveArrayCount d = length (sd_x d)"

section \<open>The object heap\<close>

type_synonym ref = nat

record heap =
  objs :: "ref \<Rightarrow> scope_data"
  next_ref :: ref

definition empty_heap :: heap where
  "empty_heap = \<lparr>objs = (\<lambda>_. ScopeData_nativ_init), next_ref = 0\<rparr>"

text \<open>Allocation of a fresh object (a constructor call).\<close>

definition alloc :: "scope_data \<Rightarrow> heap \<Rightarrow> ref \<times> heap" where
  "alloc d h = (next_ref h, h\<lparr>objs := (objs h)(next_ref h := d), next_ref := Suc (next_ref h)\<rparr>)"

text \<open>A field assignment \<open>r.f = v\<close>: the object named \<open>r\<close> is changed in place.\<close>

definition set_field :: "ref \<Rightarrow> (scope_data \<Rightarrow> scope_data) \<Rightarrow> heap \<Rightarrow> heap" where
  "set_field r f h = h\<lparr>objs := (objs h)(r := f (objs h r))\<rparr>"

definition allocated :: "heap \<Rightarrow> ref \<Rightarrow> bool" where
  "allocated h r \<longleftrightarrow> r < next_ref h"

section \<open>Lemmas\<close>

lemma chan_name_cases: "chan_name c = (case c of CHAN1 \<Rightarrow> ''CHAN1'' | CHAN2 \<Rightarrow> ''CHAN2'')"
  by (cases c) simp_all

lemma objs_set_field [simp]:
  "objs (set_field r f h) r' = (if r' = r then f (objs h r) else objs h r')"
  by (simp add: set_field_def)

lemma next_ref_set_field [simp]: "next_ref (set_field r f h) = next_ref h"
  by (simp add: set_field_def)

lemma allocated_set_field [simp]: "allocated (set_field r f h) = allocated h"
  by (simp add: allocated_def fun_eq_iff)

lemma set_field_set_field [simp]:
  "set_field r g (set_field r f h) = set_field r (g \<circ> f) h"
  by (simp add: set_field_def)

lemma set_field_ident [simp]: "set_field r (\<lambda>d. d) h = h"
  by (simp add: set_field_def)

lemma alloc_fresh: "alloc d h = (r, h') \<Longrightarrow> \<not> allocated h r"
  by (auto simp: alloc_def allocated_def)

lemma alloc_allocated: "alloc d h = (r, h') \<Longrightarrow> allocated h' r"
  by (auto simp: alloc_def allocated_def)

lemma alloc_objs: "alloc d h = (r, h') \<Longrightarrow> objs h' r = d"
  by (auto simp: alloc_def)

lemma alloc_objs_other: "alloc d h = (r, h') \<Longrightarrow> r' \<noteq> r \<Longrightarrow> objs h' r' = objs h r'"
  by (auto simp: alloc_def)

lemma alloc_keeps_allocated: "alloc d h = (r, h') \<Longrightarrow> allocated h q \<Longrightarrow> allocated h' q"
  by (auto simp: alloc_def allocated_def)

end
