(* ===== verification/Instrument.thy ===== *)
theory Instrument
  imports ScopeData
begin

text \<open>
  The instrument side of the program: the SCPI commands the code sends
  (src/Rigol_Live_View.py, lines 141--156, 369--373, 379--396), the pyvisa session
  returned by \<open>rm.open_resource\<close> (line 117), and the session calls \<open>write\<close>,
  \<open>query\<close>, \<open>query_ascii_values\<close>, \<open>query_binary_values\<close> and \<open>close\<close>. pyvisa and
  the oscilloscope are not part of the repository: they are modelled from the spec's
  description of the transport (section 6) as a session that records every command written
  and answers queries from a script of replies fixed by the environment. An exhausted
  script is a read timeout (\<open>VisaIOError\<close>); a reply of the wrong kind for the query
  (text where a binary block is expected, or the reverse) is a parse error
  (\<open>ValueError\<close>).
\<close>

section \<open>Commands\<close>

datatype scpi =
    WAV_FORM_BYTE
  | WAV_SOUR chan
  | WAV_MODE_NORM
  | WAV_DATA_Q
  | WAV_XINC_Q
  | WAV_XOR_Q
  | WAV_YINC_Q
  | WAV_YOR_Q
  | CHAN_SCALE_Q chan
  | CHAN_OFFSET_Q chan
  | WAI
  | OPC_Q
  | ESR_Q
  | SYST_ERR_Q
  | CLS

text \<open>The text each command puts on the bus (the f-strings of the source).\<close>

fun scpi_text :: "scpi \<Rightarrow> string" where
  "scpi_text WAV_FORM_BYTE = '':WAV:FORM BYTE''"
| "scpi_text (WAV_SOUR c) = '':WAV:SOUR '' @ chan_name c"
| "scpi_text WAV_MODE_NORM = '':WAV:MODE NORM''"
| "scpi_text WAV_DATA_Q = '':WAV:DATA?''"
| "scpi_text WAV_XINC_Q = '':WAV:XINC?''"
| "scpi_text WAV_XOR_Q = '':WAV:XOR?''"
| "scpi_text WAV_YINC_Q = '':WAV:YINC?''"
| "scpi_text WAV_YOR_Q = '':WAV:YOR?''"
| "scpi_text (CHAN_SCALE_Q c) = '':'' @ chan_name c @ '':SCALe?''"
| "scpi_text (CHAN_OFFSET_Q c) = '':'' @ chan_name c @ '':OFFSet?''"
| "scpi_text WAI = ''*WAI''"
| "scpi_text OPC_Q = ''*OPC?''"
| "scpi_text ESR_Q = ''*ESR?''"
| "scpi_text SYST_ERR_Q = '':SYSTem:ERRor?''"
| "scpi_text CLS = ''*CLS''"

section \<open>Sessions\<close>

text \<open>What the instrument sends back for one query: an IEEE binary block of unsigned
  bytes, a comma-separated list of numbers, or a line of text.\<close>

datatype reply = RBlock "byte list" | RAscii "real list" | RText string

record session =
  resource_name :: string
  written :: "scpi list"
  replies :: "reply list"
  session_open :: bool

text \<open>The bus: what \<open>open_resource\<close> does for an address, either an exception or the
  script of replies the instrument at that address will give.\<close>

type_synonym visa_bus = "string \<Rightarrow> py_exc + reply list"

definition open_resource :: "visa_bus \<Rightarrow> string \<Rightarrow> py_exc + session" where
  "open_resource bus adr =
     (case bus adr of
        Inl e \<Rightarrow> Inl e
      | Inr rs \<Rightarrow> Inr \<lparr>resource_name = adr, written = [], replies = rs, session_open = True\<rparr>)"

text \<open>\<open>session.write(cmd)\<close>.\<close>

definition sess_write :: "scpi \<Rightarrow> (unit, session) pyfn" where
  "sess_write cmd s =
     (if session_open s then Ret () (s\<lparr>written := written s @ [cmd]\<rparr>) else Exc InvalidSession s)"

text \<open>Reading one reply; none left is a timeout.\<close>

definition sess_read :: "(reply, session) pyfn" where
  "sess_read s =
     (if \<not> session_open s then Exc InvalidSession s
      else case replies s of
             [] \<Rightarrow> Exc VisaIOError s
           | r # rs \<Rightarrow> Ret r (s\<lparr>replies := rs\<rparr>))"

definition query_binary_values :: "scpi \<Rightarrow> (byte list, session) pyfn" where
  "query_binary_values q =
     pbind (sess_write q) (\<lambda>_. pbind sess_read
       (\<lambda>r. case r of RBlock bs \<Rightarrow> pret bs | _ \<Rightarrow> praise ValueError))"

definition query_ascii_values :: "scpi \<Rightarrow> (real list, session) pyfn" where
  "query_ascii_values q =
     pbind (sess_write q) (\<lambda>_. pbind sess_read
       (\<lambda>r. case r of RAscii vs \<Rightarrow> pret vs | _ \<Rightarrow> praise ValueError))"

definition sess_query :: "scpi \<Rightarrow> (string, session) pyfn" where
  "sess_query q =
     pbind (sess_write q) (\<lambda>_. pbind sess_read
       (\<lambda>r. case r of RText t \<Rightarrow> pret t | _ \<Rightarrow> praise ValueError))"

text \<open>\<open>session.close()\<close>.\<close>

definition sess_close :: "(unit, session) pyfn" where
  "sess_close s = Ret () (s\<lparr>session_open := False\<rparr>)"

section \<open>Evaluation rules\<close>

text \<open>Distinct commands put distinct text on the bus.\<close>

lemma scpi_text_inj: "scpi_text a = scpi_text b \<Longrightarrow> a = b"
  by (cases a; cases b) (auto simp: chan_name_cases split: chan.splits)


lemma sess_write_open [simp]:
  "session_open s \<Longrightarrow> sess_write cmd s = Ret () (s\<lparr>written := written s @ [cmd]\<rparr>)"
  by (simp add: sess_write_def)

lemma query_binary_values_block [simp]:
  "session_open s \<Longrightarrow> replies s = RBlock bs # rs \<Longrightarrow>
   query_binary_values q s = Ret bs (s\<lparr>written := written s @ [q], replies := rs\<rparr>)"
  by (simp add: query_binary_values_def sess_read_def pret_def)

lemma query_ascii_values_ascii [simp]:
  "session_open s \<Longrightarrow> replies s = RAscii vs # rs \<Longrightarrow>
   query_ascii_values q s = Ret vs (s\<lparr>written := written s @ [q], replies := rs\<rparr>)"
  by (simp add: query_ascii_values_def sess_read_def pret_def)

lemma sess_query_text [simp]:
  "session_open s \<Longrightarrow> replies s = RText t # rs \<Longrightarrow>
   sess_query q s = Ret t (s\<lparr>written := written s @ [q], replies := rs\<rparr>)"
  by (simp add: sess_query_def sess_read_def pret_def)

lemma query_binary_values_timeout [simp]:
  "session_open s \<Longrightarrow> replies s = [] \<Longrightarrow>
   query_binary_values q s = Exc VisaIOError (s\<lparr>written := written s @ [q]\<rparr>)"
  by (simp add: query_binary_values_def sess_read_def)

lemma query_ascii_values_timeout [simp]:
  "session_open s \<Longrightarrow> replies s = [] \<Longrightarrow>
   query_ascii_values q s = Exc VisaIOError (s\<lparr>written := written s @ [q]\<rparr>)"
  by (simp add: query_ascii_values_def sess_read_def)

lemma sess_query_timeout [simp]:
  "session_open s \<Longrightarrow> replies s = [] \<Longrightarrow>
   sess_query q s = Exc VisaIOError (s\<lparr>written := written s @ [q]\<rparr>)"
  by (simp add: sess_query_def sess_read_def)

lemma open_resource_Inr:
  "open_resource bus adr = Inr s \<Longrightarrow>
   session_open s \<and> written s = [] \<and> resource_name s = adr \<and> bus adr = Inr (replies s)"
  by (auto simp: open_resource_def split: sum.splits)

lemma open_resource_Inl [simp]: "open_resource bus adr = Inl e \<longleftrightarrow> bus adr = Inl e"
  by (auto simp: open_resource_def split: sum.splits)

lemma sess_query_Ret_replies:
  "sess_query q s = Ret t s' \<Longrightarrow> length (replies s') < length (replies s)"
  by (auto simp: sess_query_def sess_write_def sess_read_def pbind_def pret_def praise_def
      split: if_splits list.splits res.splits reply.splits)

end
