(* ===== verification/Worker.thy ===== *)
theory Worker
  imports Waveform Instrument "HOL-Library.While_Combinator"
begin

text \<open>
  The acquisition thread \<open>Rigol_get_Data\<close> (src/Rigol_Live_View.py, lines 70--180).
  Its state is the record \<open>worker\<close> (the attributes set in \<open>__init__\<close>); a statement of
  the thread runs on \<open>wstate\<close>, which adds the object heap it shares with the display
  and the signals it has emitted so far (Qt queues them to the UI thread). The session is
  reached through \<open>self.scope\<close>, so every instrument call first reads that attribute and
  fails with \<open>AttributeError\<close> when it is \<open>None\<close>.
\<close>

section \<open>State\<close>

text \<open>The status texts the thread emits: the per-channel read report
  \<open>f"{dt:.2f}s Normal Read CH:{channel} {n} points"\<close> (the elapsed time is not
  modelled) and literal texts such as \<open>"Disconnected"\<close>.\<close>

datatype status = ReadStatus chan nat | StatusText string

text \<open>The signals of the class: \<open>data_receivedCH1\<close>, \<open>data_receivedCH2\<close> (carrying a
  reference to a \<open>ScopeData_nativ\<close> object), \<open>Statustext\<close> and \<open>finished\<close>.\<close>

datatype signal = SigCH1 ref | SigCH2 ref | SigStatus status | SigFinished

text \<open>\<open>rm\<close> is \<open>None\<close> or a resource manager, with a flag telling whether it is still
  open.\<close>

record worker =
  scope :: "session option"
  rm :: "bool option"
  stop_connection :: bool
  Scope_wave :: "chan \<rightharpoonup> ref"

record wstate =
  wk :: worker
  hp :: heap
  outq :: "signal list"

definition Rigol_get_Data_init :: worker where
  "Rigol_get_Data_init = \<lparr>scope = None, rm = None, stop_connection = False, Scope_wave = Map.empty\<rparr>"

section \<open>Statements on the thread's state\<close>

definition pwk :: "(worker \<Rightarrow> worker) \<Rightarrow> (unit, wstate) pyfn" where
  "pwk f = pmodify (wk_update f)"

definition emit :: "signal \<Rightarrow> (unit, wstate) pyfn" where
  "emit sig = pmodify (\<lambda>s. s\<lparr>outq := outq s @ [sig]\<rparr>)"

definition emit_status :: "status \<Rightarrow> (unit, wstate) pyfn" where
  "emit_status message = emit (SigStatus message)"

text \<open>A call on \<open>self.scope\<close>.\<close>

definition on_scope :: "('a, session) pyfn \<Rightarrow> ('a, wstate) pyfn" where
  "on_scope m s =
     (case scope (wk s) of
        None \<Rightarrow> Exc AttributeError s
      | Some sess \<Rightarrow>
          (case m sess of
             Ret a sess' \<Rightarrow> Ret a (s\<lparr>wk := (wk s)\<lparr>scope := Some sess'\<rparr>\<rparr>)
           | Exc e sess' \<Rightarrow> Exc e (s\<lparr>wk := (wk s)\<lparr>scope := Some sess'\<rparr>\<rparr>)))"

text \<open>\<open>self.scope.query_ascii_values(q, converter='f')[0]\<close>.\<close>

definition query_scalar :: "scpi \<Rightarrow> (real, wstate) pyfn" where
  "query_scalar q = pbind (on_scope (query_ascii_values q)) (\<lambda>vs. plift (py_first vs))"

section \<open>Connection\<close>

text \<open>\<open>Disconnect_scope\<close> (lines 110--111): only a request, served by the loop.\<close>

definition Disconnect_scope :: "(unit, wstate) pyfn" where
  "Disconnect_scope = pwk (stop_connection_update (\<lambda>_. True))"

text \<open>\<open>connect_scope_ADR\<close> (lines 114--123). A new resource manager is created first;
  only \<open>VisaIOError\<close> is caught, and then \<open>self.scope\<close> keeps its value.\<close>

definition connect_scope_ADR :: "visa_bus \<Rightarrow> string \<Rightarrow> (session option, wstate) pyfn" where
  "connect_scope_ADR bus ADR =
     pbind (pwk (rm_update (\<lambda>_. Some True)))
      (\<lambda>_. ptry
             (pbind (plift (open_resource bus ADR))
               (\<lambda>sess. pbind (pwk (scope_update (\<lambda>_. Some sess)))
                 (\<lambda>_. pbind (pwk (stop_connection_update (\<lambda>_. False)))
                   (\<lambda>_. pret (Some sess)))))
             (\<lambda>e. e = VisaIOError)
             (pret None))"

section \<open>One poll cycle\<close>

text \<open>Lines 129--132: the first time a channel is seen, a fresh object is stored under
  its name and given the placeholder arrays \<open>x = [0,1]\<close>, \<open>y = [0,0]\<close>.\<close>

definition ensure_wave :: "chan \<Rightarrow> (unit, wstate) pyfn" where
  "ensure_wave c s =
     (if Scope_wave (wk s) c \<noteq> None then Ret () s
      else
        (let (r, h) = alloc ScopeData_nativ_init (hp s);
             h1 = set_field r (sd_x_update (\<lambda>_. [0, 1])) h;
             h2 = set_field r (sd_y_update (\<lambda>_. [0, 0])) h1
         in Ret () (s\<lparr>hp := h2, wk := (wk s)\<lparr>Scope_wave := (Scope_wave (wk s))(c \<mapsto> r)\<rparr>\<rparr>)))"

text \<open>What one channel's queries return (lines 145--156).\<close>

record acq =
  acq_raw :: "byte list"
  acq_xinc :: real
  acq_xorg :: real
  acq_yinc :: real
  acq_yorg :: real
  acq_vscale :: real
  acq_voffset :: real

text \<open>Lines 141--156: three configuration writes, the binary data query and six scalar
  queries, in the order of the source.\<close>

definition read_channel :: "chan \<Rightarrow> (acq, wstate) pyfn" where
  "read_channel c =
     pbind (on_scope (sess_write WAV_FORM_BYTE)) (\<lambda>_.
     pbind (on_scope (sess_write (WAV_SOUR c))) (\<lambda>_.
     pbind (on_scope (sess_write WAV_MODE_NORM)) (\<lambda>_.
     pbind (on_scope (query_binary_values WAV_DATA_Q)) (\<lambda>all_data.
     pbind (query_scalar WAV_XINC_Q) (\<lambda>x_increment.
     pbind (query_scalar WAV_XOR_Q) (\<lambda>x_origin.
     pbind (query_scalar WAV_YINC_Q) (\<lambda>y_increment.
     pbind (query_scalar WAV_YOR_Q) (\<lambda>y_origin.
     pbind (query_scalar (CHAN_SCALE_Q c)) (\<lambda>vscale.
     pbind (query_scalar (CHAN_OFFSET_Q c)) (\<lambda>voffset.
     pret \<lparr>acq_raw = all_data, acq_xinc = x_increment, acq_xorg = x_origin,
           acq_yinc = y_increment, acq_yorg = y_origin, acq_vscale = vscale,
           acq_voffset = voffset\<rparr>))))))))))"

text \<open>The field assignments of lines 167--176, one constructor per assigned attribute.\<close>

datatype field_write =
    W_waveArrayCount nat
  | W_horizInterval real
  | W_horUnit string
  | W_horizOffset real
  | W_path string
  | W_vertUnit string
  | W_x "real list"
  | W_y "real list"

fun apply_write :: "field_write \<Rightarrow> scope_data \<Rightarrow> scope_data" where
  "apply_write (W_waveArrayCount n) d = d\<lparr>waveArrayCount := n\<rparr>"
| "apply_write (W_horizInterval v) d = d\<lparr>horizInterval := v\<rparr>"
| "apply_write (W_horUnit u) d = d\<lparr>horUnit := Some u\<rparr>"
| "apply_write (W_horizOffset v) d = d\<lparr>horizOffset := v\<rparr>"
| "apply_write (W_path p) d = d\<lparr>path := p\<rparr>"
| "apply_write (W_vertUnit u) d = d\<lparr>vertUnit := u\<rparr>"
| "apply_write (W_x xs) d = d\<lparr>sd_x := xs\<rparr>"
| "apply_write (W_y ys) d = d\<lparr>sd_y := ys\<rparr>"

text \<open>Lines 159--176: the arrays computed from one channel's acquisition and the
  assignments that store them, in the source's order. The first voltage computation
  (line 162) is overwritten by line 165 before any use and has no effect.\<close>

definition channel_writes :: "acq \<Rightarrow> field_write list" where
  "channel_writes a =
     (let time_arr = time_array (length (acq_raw a)) (acq_xinc a) (acq_xorg a);
          voltage_arr = voltage_array (acq_raw a) (acq_yorg a) (acq_vscale a) (acq_voffset a) (acq_yinc a)
      in [W_waveArrayCount (length time_arr), W_horizInterval (acq_xinc a), W_horUnit ''s'',
          W_horizOffset (acq_xorg a), W_path '''', W_vertUnit ''V'', W_x time_arr, W_y voltage_arr])"

text \<open>\<open>self.Scope_wave[channel].f = v\<close>: the dictionary is read again for every
  assignment.\<close>

definition write_field :: "chan \<Rightarrow> field_write \<Rightarrow> (unit, wstate) pyfn" where
  "write_field c w =
     pbind (pgets (\<lambda>s. Scope_wave (wk s))) (\<lambda>sw.
     pbind (plift (py_getitem sw c (chan_name c))) (\<lambda>r.
     pmodify (hp_update (set_field r (apply_write w)))))"

text \<open>One iteration of the channel loop of \<open>getData_online\<close> (lines 129--177).\<close>

definition get_channel :: "chan \<Rightarrow> (unit, wstate) pyfn" where
  "get_channel c =
     pbind (ensure_wave c) (\<lambda>_.
     pbind (read_channel c) (\<lambda>a.
     pbind (pfor (channel_writes a) (write_field c)) (\<lambda>_.
     emit_status (ReadStatus c (length (acq_raw a))))))"

definition getData_online :: "(bool, wstate) pyfn" where
  "getData_online = pbind (pfor channels get_channel) (\<lambda>_. pret True)"

section \<open>The polling loop\<close>

text \<open>\<open>self.rm.close()\<close>.\<close>

definition rm_close :: "(unit, wstate) pyfn" where
  "rm_close s =
     (case rm (wk s) of
        None \<Rightarrow> Exc AttributeError s
      | Some _ \<Rightarrow> Ret () (s\<lparr>wk := (wk s)\<lparr>rm := Some False\<rparr>\<rparr>))"

text \<open>Lines 95--98.\<close>

definition close_connection :: "(unit, wstate) pyfn" where
  "close_connection =
     pbind (on_scope sess_close) (\<lambda>_.
     pbind rm_close (\<lambda>_.
     pwk (scope_update (\<lambda>_. None))))"

text \<open>\<open>self.Scope_wave[name]\<close> read from the thread's dictionary.\<close>

definition wave_ref :: "chan \<Rightarrow> (ref, wstate) pyfn" where
  "wave_ref c = pbind (pgets (\<lambda>s. Scope_wave (wk s))) (\<lambda>sw. plift (py_getitem sw c (chan_name c)))"

text \<open>What the inner loop does after \<open>getData_online\<close> (lines 89--98): emit both
  channels' objects, then serve a pending disconnect request.\<close>

definition poll_tail :: "bool \<Rightarrow> (unit, wstate) pyfn" where
  "poll_tail _ =
     pbind (wave_ref CHAN1) (\<lambda>r1.
     pbind (emit (SigCH1 r1)) (\<lambda>_.
     pbind (wave_ref CHAN2) (\<lambda>r2.
     pbind (emit (SigCH2 r2)) (\<lambda>_.
     pbind (pgets (\<lambda>s. stop_connection (wk s))) (\<lambda>stop.
     if stop then close_connection else pret ())))))"

text \<open>One iteration of the inner loop \<open>while self.scope is not None\<close> (lines 87--99).\<close>

definition poll_iteration :: "(unit, wstate) pyfn" where
  "poll_iteration = pbind getData_online poll_tail"

text \<open>Lines 101--102: the outer loop's body once the inner loop has ended.\<close>

definition idle_iteration :: "(unit, wstate) pyfn" where
  "idle_iteration = emit_status (StatusText ''Disconnected'')"

text \<open>\<open>run\<close> (lines 83--104) is \<open>while True:\<close> around the inner loop; the inner loop's
  condition is tested before every inner iteration and again after the inner loop ends, so
  the thread performs, forever, a poll iteration when \<open>self.scope\<close> is set and an idle
  iteration otherwise. \<open>time.sleep\<close> has no effect on the state. \<open>run_step\<close> is one
  such iteration.\<close>

definition run_step :: "(unit, wstate) pyfn" where
  "run_step s = (if scope (wk s) \<noteq> None then poll_iteration s else idle_iteration s)"

text \<open>The first \<open>n\<close> iterations of \<open>run\<close>'s loop.\<close>

primrec run_iterations :: "nat \<Rightarrow> (unit, wstate) pyfn" where
  "run_iterations 0 = pret ()"
| "run_iterations (Suc n) = pbind run_step (\<lambda>_. run_iterations n)"

text \<open>\<open>run\<close> as a whole (lines 83--104): the outer loop kept as a loop with
  \<open>while_option\<close>, over the result of the last iteration. The loop goes on while that
  iteration returned and the loop's test holds (the literal \<open>True\<close> of line 85); an
  exception leaves the loop and the method. When the loop ends normally, line 104 emits
  \<open>finished\<close>. \<open>None\<close> is a loop that never ends.\<close>

definition run :: "wstate \<Rightarrow> (unit, wstate) res option" where
  "run s =
     map_option (\<lambda>r. case r of Ret _ s' \<Rightarrow> emit SigFinished s' | Exc e s' \<Rightarrow> Exc e s')
       (while_option (\<lambda>r. case r of Ret _ s' \<Rightarrow> True | Exc _ _ \<Rightarrow> False)
          (\<lambda>r. run_step (res_state r)) (Ret () s))"

section \<open>What a poll cycle expects and produces\<close>

text \<open>The replies one channel's queries consume when the instrument answers each of them
  (a binary block, then six one-value lists), and the commands the channel loop sends.\<close>

definition channel_replies :: "acq \<Rightarrow> reply list" where
  "channel_replies a =
     [RBlock (acq_raw a), RAscii [acq_xinc a], RAscii [acq_xorg a], RAscii [acq_yinc a],
      RAscii [acq_yorg a], RAscii [acq_vscale a], RAscii [acq_voffset a]]"

definition channel_commands :: "chan \<Rightarrow> scpi list" where
  "channel_commands c =
     [WAV_FORM_BYTE, WAV_SOUR c, WAV_MODE_NORM, WAV_DATA_Q, WAV_XINC_Q, WAV_XOR_Q,
      WAV_YINC_Q, WAV_YOR_Q, CHAN_SCALE_Q c, CHAN_OFFSET_Q c]"

definition poll_replies :: "acq \<Rightarrow> acq \<Rightarrow> reply list" where
  "poll_replies a1 a2 = channel_replies a1 @ channel_replies a2"

definition poll_commands :: "scpi list" where
  "poll_commands = channel_commands CHAN1 @ channel_commands CHAN2"

text \<open>A snapshot object holding one acquisition: the arrays and metadata lines 167--176
  store.\<close>

definition holds_acq :: "acq \<Rightarrow> scope_data \<Rightarrow> bool" where
  "holds_acq a d \<longleftrightarrow>
     sd_x d = time_array (length (acq_raw a)) (acq_xinc a) (acq_xorg a)
   \<and> sd_y d = voltage_array (acq_raw a) (acq_yorg a) (acq_vscale a) (acq_voffset a) (acq_yinc a)
   \<and> waveArrayCount d = length (acq_raw a)
   \<and> horizInterval d = acq_xinc a \<and> horizOffset d = acq_xorg a
   \<and> horUnit d = Some ''s'' \<and> vertUnit d = ''V'' \<and> path d = ''''"

text \<open>The thread's own invariant: every dictionary entry names an allocated object, and the
  two channels name different objects.\<close>

definition worker_inv :: "wstate \<Rightarrow> bool" where
  "worker_inv s \<longleftrightarrow>
     (\<forall>c r. Scope_wave (wk s) c = Some r \<longrightarrow> allocated (hp s) r)
   \<and> (\<forall>r1 r2. Scope_wave (wk s) CHAN1 = Some r1 \<longrightarrow> Scope_wave (wk s) CHAN2 = Some r2 \<longrightarrow> r1 \<noteq> r2)"

text \<open>A concrete connected thread, used to exercise the theorems: a fresh thread whose
  session will answer one poll cycle with two samples on channel 1 and one on channel 2.\<close>

definition demo_acq :: "byte list \<Rightarrow> acq" where
  "demo_acq raw = \<lparr>acq_raw = raw, acq_xinc = 1, acq_xorg = 0, acq_yinc = 0, acq_yorg = 0,
                   acq_vscale = 1, acq_voffset = 0\<rparr>"

definition demo_session_with :: "reply list \<Rightarrow> session" where
  "demo_session_with rs = \<lparr>resource_name = ''TCPIP0::192.168.1.23::inst0::INSTR'', written = [],
     replies = rs, session_open = True\<rparr>"

definition demo_session :: session where
  "demo_session = demo_session_with (poll_replies (demo_acq [128, 228]) (demo_acq [0]))"

definition demo_wstate_with :: "reply list \<Rightarrow> wstate" where
  "demo_wstate_with rs =
     \<lparr>wk = Rigol_get_Data_init\<lparr>scope := Some (demo_session_with rs), rm := Some True\<rparr>,
      hp = empty_heap, outq = []\<rparr>"

definition demo_wstate :: wstate where
  "demo_wstate = demo_wstate_with (poll_replies (demo_acq [128, 228]) (demo_acq [0]))"

text \<open>A thread that has not connected yet, and a bus on which every address fails.\<close>

definition demo_idle :: wstate where
  "demo_idle = \<lparr>wk = Rigol_get_Data_init, hp = empty_heap, outq = []\<rparr>"

definition dead_bus :: visa_bus where
  "dead_bus adr = Inl VisaIOError"

section \<open>Evaluation of one poll cycle\<close>

lemma on_scope_Ret:
  "scope (wk s) = Some sess \<Longrightarrow> m sess = Ret a sess' \<Longrightarrow>
   on_scope m s = Ret a (s\<lparr>wk := (wk s)\<lparr>scope := Some sess'\<rparr>\<rparr>)"
  by (simp add: on_scope_def)

lemma read_channel_ok:
  assumes "scope (wk s) = Some sess" and "session_open sess"
    and "replies sess = channel_replies a @ rest"
  shows "read_channel c s =
     Ret a (s\<lparr>wk := (wk s)\<lparr>scope := Some (sess\<lparr>written := written sess @ channel_commands c,
                                                replies := rest\<rparr>)\<rparr>\<rparr>)"
  using assms
  by (simp add: read_channel_def query_scalar_def on_scope_def pbind_def channel_replies_def
      channel_commands_def py_simps)

lemma pfor_write_field:
  assumes "Scope_wave (wk s) c = Some r"
  shows "pfor ws (write_field c) s = Ret () (s\<lparr>hp := set_field r (fold apply_write ws) (hp s)\<rparr>)"
  using assms
proof (induction ws arbitrary: s)
  case Nil
  then show ?case by (simp add: pret_def)
next
  case (Cons w ws)
  let ?s1 = "s\<lparr>hp := set_field r (apply_write w) (hp s)\<rparr>"
  have "write_field c w s = Ret () ?s1"
    using Cons.prems by (simp add: write_field_def pmodify_def)
  moreover have "pfor ws (write_field c) ?s1 = Ret () (?s1\<lparr>hp := set_field r (fold apply_write ws) (hp ?s1)\<rparr>)"
    using Cons.prems by (intro Cons.IH) simp
  ultimately show ?case
    by (simp add: comp_def)
qed

lemma holds_acq_channel_writes: "holds_acq a (fold apply_write (channel_writes a) d)"
  by (simp add: holds_acq_def channel_writes_def)

lemma holds_acq_consistent: "holds_acq a d \<Longrightarrow> sd_consistent d"
  by (simp add: holds_acq_def sd_consistent_def)

lemma ensure_wave_present:
  "Scope_wave (wk s) c = Some r \<Longrightarrow> ensure_wave c s = Ret () s"
  by (simp add: ensure_wave_def)

lemma ensure_wave_absent:
  assumes "Scope_wave (wk s) c = None"
  shows "ensure_wave c s = Ret ()
     (s\<lparr>hp := set_field (next_ref (hp s)) (sd_y_update (\<lambda>_. [0, 0]) \<circ> sd_x_update (\<lambda>_. [0, 1]))
                 (snd (alloc ScopeData_nativ_init (hp s))),
        wk := (wk s)\<lparr>Scope_wave := (Scope_wave (wk s))(c \<mapsto> next_ref (hp s))\<rparr>\<rparr>)"
  using assms by (simp add: ensure_wave_def alloc_def)

lemma worker_inv_ensure_wave:
  assumes "worker_inv s" and "ensure_wave c s = Ret () s'"
  shows "worker_inv s' \<and> (\<exists>r. Scope_wave (wk s') c = Some r)
       \<and> (\<forall>c'. c' \<noteq> c \<longrightarrow> Scope_wave (wk s') c' = Scope_wave (wk s) c')
       \<and> (\<forall>c' r'. c' \<noteq> c \<longrightarrow> Scope_wave (wk s) c' = Some r' \<longrightarrow> objs (hp s') r' = objs (hp s) r')
       \<and> scope (wk s') = scope (wk s) \<and> outq s' = outq s
       \<and> stop_connection (wk s') = stop_connection (wk s) \<and> rm (wk s') = rm (wk s)"
proof (cases "Scope_wave (wk s) c")
  case None
  have fresh: "\<And>c' r'. Scope_wave (wk s) c' = Some r' \<Longrightarrow> r' \<noteq> next_ref (hp s)"
    using assms(1) by (fastforce simp: worker_inv_def allocated_def)
  show ?thesis
    using assms None fresh
    by (cases c) (auto simp: ensure_wave_absent worker_inv_def allocated_def alloc_def less_Suc_eq split: if_splits dest: fresh)
next
  case (Some r)
  then show ?thesis using assms by (simp add: ensure_wave_present)
qed

lemma ensure_wave_Ret: "\<exists>s'. ensure_wave c s = Ret () s'"
  by (cases "Scope_wave (wk s) c") (auto simp: ensure_wave_present ensure_wave_absent)

lemma worker_inv_cong:
  "Scope_wave (wk s') = Scope_wave (wk s) \<Longrightarrow> next_ref (hp s') = next_ref (hp s) \<Longrightarrow>
   worker_inv s' = worker_inv s"
  by (simp add: worker_inv_def allocated_def)

lemma worker_inv_distinct:
  "worker_inv s \<Longrightarrow> Scope_wave (wk s) c = Some r \<Longrightarrow> Scope_wave (wk s) c' = Some r' \<Longrightarrow>
   c' \<noteq> c \<Longrightarrow> r' \<noteq> r"
  by (cases c; cases c') (auto simp: worker_inv_def)

lemma get_channel_ok:
  assumes inv: "worker_inv s" and sc: "scope (wk s) = Some sess" and op: "session_open sess"
    and rep: "replies sess = channel_replies a @ rest"
  shows "\<exists>s'. get_channel c s = Ret () s' \<and> worker_inv s'
       \<and> (\<exists>r. Scope_wave (wk s') c = Some r \<and> holds_acq a (objs (hp s') r))
       \<and> (\<forall>c'. c' \<noteq> c \<longrightarrow> Scope_wave (wk s') c' = Scope_wave (wk s) c')
       \<and> (\<forall>c' r'. c' \<noteq> c \<longrightarrow> Scope_wave (wk s) c' = Some r' \<longrightarrow> objs (hp s') r' = objs (hp s) r')
       \<and> scope (wk s') = Some (sess\<lparr>written := written sess @ channel_commands c, replies := rest\<rparr>)
       \<and> outq s' = outq s @ [SigStatus (ReadStatus c (length (acq_raw a)))]
       \<and> stop_connection (wk s') = stop_connection (wk s) \<and> rm (wk s') = rm (wk s)"
proof -
  obtain s1 where e: "ensure_wave c s = Ret () s1"
    using ensure_wave_Ret by blast
  note f1 = worker_inv_ensure_wave [OF inv e]
  then obtain r where r: "Scope_wave (wk s1) c = Some r" by blast
  let ?sess' = "sess\<lparr>written := written sess @ channel_commands c, replies := rest\<rparr>"
  let ?s2 = "s1\<lparr>wk := (wk s1)\<lparr>scope := Some ?sess'\<rparr>\<rparr>"
  let ?s3 = "?s2\<lparr>hp := set_field r (fold apply_write (channel_writes a)) (hp ?s2)\<rparr>"
  let ?s4 = "?s3\<lparr>outq := outq ?s3 @ [SigStatus (ReadStatus c (length (acq_raw a)))]\<rparr>"
  have rd: "read_channel c s1 = Ret a ?s2"
    using f1 sc op rep by (simp add: read_channel_ok)
  have wr: "pfor (channel_writes a) (write_field c) ?s2 = Ret () ?s3"
    using r by (simp add: pfor_write_field)
  have run: "get_channel c s = Ret () ?s4"
    using e rd wr by (simp add: get_channel_def emit_status_def emit_def pmodify_def)
  have other: "\<forall>c' r'. c' \<noteq> c \<longrightarrow> Scope_wave (wk s) c' = Some r' \<longrightarrow> objs (hp ?s4) r' = objs (hp s) r'"
    using f1 r worker_inv_distinct [of s1 c r] by auto
  have "worker_inv ?s4"
    using f1 worker_inv_cong [of ?s4 s1] by simp
  then show ?thesis
    using f1 r other run by (auto simp: holds_acq_channel_writes)
qed

lemma getData_online_cycle:
  assumes inv: "worker_inv s" and sc: "scope (wk s) = Some sess" and op: "session_open sess"
    and rep: "replies sess = poll_replies a1 a2 @ rest"
  shows "\<exists>s'. getData_online s = Ret True s' \<and> worker_inv s'
       \<and> scope (wk s') = Some (sess\<lparr>written := written sess @ poll_commands, replies := rest\<rparr>)
       \<and> (\<exists>r1 r2. Scope_wave (wk s') CHAN1 = Some r1 \<and> Scope_wave (wk s') CHAN2 = Some r2
                 \<and> holds_acq a1 (objs (hp s') r1) \<and> holds_acq a2 (objs (hp s') r2))
       \<and> outq s' = outq s @ [SigStatus (ReadStatus CHAN1 (length (acq_raw a1))),
                            SigStatus (ReadStatus CHAN2 (length (acq_raw a2)))]
       \<and> stop_connection (wk s') = stop_connection (wk s) \<and> rm (wk s') = rm (wk s)"
proof -
  obtain s1 where g1: "get_channel CHAN1 s = Ret () s1" and f1:
      "worker_inv s1 \<and> (\<exists>r. Scope_wave (wk s1) CHAN1 = Some r \<and> holds_acq a1 (objs (hp s1) r))
       \<and> (\<forall>c'. c' \<noteq> CHAN1 \<longrightarrow> Scope_wave (wk s1) c' = Scope_wave (wk s) c')
       \<and> scope (wk s1) = Some (sess\<lparr>written := written sess @ channel_commands CHAN1,
                                   replies := channel_replies a2 @ rest\<rparr>)
       \<and> outq s1 = outq s @ [SigStatus (ReadStatus CHAN1 (length (acq_raw a1)))]
       \<and> stop_connection (wk s1) = stop_connection (wk s) \<and> rm (wk s1) = rm (wk s)"
    using get_channel_ok [OF inv sc op, of a1 "channel_replies a2 @ rest" CHAN1] rep
    by (auto simp: poll_replies_def)
  let ?sess1 = "sess\<lparr>written := written sess @ channel_commands CHAN1,
                     replies := channel_replies a2 @ rest\<rparr>"
  obtain s2 where g2: "get_channel CHAN2 s1 = Ret () s2" and f2:
      "worker_inv s2 \<and> (\<exists>r. Scope_wave (wk s2) CHAN2 = Some r \<and> holds_acq a2 (objs (hp s2) r))
       \<and> (\<forall>c'. c' \<noteq> CHAN2 \<longrightarrow> Scope_wave (wk s2) c' = Scope_wave (wk s1) c')
       \<and> (\<forall>c' r'. c' \<noteq> CHAN2 \<longrightarrow> Scope_wave (wk s1) c' = Some r' \<longrightarrow> objs (hp s2) r' = objs (hp s1) r')
       \<and> scope (wk s2) = Some (?sess1\<lparr>written := written ?sess1 @ channel_commands CHAN2, replies := rest\<rparr>)
       \<and> outq s2 = outq s1 @ [SigStatus (ReadStatus CHAN2 (length (acq_raw a2)))]
       \<and> stop_connection (wk s2) = stop_connection (wk s1) \<and> rm (wk s2) = rm (wk s1)"
    using get_channel_ok [of s1 ?sess1 a2 rest CHAN2] f1 op by auto
  have run: "getData_online s = Ret True s2"
    using g1 g2 by (simp add: getData_online_def channels_def pret_def)
  show ?thesis
    using run f1 f2 by (auto simp: poll_commands_def)
qed

section \<open>Connection, teardown, failures\<close>

lemma connect_scope_ADR_visa_error:
  "bus ADR = Inl VisaIOError \<Longrightarrow>
   connect_scope_ADR bus ADR s = Ret None (s\<lparr>wk := (wk s)\<lparr>rm := Some True\<rparr>\<rparr>)"
  by (simp add: connect_scope_ADR_def pwk_def ptry_def pbind_def plift_def pmodify_def pret_def open_resource_def)

lemma connect_scope_ADR_other_error:
  "bus ADR = Inl e \<Longrightarrow> e \<noteq> VisaIOError \<Longrightarrow>
   connect_scope_ADR bus ADR s = Exc e (s\<lparr>wk := (wk s)\<lparr>rm := Some True\<rparr>\<rparr>)"
  by (simp add: connect_scope_ADR_def pwk_def ptry_def pbind_def plift_def pmodify_def pret_def open_resource_def)

lemma connect_scope_ADR_ok:
  "bus ADR = Inr rs \<Longrightarrow>
   connect_scope_ADR bus ADR s =
     Ret (Some \<lparr>resource_name = ADR, written = [], replies = rs, session_open = True\<rparr>)
       (s\<lparr>wk := (wk s)\<lparr>rm := Some True,
                        scope := Some \<lparr>resource_name = ADR, written = [], replies = rs, session_open = True\<rparr>,
                        stop_connection := False\<rparr>\<rparr>)"
  by (simp add: connect_scope_ADR_def pwk_def ptry_def pbind_def plift_def pmodify_def pret_def
      open_resource_def)

lemma run_step_idle:
  "scope (wk s) = None \<Longrightarrow>
   run_step s = Ret () (s\<lparr>outq := outq s @ [SigStatus (StatusText ''Disconnected'')]\<rparr>)"
  by (simp add: run_step_def idle_iteration_def emit_status_def emit_def pmodify_def)

text \<open>Claim C11: a connection attempt that pyvisa refuses with \<open>VisaIOError\<close> returns
  \<open>None\<close> and leaves a disconnected thread disconnected, and the thread's next loop
  iteration only reports \<open>"Disconnected"\<close>, with no instrument I/O.\<close>

theorem connect_failure_stays_idle:
  assumes "bus ADR = Inl VisaIOError" and "scope (wk s) = None"
  shows "\<exists>s'. connect_scope_ADR bus ADR s = Ret None s' \<and> scope (wk s') = None
             \<and> run_step s' = Ret () (s'\<lparr>outq := outq s' @ [SigStatus (StatusText ''Disconnected'')]\<rparr>)"
  using assms by (simp add: connect_scope_ADR_visa_error run_step_idle)

text \<open>Claim C12: requesting a disconnect on a thread that is not connected, even twice, only
  sets the stop flag: the next loop iteration closes nothing and only reports
  \<open>"Disconnected"\<close>.\<close>

theorem disconnect_when_idle_is_noop:
  assumes "scope (wk s) = None"
  shows "pbind Disconnect_scope (\<lambda>_. pbind Disconnect_scope (\<lambda>_. run_step)) s =
         Ret () (s\<lparr>wk := (wk s)\<lparr>stop_connection := True\<rparr>,
                   outq := outq s @ [SigStatus (StatusText ''Disconnected'')]\<rparr>)"
  using assms by (simp add: Disconnect_scope_def pwk_def pmodify_def run_step_idle)


lemma read_channel_truncated:
  assumes "scope (wk s) = Some sess" and "session_open sess"
    and "replies sess = take k (channel_replies a)" and "k < 7"
  shows "\<exists>s'. read_channel c s = Exc VisaIOError s'"
proof -
  from assms(4) have "k = 0 \<or> k = 1 \<or> k = 2 \<or> k = 3 \<or> k = 4 \<or> k = 5 \<or> k = 6"
    by arith
  then show ?thesis
    using assms(1-3)
    by (elim disjE) (simp_all add: read_channel_def query_scalar_def on_scope_def pbind_def
        channel_replies_def py_simps)
qed

lemma get_channel_read_fails:
  assumes "worker_inv s" and "scope (wk s) = Some sess" and "session_open sess"
    and "replies sess = take k (channel_replies a)" and "k < 7"
  shows "\<exists>s'. get_channel c s = Exc VisaIOError s'"
proof -
  obtain s1 where e: "ensure_wave c s = Ret () s1"
    using ensure_wave_Ret by blast
  with assms(1) have "scope (wk s1) = Some sess"
    using worker_inv_ensure_wave assms(2) by simp
  then obtain s2 where "read_channel c s1 = Exc VisaIOError s2"
    using read_channel_truncated assms(3-5) by blast
  with e show ?thesis
    by (simp add: get_channel_def)
qed

lemma length_channel_replies [simp]: "length (channel_replies a) = 7"
  by (simp add: channel_replies_def)

lemma truncated_replies_raise:
  assumes "worker_inv s" and "scope (wk s) = Some sess" and "session_open sess"
    and "replies sess = take k (poll_replies a1 a2)" and "k < 14"
  shows "\<exists>s'. run_step s = Exc VisaIOError s'"
proof -
  have "\<exists>s'. pfor channels get_channel s = Exc VisaIOError s'"
  proof (cases "k < 7")
    case True
    then have "replies sess = take k (channel_replies a1)"
      using assms(4) by (simp add: poll_replies_def)
    then obtain s' where "get_channel CHAN1 s = Exc VisaIOError s'"
      using get_channel_read_fails assms(1-3) True by blast
    then show ?thesis by (simp add: channels_def)
  next
    case False
    then have rep: "replies sess = channel_replies a1 @ take (k - 7) (channel_replies a2)"
      using assms(4) by (simp add: poll_replies_def)
    obtain s1 where g1: "get_channel CHAN1 s = Ret () s1" and i1: "worker_inv s1"
      and sc1: "scope (wk s1) = Some (sess\<lparr>written := written sess @ channel_commands CHAN1,
                                           replies := take (k - 7) (channel_replies a2)\<rparr>)"
      using get_channel_ok [OF assms(1-3) rep, of CHAN1] by blast
    obtain s2 where "get_channel CHAN2 s1 = Exc VisaIOError s2"
      using get_channel_read_fails [OF i1 sc1] assms(3,5) False by fastforce
    with g1 show ?thesis by (simp add: channels_def)
  qed
  then show ?thesis
    using assms(2)
    by (auto simp: run_step_def poll_iteration_def getData_online_def)
qed

text \<open>Claim C2: if the instrument stops answering part-way through a poll cycle (it gives
  only the first \<open>k < 14\<close> of the replies the cycle needs), the read times out and the
  \<open>VisaIOError\<close> escapes \<open>run\<close>: the loop has no handler, so the acquisition thread
  ends with that exception, whatever number of further iterations is asked for.\<close>

corollary truncated_replies_end_thread:
  assumes "worker_inv s" and "scope (wk s) = Some sess" and "session_open sess"
    and "replies sess = take k (poll_replies a1 a2)" and "k < 14"
  shows "\<exists>s'. run_iterations (Suc n) s = Exc VisaIOError s'"
  using truncated_replies_raise [OF assms] by auto


lemma keeps_on_scope [keeps_intros]:
  "(\<And>s x. P (s\<lparr>wk := (wk s)\<lparr>scope := x\<rparr>\<rparr>) = P s) \<Longrightarrow> keeps P (on_scope m)"
  by (auto simp: keeps_def on_scope_def split: option.splits res.splits)

lemma keeps_ensure_wave_entry:
  "keeps (\<lambda>s. Scope_wave (wk s) c = Some r) (ensure_wave c')"
  by (auto simp: keeps_def ensure_wave_def Let_def split: prod.splits)

lemma keeps_get_channel_entry:
  "keeps (\<lambda>s. Scope_wave (wk s) c = Some r) (get_channel c')"
  unfolding get_channel_def read_channel_def query_scalar_def write_field_def emit_status_def emit_def
  by (intro keeps_intros keeps_ensure_wave_entry) simp_all

text \<open>Claim C9: once a channel has an object in \<open>Scope_wave\<close>, a poll cycle on an
  answering instrument keeps that same object under the channel's name and assigns the
  new capture into its fields: a snapshot object already published to the display is
  mutated in place rather than replaced.\<close>

theorem getData_online_reuses_object:
  assumes inv: "worker_inv s" and sc: "scope (wk s) = Some sess" and op: "session_open sess"
    and rep: "replies sess = poll_replies a1 a2 @ rest" and r: "Scope_wave (wk s) c = Some r"
  shows "\<exists>s'. getData_online s = Ret True s' \<and> Scope_wave (wk s') c = Some r
            \<and> holds_acq (if c = CHAN1 then a1 else a2) (objs (hp s') r)"
proof -
  obtain s' r1 r2 where g: "getData_online s = Ret True s'" and e1: "Scope_wave (wk s') CHAN1 = Some r1"
    and e2: "Scope_wave (wk s') CHAN2 = Some r2"
    and h1: "holds_acq a1 (objs (hp s') r1)" and h2: "holds_acq a2 (objs (hp s') r2)"
    using getData_online_cycle [OF inv sc op rep] by blast
  have "keeps (\<lambda>s. Scope_wave (wk s) c = Some r) getData_online"
    unfolding getData_online_def by (intro keeps_intros keeps_get_channel_entry)
  from keepsD [OF this r] g have k: "Scope_wave (wk s') c = Some r" by simp
  show ?thesis
    using g k e1 e2 h1 h2 by (cases c) auto
qed

lemma keeps_ensure_wave_outq:
  "keeps (\<lambda>s. P (outq s)) (ensure_wave c)"
  by (auto simp: keeps_def ensure_wave_def Let_def split: prod.splits)

lemma keeps_rm_close_outq: "keeps (\<lambda>s. P (outq s)) rm_close"
  by (auto simp: keeps_def rm_close_def split: option.splits)

text \<open>Claim C18: the worker never emits its \<open>finished\<close> signal: the loop's test is
  \<open>True\<close>, so \<open>run\<close> only ever leaves its loop by an exception, which skips line 104;
  none of the iterations before emits it either.\<close>

theorem finished_never_emitted:
  assumes "SigFinished \<notin> set (outq s)"
  shows "(\<forall>n. SigFinished \<notin> set (outq (res_state (run_iterations n s))))
       \<and> (\<forall>r. run s = Some r \<longrightarrow> (\<exists>e s'. r = Exc e s' \<and> SigFinished \<notin> set (outq s')))"
proof -
  let ?P = "\<lambda>s. SigFinished \<notin> set (outq s)"
  have gc: "keeps ?P (get_channel c)" for c
    unfolding get_channel_def read_channel_def query_scalar_def write_field_def emit_status_def emit_def
    by (intro keeps_intros keeps_ensure_wave_outq) simp_all
  have step: "keeps ?P run_step"
  proof -
    have "keeps ?P poll_iteration"
      unfolding poll_iteration_def poll_tail_def getData_online_def wave_ref_def emit_def close_connection_def pwk_def
      by (intro keeps_intros gc keeps_rm_close_outq) simp_all
    moreover have "keeps ?P idle_iteration"
      unfolding idle_iteration_def emit_status_def emit_def by (intro keeps_intros) simp
    ultimately show ?thesis
      by (auto simp: keeps_def run_step_def)
  qed
  have kn: "keeps ?P (run_iterations n)" for n
    using step by (induction n) (simp_all add: keeps_intros)
  have its: "\<forall>n. ?P (res_state (run_iterations n s))" using kn assms by (simp add: keeps_def)
  have loop: "\<exists>e s'. r = Exc e s' \<and> ?P s'" if r: "run s = Some r" for r
  proof -
    let ?b = "\<lambda>r :: (unit, wstate) res. case r of Ret _ s' \<Rightarrow> True | Exc _ _ \<Rightarrow> False"
    obtain t where w: "while_option ?b (\<lambda>r. run_step (res_state r)) (Ret () s) = Some t"
      and rt: "r = (case t of Ret _ s' \<Rightarrow> emit SigFinished s' | Exc e s' \<Rightarrow> Exc e s')"
      using r by (auto simp: run_def)
    have "?P (res_state t)"
      by (rule while_option_rule [where P = "\<lambda>r. ?P (res_state r)", OF _ w])
        (use assms keepsD [OF step] in simp_all)
    moreover have "\<not> ?b t" using while_option_stop [OF w] .
    ultimately show ?thesis using rt by (cases t) auto
  qed
  show ?thesis using its loop by blast
qed

lemma wave_ref_Some: "Scope_wave (wk s) c = Some r \<Longrightarrow> wave_ref c s = Ret r s"
  by (simp add: wave_ref_def)

text \<open>Claim C10: a disconnect request on a connected thread is served by the current loop
  iteration: after a complete poll cycle (both snapshots emitted) the session and the
  resource manager are closed and \<open>self.scope\<close> is cleared, and the next iteration only
  reports \<open>"Disconnected"\<close>.\<close>

theorem stop_request_closes_after_cycle:
  assumes inv: "worker_inv s" and sc: "scope (wk s) = Some sess" and op: "session_open sess"
    and rep: "replies sess = poll_replies a1 a2 @ rest"
    and stop: "stop_connection (wk s)" and rmset: "rm (wk s) \<noteq> None"
  shows "\<exists>s'. run_step s = Ret () s' \<and> scope (wk s') = None \<and> rm (wk s') = Some False
          \<and> (\<exists>r1 r2. outq s' = outq s @ [SigStatus (ReadStatus CHAN1 (length (acq_raw a1))),
                                        SigStatus (ReadStatus CHAN2 (length (acq_raw a2))),
                                        SigCH1 r1, SigCH2 r2])
          \<and> run_step s' = Ret () (s'\<lparr>outq := outq s' @ [SigStatus (StatusText ''Disconnected'')]\<rparr>)"
proof -
  obtain s1 r1 r2 sess1 where g: "getData_online s = Ret True s1"
    and sc1: "scope (wk s1) = Some sess1" and r1: "Scope_wave (wk s1) CHAN1 = Some r1"
    and r2: "Scope_wave (wk s1) CHAN2 = Some r2"
    and q1: "outq s1 = outq s @ [SigStatus (ReadStatus CHAN1 (length (acq_raw a1))),
                                SigStatus (ReadStatus CHAN2 (length (acq_raw a2)))]"
    and st1: "stop_connection (wk s1)" and rm1: "rm (wk s1) = rm (wk s)"
    using getData_online_cycle [OF inv sc op rep] stop by blast
  let ?s2 = "s1\<lparr>outq := outq s1 @ [SigCH1 r1, SigCH2 r2]\<rparr>"
  let ?s3 = "?s2\<lparr>wk := (wk ?s2)\<lparr>scope := None, rm := Some False\<rparr>\<rparr>"
  have "close_connection ?s2 = Ret () ?s3"
    using sc1 rm1 rmset
    by (auto simp: close_connection_def on_scope_def sess_close_def rm_close_def pwk_def pmodify_def)
  then have "run_step s = Ret () ?s3"
    using g sc r1 r2 st1
    by (simp add: run_step_def poll_iteration_def poll_tail_def wave_ref_Some emit_def pmodify_def)
  then show ?thesis
    using q1 by (simp add: run_step_idle)
qed


section \<open>The thread invariant over the whole loop\<close>

lemma keeps_run_iterations:
  assumes "keeps P poll_iteration" and "keeps P idle_iteration"
  shows "keeps P (run_iterations n)"
proof -
  have "keeps P run_step"
    using assms by (auto simp: keeps_def run_step_def)
  then show ?thesis
    by (induction n) (simp_all add: keeps_intros)
qed

lemma keeps_poll_iteration:
  assumes "\<And>c. keeps P (get_channel c)" and "keeps P close_connection"
    and "\<And>sig. keeps P (emit sig)"
  shows "keeps P poll_iteration"
  unfolding poll_iteration_def poll_tail_def getData_online_def wave_ref_def
  by (intro keeps_intros assms)

lemma worker_inv_wk_update [simp]:
  "Scope_wave (f (wk s)) = Scope_wave (wk s) \<Longrightarrow> worker_inv (wk_update f s) = worker_inv s"
  by (simp add: worker_inv_def)

lemma worker_inv_hp_update [simp]:
  "next_ref (f (hp s)) = next_ref (hp s) \<Longrightarrow> worker_inv (hp_update f s) = worker_inv s"
  by (simp add: worker_inv_def allocated_def)

lemma worker_inv_outq_update [simp]: "worker_inv (outq_update f s) = worker_inv s"
  by (simp add: worker_inv_def)

lemma keeps_worker_inv_ensure_wave: "keeps worker_inv (ensure_wave c)"
  unfolding keeps_def by (metis ensure_wave_Ret res_state.simps(1) worker_inv_ensure_wave)

lemma keeps_worker_inv_get_channel: "keeps worker_inv (get_channel c)"
  unfolding get_channel_def read_channel_def query_scalar_def write_field_def emit_status_def emit_def
  by (intro keeps_intros keeps_worker_inv_ensure_wave) simp_all

lemma keeps_worker_inv_close_connection: "keeps worker_inv close_connection"
proof -
  have "keeps worker_inv rm_close"
    by (auto simp: keeps_def rm_close_def split: option.splits)
  then show ?thesis
    unfolding close_connection_def pwk_def by (intro keeps_intros) simp_all
qed

text \<open>Claim C25: the thread's invariant is a type of its state: every iteration of \<open>run\<close>,
  whatever the instrument answers and whether it returns or raises, leaves every entry of
  \<open>Scope_wave\<close> naming an allocated object and the two channels naming different objects.\<close>

theorem run_keeps_worker_inv:
  assumes "worker_inv s"
  shows "worker_inv (res_state (run_iterations n s))"
proof -
  have em: "keeps worker_inv (emit sig)" for sig
    unfolding emit_def by (intro keeps_intros) simp
  have "keeps worker_inv (run_iterations n)"
  proof (rule keeps_run_iterations)
    show "keeps worker_inv poll_iteration"
      by (intro keeps_poll_iteration keeps_worker_inv_get_channel keeps_worker_inv_close_connection em)
    show "keeps worker_inv idle_iteration"
      unfolding idle_iteration_def emit_status_def by (rule em)
  qed
  then show ?thesis using assms by (rule keepsD)
qed

section \<open>Claims\<close>

text \<open>Claim C1: on a connected thread whose instrument answers every query of the cycle,
  \<open>getData_online\<close> returns \<open>True\<close>, sends exactly the SCPI commands of both channels in
  the source's order, leaves in the objects named by \<open>Scope_wave['CHAN1']\<close> and
  \<open>Scope_wave['CHAN2']\<close> the time and voltage arrays computed from that channel's replies,
  emits one read status per channel, and keeps the thread's invariant.\<close>

theorem getData_online_stores_snapshots:
  assumes inv: "worker_inv s" and sc: "scope (wk s) = Some sess" and op: "session_open sess"
    and rep: "replies sess = poll_replies a1 a2 @ rest"
  shows "\<exists>s'. getData_online s = Ret True s' \<and> worker_inv s'
       \<and> scope (wk s') = Some (sess\<lparr>written := written sess @ poll_commands, replies := rest\<rparr>)
       \<and> (\<exists>r1 r2. Scope_wave (wk s') CHAN1 = Some r1 \<and> Scope_wave (wk s') CHAN2 = Some r2
                 \<and> holds_acq a1 (objs (hp s') r1) \<and> holds_acq a2 (objs (hp s') r2))
       \<and> outq s' = outq s @ [SigStatus (ReadStatus CHAN1 (length (acq_raw a1))),
                            SigStatus (ReadStatus CHAN2 (length (acq_raw a2)))]
       \<and> stop_connection (wk s') = stop_connection (wk s) \<and> rm (wk s') = rm (wk s)"
  using assms by (rule getData_online_cycle)

section \<open>Witnesses\<close>

theorem getData_online_stores_snapshots_witness:
  "worker_inv demo_wstate \<and> scope (wk demo_wstate) = Some demo_session \<and> session_open demo_session
   \<and> replies demo_session = poll_replies (demo_acq [128, 228]) (demo_acq [0]) @ []
   \<and> (\<exists>s'. getData_online demo_wstate = Ret True s'
          \<and> (\<exists>r1. Scope_wave (wk s') CHAN1 = Some r1
                 \<and> holds_acq (demo_acq [128, 228]) (objs (hp s') r1)))"
proof -
  have h: "worker_inv demo_wstate" "scope (wk demo_wstate) = Some demo_session"
    "session_open demo_session" "replies demo_session = poll_replies (demo_acq [128, 228]) (demo_acq [0]) @ []"
    by (simp_all add: worker_inv_def demo_wstate_def demo_wstate_with_def Rigol_get_Data_init_def
        demo_session_def demo_session_with_def)
  show ?thesis
    using h getData_online_stores_snapshots [OF h] by blast
qed

theorem connect_failure_stays_idle_witness:
  "dead_bus ''TCPIP0::10.0.0.1::inst0::INSTR'' = Inl VisaIOError \<and> scope (wk demo_idle) = None
   \<and> (\<exists>s'. connect_scope_ADR dead_bus ''TCPIP0::10.0.0.1::inst0::INSTR'' demo_idle = Ret None s'
          \<and> scope (wk s') = None)"
proof -
  have h: "dead_bus ''TCPIP0::10.0.0.1::inst0::INSTR'' = Inl VisaIOError" "scope (wk demo_idle) = None"
    by (simp_all add: dead_bus_def demo_idle_def Rigol_get_Data_init_def)
  show ?thesis
    using h connect_failure_stays_idle [of dead_bus "''TCPIP0::10.0.0.1::inst0::INSTR''" demo_idle]
    by blast
qed

theorem disconnect_when_idle_is_noop_witness:
  "scope (wk demo_idle) = None \<and>
   pbind Disconnect_scope (\<lambda>_. pbind Disconnect_scope (\<lambda>_. run_step)) demo_idle =
     Ret () (demo_idle\<lparr>wk := (wk demo_idle)\<lparr>stop_connection := True\<rparr>,
                       outq := [SigStatus (StatusText ''Disconnected'')]\<rparr>)"
proof -
  have h: "scope (wk demo_idle) = None"
    by (simp add: demo_idle_def Rigol_get_Data_init_def)
  show ?thesis
    using h disconnect_when_idle_is_noop [OF h] by (simp add: demo_idle_def)
qed

theorem truncated_replies_end_thread_witness:
  "worker_inv (demo_wstate_with (take 9 (poll_replies (demo_acq [1]) (demo_acq [2]))))
   \<and> (\<exists>s'. run_iterations 5 (demo_wstate_with (take 9 (poll_replies (demo_acq [1]) (demo_acq [2]))))
            = Exc VisaIOError s')"
proof -
  let ?rs = "take 9 (poll_replies (demo_acq [1]) (demo_acq [2]))"
  have h: "worker_inv (demo_wstate_with ?rs)"
    "scope (wk (demo_wstate_with ?rs)) = Some (demo_session_with ?rs)"
    "session_open (demo_session_with ?rs)"
    "replies (demo_session_with ?rs) = ?rs" "(9::nat) < 14"
    by (simp_all add: worker_inv_def demo_wstate_with_def demo_session_with_def Rigol_get_Data_init_def)
  from truncated_replies_end_thread [OF h, of 4] h(1) show ?thesis
    by (simp add: numeral_eq_Suc)
qed

theorem getData_online_reuses_object_witness:
  "\<exists>s1 s2 r. getData_online (demo_wstate_with (poll_replies (demo_acq [1]) (demo_acq [2])
                                                @ poll_replies (demo_acq [3, 4]) (demo_acq [5]))) = Ret True s1
     \<and> worker_inv s1 \<and> Scope_wave (wk s1) CHAN1 = Some r \<and> getData_online s1 = Ret True s2
     \<and> Scope_wave (wk s2) CHAN1 = Some r \<and> holds_acq (demo_acq [3, 4]) (objs (hp s2) r)"
proof -
  let ?rs2 = "poll_replies (demo_acq [3, 4]) (demo_acq [5])"
  let ?s0 = "demo_wstate_with (poll_replies (demo_acq [1]) (demo_acq [2]) @ ?rs2)"
  let ?sess1 = "(demo_session_with (poll_replies (demo_acq [1]) (demo_acq [2]) @ ?rs2))
                 \<lparr>written := poll_commands, replies := ?rs2\<rparr>"
  have i0: "worker_inv ?s0" and sc0: "scope (wk ?s0) = Some (demo_session_with (poll_replies (demo_acq [1]) (demo_acq [2]) @ ?rs2))"
    by (simp_all add: worker_inv_def demo_wstate_with_def Rigol_get_Data_init_def)
  obtain s1 r where g1: "getData_online ?s0 = Ret True s1" and i1: "worker_inv s1"
    and sc1: "scope (wk s1) = Some ?sess1" and r: "Scope_wave (wk s1) CHAN1 = Some r"
    using getData_online_cycle [OF i0 sc0, of "demo_acq [1]" "demo_acq [2]" ?rs2]
    by (auto simp: demo_session_with_def)
  have op1: "session_open ?sess1" and rep1: "replies ?sess1 = ?rs2 @ []"
    by (simp_all add: demo_session_with_def)
  obtain s2 where g2: "getData_online s1 = Ret True s2" and r2: "Scope_wave (wk s2) CHAN1 = Some r"
    and h2: "holds_acq (demo_acq [3, 4]) (objs (hp s2) r)"
    using getData_online_reuses_object [OF i1 sc1 op1 rep1 r] by auto
  with g1 i1 r show ?thesis by auto
qed

theorem stop_request_closes_after_cycle_witness:
  "\<exists>s'. run_step (demo_wstate\<lparr>wk := (wk demo_wstate)\<lparr>stop_connection := True\<rparr>\<rparr>) = Ret () s'
       \<and> scope (wk s') = None \<and> rm (wk s') = Some False"
proof -
  let ?s = "demo_wstate\<lparr>wk := (wk demo_wstate)\<lparr>stop_connection := True\<rparr>\<rparr>"
  have h: "worker_inv ?s" "scope (wk ?s) = Some demo_session" "session_open demo_session"
    "replies demo_session = poll_replies (demo_acq [128, 228]) (demo_acq [0]) @ []"
    "stop_connection (wk ?s)" "rm (wk ?s) \<noteq> None"
    by (simp_all add: worker_inv_def demo_wstate_def demo_wstate_with_def demo_session_def
        demo_session_with_def Rigol_get_Data_init_def)
  show ?thesis
    using stop_request_closes_after_cycle [OF h] by blast
qed

theorem finished_never_emitted_witness:
  "SigFinished \<notin> set (outq demo_wstate)
   \<and> SigFinished \<notin> set (outq (res_state (run_iterations 3 demo_wstate)))
   \<and> (\<exists>s'. run (demo_wstate_with []) = Some (Exc VisaIOError s') \<and> SigFinished \<notin> set (outq s'))"
proof -
  have h: "SigFinished \<notin> set (outq demo_wstate)"
    by (simp add: demo_wstate_def demo_wstate_with_def)
  have h0: "SigFinished \<notin> set (outq (demo_wstate_with []))"
    by (simp add: demo_wstate_with_def)
  obtain s1 where st: "run_step (demo_wstate_with []) = Exc VisaIOError s1"
    using truncated_replies_raise [of "demo_wstate_with []" "demo_session_with []" 0]
    by (auto simp: worker_inv_def demo_wstate_with_def Rigol_get_Data_init_def demo_session_with_def)
  have r: "run (demo_wstate_with []) = Some (Exc VisaIOError s1)"
    unfolding run_def by (subst while_option_unfold, simp add: st, subst while_option_unfold, simp)
  show ?thesis
    using h finished_never_emitted [OF h] finished_never_emitted [OF h0] r by blast
qed

theorem run_keeps_worker_inv_witness:
  "worker_inv demo_wstate \<and> worker_inv (res_state (run_iterations 2 demo_wstate))"
proof -
  have "worker_inv demo_wstate"
    by (simp add: worker_inv_def demo_wstate_def demo_wstate_with_def Rigol_get_Data_init_def)
  then show ?thesis using run_keeps_worker_inv [of demo_wstate 2] by simp
qed

end
