(* ===== verification/Display.thy ===== *)
theory Display
  imports Worker
begin

text \<open>
  The window class \<open>Rigol_Live\<close> (src/Rigol_Live_View.py, lines 183--407) and the
  application state it forms with its worker thread. The UI thread owns the record
  \<open>display\<close>: the pyqtgraph window, plot item and the two curves, the dictionary of
  received snapshots (a reference per channel into the shared object heap), the
  connection combo box, the status bar and the redraw timer. pyqtgraph and Qt are not
  part of the repository; their objects are modelled by the state the code sets on them
  (ranges, data, visibility), and \<open>PlotItem.plot\<close>/\<open>setData\<close> refuse x and y arrays of
  different lengths, as pyqtgraph does.
\<close>

section \<open>State\<close>

record curve =
  c_x :: "real list"
  c_y :: "real list"
  c_pen :: string

text \<open>The plot item: its title (\<open>None\<close> for the initial \<open>"PyQtGraph Test"\<close>,
  \<open>Some n\<close> for \<open>f"PyQtGraph Test {n}"\<close>), the ranges the code sets, and the axis and
  grid settings.\<close>

record plot_item =
  plot_title :: "nat option"
  xrange :: "(real \<times> real) option"
  yrange :: "(real \<times> real) option"
  left_range :: "(real \<times> real) option"
  right_range :: "(real \<times> real) option"
  right_axis_shown :: bool
  grid_shown :: bool

text \<open>What the status bar shows: a literal text of the window, or a status emitted by
  the worker; with the display timeout in milliseconds, \<open>None\<close> for none.\<close>

datatype shown = ShownText string | ShownStatus status

record display =
  LiveG_win :: bool
  LiveG_shown :: bool
  plotitem :: plot_item
  plotdataitem :: "curve option"
  plotdataitem1 :: "curve option"
  disp_Scope_wave :: "chan \<rightharpoonup> ref"
  combo_items :: "string list"
  combo_text :: string
  status_bar :: "(shown \<times> nat option) option"
  pqTimer :: bool

text \<open>The application: the window and the worker thread object it owns
  (\<open>self.Rigol_thread\<close>). The worker's pending signals (\<open>outq\<close>) are the Qt queued
  connections not yet delivered to the UI thread.\<close>

record app =
  ui :: display
  thr :: wstate

section \<open>Statements on the window and the application\<close>

definition on_ui :: "('a, display) pyfn \<Rightarrow> ('a, app) pyfn" where
  "on_ui m s =
     (case m (ui s) of
        Ret a d \<Rightarrow> Ret a (s\<lparr>ui := d\<rparr>)
      | Exc e d \<Rightarrow> Exc e (s\<lparr>ui := d\<rparr>))"

definition on_thread :: "('a, wstate) pyfn \<Rightarrow> ('a, app) pyfn" where
  "on_thread m s =
     (case m (thr s) of
        Ret a w \<Rightarrow> Ret a (s\<lparr>thr := w\<rparr>)
      | Exc e w \<Rightarrow> Exc e (s\<lparr>thr := w\<rparr>))"

definition pui :: "(display \<Rightarrow> display) \<Rightarrow> (unit, display) pyfn" where
  "pui f = pmodify f"

definition showMessage :: "shown \<Rightarrow> nat option \<Rightarrow> (unit, display) pyfn" where
  "showMessage msg timeout = pui (status_bar_update (\<lambda>_. Some (msg, timeout)))"

text \<open>\<open>PlotItem.plot(x=x, y=y, pen=p)\<close> and \<open>PlotDataItem.setData(x=x, y=y)\<close>.\<close>

definition mk_curve :: "real list \<Rightarrow> real list \<Rightarrow> string \<Rightarrow> py_exc + curve" where
  "mk_curve xs ys p =
     (if length xs = length ys then Inr \<lparr>c_x = xs, c_y = ys, c_pen = p\<rparr> else Inl ShapeError)"

definition set_data :: "real list \<Rightarrow> real list \<Rightarrow> curve \<Rightarrow> py_exc + curve" where
  "set_data xs ys cv = (if length xs = length ys then Inr (cv\<lparr>c_x := xs, c_y := ys\<rparr>) else Inl ShapeError)"

section \<open>Slots\<close>

text \<open>\<open>receive_dataCH1\<close>, \<open>receive_dataCH2\<close> (lines 282--291): the received object is
  stored by reference.\<close>

definition receive_dataCH1 :: "ref \<Rightarrow> (unit, display) pyfn" where
  "receive_dataCH1 data = pui (\<lambda>d. d\<lparr>disp_Scope_wave := (disp_Scope_wave d)(CHAN1 \<mapsto> data)\<rparr>)"

definition receive_dataCH2 :: "ref \<Rightarrow> (unit, display) pyfn" where
  "receive_dataCH2 data = pui (\<lambda>d. d\<lparr>disp_Scope_wave := (disp_Scope_wave d)(CHAN2 \<mapsto> data)\<rparr>)"

text \<open>\<open>update_status\<close> (lines 278--280).\<close>

definition update_status :: "status \<Rightarrow> (unit, display) pyfn" where
  "update_status message = showMessage (ShownStatus message) (Some 2000)"

text \<open>\<open>on_worker_finished\<close> (lines 273--276) only prints.\<close>

definition on_worker_finished :: "(unit, display) pyfn" where
  "on_worker_finished = pret ()"

text \<open>\<open>update_label\<close> (lines 293--296) is an empty slot.\<close>

definition update_label :: "(unit, display) pyfn" where
  "update_label = pret ()"

text \<open>\<open>on_exit\<close> (lines 405--407): the close event is accepted, then \<open>self.closed.emit()\<close>
  reads an attribute the window does not have (\<open>Rigol_Live\<close> declares no signal
  \<open>closed\<close>), which raises \<open>AttributeError\<close>. Nothing connects the method.\<close>

definition on_exit :: "(unit, display) pyfn" where
  "on_exit = praise AttributeError"

text \<open>\<open>add_connection_string\<close> (lines 251--254), with the dialog's answer as argument.\<close>

definition add_connection_string :: "string \<Rightarrow> bool \<Rightarrow> (unit, display) pyfn" where
  "add_connection_string text ok =
     (if ok \<and> text \<noteq> [] then pui (\<lambda>d. d\<lparr>combo_items := combo_items d @ [text]\<rparr>) else pret ())"

text \<open>\<open>self.Scope_wave[name]\<close> read from the window's dictionary, and the object it names
  read from the heap.\<close>

definition disp_wave :: "heap \<Rightarrow> chan \<Rightarrow> (scope_data, display) pyfn" where
  "disp_wave h c =
     pbind (pgets disp_Scope_wave) (\<lambda>sw. pbind (plift (py_getitem sw c (chan_name c))) (\<lambda>r.
     pret (objs h r)))"

text \<open>\<open>plot_channel\<close> (lines 299--365), run by the redraw timer. The dictionary is read
  before the \<open>"CHAN1" in self.Scope_wave\<close> test, and \<open>max_x_last\<close>, \<open>min_x_last\<close>
  are local variables assigned from \<open>max_x\<close>, \<open>min_x\<close> just before they are compared
  with them.\<close>

definition first_draw :: "real list \<Rightarrow> real list \<Rightarrow> real list \<Rightarrow> real \<Rightarrow> real \<Rightarrow> (unit, display) pyfn" where
  "first_draw x y1 y2 min_x max_x =
     pbind (plift (mk_curve x y1 ''y'')) (\<lambda>c1.
     pbind (pui (plotdataitem_update (\<lambda>_. Some c1))) (\<lambda>_.
     pbind (plift (mk_curve x y2 ''c'')) (\<lambda>c2.
     pbind (pui (plotdataitem1_update (\<lambda>_. Some c2))) (\<lambda>_.
     pbind (pui (plotitem_update (xrange_update (\<lambda>_. Some (min_x, max_x))))) (\<lambda>_.
     pbind (pui (plotitem_update (yrange_update (\<lambda>_. Some (-10, 10))))) (\<lambda>_.
     pbind (pui (plotitem_update (right_axis_shown_update (\<lambda>_. True)))) (\<lambda>_.
     pbind (plift (py_min y1)) (\<lambda>lo1. pbind (plift (py_max y1)) (\<lambda>hi1.
     pbind (pui (plotitem_update (left_range_update (\<lambda>_. Some (lo1, hi1))))) (\<lambda>_.
     pbind (plift (py_min y2)) (\<lambda>lo2. pbind (plift (py_max y2)) (\<lambda>hi2.
     pbind (pui (plotitem_update (right_range_update (\<lambda>_. Some (lo2, hi2))))) (\<lambda>_.
     pbind (pui (plotitem_update (grid_shown_update (\<lambda>_. True)))) (\<lambda>_.
     pui (LiveG_shown_update (\<lambda>_. True))))))))))))))))"

definition redraw :: "real list \<Rightarrow> real list \<Rightarrow> real list \<Rightarrow> real \<Rightarrow> real \<Rightarrow> (unit, display) pyfn" where
  "redraw x y1 y2 min_x max_x =
     (let max_x_last = max_x; min_x_last = min_x in
      pbind (if max_x \<noteq> max_x_last \<or> min_x \<noteq> min_x_last
             then pui (plotitem_update (xrange_update (\<lambda>_. Some (min_x, max_x))))
             else pret ()) (\<lambda>_.
      pbind (pui (plotitem_update (plot_title_update (\<lambda>_. Some (length x))))) (\<lambda>_.
      pbind (pgets plotdataitem) (\<lambda>c1.
      pbind (plift (case c1 of None \<Rightarrow> Inl AttributeError | Some cv \<Rightarrow> set_data x y1 cv)) (\<lambda>c1'.
      pbind (pui (plotdataitem_update (\<lambda>_. Some c1'))) (\<lambda>_.
      pbind (pgets plotdataitem1) (\<lambda>c2.
      pbind (plift (case c2 of None \<Rightarrow> Inl AttributeError | Some cv \<Rightarrow> set_data x y2 cv)) (\<lambda>c2'.
      pui (plotdataitem1_update (\<lambda>_. Some c2'))))))))))"

definition plot_channel :: "heap \<Rightarrow> (unit, display) pyfn" where
  "plot_channel h =
     pbind (disp_wave h CHAN1) (\<lambda>w. pbind (plift (py_max (sd_x w))) (\<lambda>max_x.
     pbind (disp_wave h CHAN1) (\<lambda>w'. pbind (plift (py_min (sd_x w'))) (\<lambda>min_x.
     pbind (pgets disp_Scope_wave) (\<lambda>sw.
     if sw CHAN1 \<noteq> None then
       pbind (disp_wave h CHAN1) (\<lambda>w1. pbind (disp_wave h CHAN2) (\<lambda>w2.
       pbind (pgets LiveG_win) (\<lambda>win.
       pbind (if \<not> win then pui (\<lambda>d. d\<lparr>LiveG_win := True,
                                        plotitem := (plotitem d)\<lparr>plot_title := None\<rparr>\<rparr>)
              else pret ()) (\<lambda>_.
       pbind (pgets plotdataitem) (\<lambda>pdi.
       if pdi = None then first_draw (sd_x w1) (sd_y w1) (sd_y w2) min_x max_x
       else redraw (sd_x w1) (sd_y w1) (sd_y w2) min_x max_x)))))
     else pret ())))))"

text \<open>\<open>connect_tool\<close> (lines 256--263): runs the worker's \<open>connect_scope_ADR\<close> directly on
  the UI thread, then replaces the redraw timer by a new running one.\<close>

definition connect_tool :: "visa_bus \<Rightarrow> (unit, app) pyfn" where
  "connect_tool bus =
     pbind (pgets (\<lambda>s. combo_text (ui s))) (\<lambda>connection_string.
     pbind (on_ui (showMessage (ShownText (''Connecting to '' @ connection_string)) (Some 3000))) (\<lambda>_.
     pbind (on_thread (connect_scope_ADR bus connection_string)) (\<lambda>_.
     on_ui (pui (pqTimer_update (\<lambda>_. True))))))"

text \<open>\<open>Disconnect_tool\<close> (lines 266--269).\<close>

definition Disconnect_tool :: "(unit, app) pyfn" where
  "Disconnect_tool =
     pbind (on_thread Disconnect_scope) (\<lambda>_.
     on_ui (showMessage (ShownText ''Disconnected.'') None))"

text \<open>Delivery of the oldest pending signal of the worker to its slot (the connections
  of lines 242--245).\<close>

fun slot_of :: "signal \<Rightarrow> heap \<Rightarrow> (unit, display) pyfn" where
  "slot_of (SigCH1 r) h = receive_dataCH1 r"
| "slot_of (SigCH2 r) h = receive_dataCH2 r"
| "slot_of (SigStatus m) h = update_status m"
| "slot_of SigFinished h = on_worker_finished"

definition deliver :: "(unit, app) pyfn" where
  "deliver s =
     (case outq (thr s) of
        [] \<Rightarrow> Ret () s
      | sig # rest \<Rightarrow> on_ui (slot_of sig (hp (thr s))) (s\<lparr>thr := (thr s)\<lparr>outq := rest\<rparr>\<rparr>))"

text \<open>\<open>Rigol_Live.__init__\<close> (lines 184--248): the window with its combo box, the plot
  window and plot item, the worker thread (started, with its connections), and a first
  \<open>connect_tool\<close>. The thread's own steps are those of \<open>run\<close>.\<close>

definition initial_plot_item :: plot_item where
  "initial_plot_item =
     \<lparr>plot_title = None, xrange = None, yrange = None, left_range = None, right_range = None,
      right_axis_shown = False, grid_shown = False\<rparr>"

definition Rigol_Live_display :: display where
  "Rigol_Live_display =
     \<lparr>LiveG_win = True, LiveG_shown = False, plotitem = initial_plot_item,
      plotdataitem = None, plotdataitem1 = None, disp_Scope_wave = Map.empty,
      combo_items = [''TCPIP0::192.168.1.23::inst0::INSTR'', ''TCPIP0::192.168.1.23::5555::SOCKET'',
                     ''USB0::0x1AB1::0x04B0::DS2A153502286::INSTR''],
      combo_text = ''TCPIP0::192.168.1.23::inst0::INSTR'', status_bar = None, pqTimer = False\<rparr>"

definition initial_app :: app where
  "initial_app = \<lparr>ui = Rigol_Live_display, thr = \<lparr>wk = Rigol_get_Data_init, hp = empty_heap, outq = []\<rparr>\<rparr>"

definition Rigol_Live_init :: "visa_bus \<Rightarrow> (unit, app) res" where
  "Rigol_Live_init bus = connect_tool bus initial_app"

text \<open>Fixtures: two received snapshots of two samples each, channel 2 with one sample
  less, and a window whose curves exist with a stale horizontal range.\<close>

definition demo_heap :: "real list \<Rightarrow> heap" where
  "demo_heap y2 =
     \<lparr>objs = (\<lambda>r. if r = 0 then ScopeData_nativ_init\<lparr>sd_x := [0, 1], sd_y := [0, 2], waveArrayCount := 2\<rparr>
                 else ScopeData_nativ_init\<lparr>sd_x := [0, 1], sd_y := y2, waveArrayCount := 2\<rparr>),
      next_ref = 2\<rparr>"

definition demo_received :: display where
  "demo_received = Rigol_Live_display\<lparr>disp_Scope_wave := [CHAN1 \<mapsto> 0, CHAN2 \<mapsto> 1]\<rparr>"

definition demo_curve :: curve where
  "demo_curve = \<lparr>c_x = [5, 6], c_y = [0, 0], c_pen = ''y''\<rparr>"

section \<open>Redraw properties\<close>

text \<open>Claim C3: a redraw tick before any snapshot has been received does not skip
  quietly: \<open>plot_channel\<close> reads \<open>self.Scope_wave['CHAN1']\<close> before its
  \<open>"CHAN1" in self.Scope_wave\<close> test and raises \<open>KeyError('CHAN1')\<close>, leaving the
  window's state unchanged.\<close>

theorem plot_channel_no_data:
  "disp_Scope_wave d CHAN1 = None \<Longrightarrow> plot_channel h d = Exc (KeyError ''CHAN1'') d"
  by (simp add: plot_channel_def disp_wave_def)

lemma plot_channel_eq:
  "plot_channel h d =
     (case disp_Scope_wave d CHAN1 of
        None \<Rightarrow> Exc (KeyError ''CHAN1'') d
      | Some r1 \<Rightarrow>
          (case py_max (sd_x (objs h r1)) of
             Inl e \<Rightarrow> Exc e d
           | Inr max_x \<Rightarrow>
               (case py_min (sd_x (objs h r1)) of
                  Inl e \<Rightarrow> Exc e d
                | Inr min_x \<Rightarrow>
                    (case disp_Scope_wave d CHAN2 of
                       None \<Rightarrow> Exc (KeyError ''CHAN2'') d
                     | Some r2 \<Rightarrow>
                         (let d' = (if LiveG_win d then d
                                    else d\<lparr>LiveG_win := True, plotitem := (plotitem d)\<lparr>plot_title := None\<rparr>\<rparr>)
                          in if plotdataitem d' = None
                             then first_draw (sd_x (objs h r1)) (sd_y (objs h r1)) (sd_y (objs h r2)) min_x max_x d'
                             else redraw (sd_x (objs h r1)) (sd_y (objs h r1)) (sd_y (objs h r2)) min_x max_x d')))))"
proof -
  have pbind_if: "\<And>b m1 m2 f. pbind (if b then m1 else m2) f = (if b then pbind m1 f else pbind m2 f)"
    by simp
  show ?thesis
    by (cases "disp_Scope_wave d CHAN1"; cases "disp_Scope_wave d CHAN2")
       (auto simp: plot_channel_def disp_wave_def pui_def pbind_if pbind_assoc Let_def split: sum.splits)
qed

lemma keeps_redraw_xrange:
  "keeps (\<lambda>d. xrange (plotitem d) = X) (redraw x y1 y2 mn mx)"
  unfolding redraw_def Let_def pui_def
  by (simp only: simp_thms if_False) (intro keeps_intros; simp)

text \<open>Claim C4: once the curves exist, no redraw ever changes the horizontal range:
  \<open>max_x_last\<close> and \<open>min_x_last\<close> are locals set to \<open>max_x\<close>, \<open>min_x\<close> just
  before the comparison, so the re-range branch is dead, whatever the new time extents.\<close>

theorem plot_channel_xrange_after_first:
  assumes "plotdataitem d \<noteq> None"
  shows "xrange (plotitem (res_state (plot_channel h d))) = xrange (plotitem d)"
  using assms keepsD [OF keeps_redraw_xrange]
  by (auto simp: plot_channel_eq Let_def split: option.splits sum.splits)


lemma first_draw_ok:
  assumes "length y1 = length x" and "length y2 = length x" and "x \<noteq> []"
  shows "\<exists>d'. first_draw x y1 y2 mn mx d = Ret () d'
     \<and> plotdataitem d' = Some \<lparr>c_x = x, c_y = y1, c_pen = ''y''\<rparr>
     \<and> plotdataitem1 d' = Some \<lparr>c_x = x, c_y = y2, c_pen = ''c''\<rparr>
     \<and> xrange (plotitem d') = Some (mn, mx) \<and> yrange (plotitem d') = Some (-10, 10)
     \<and> LiveG_shown d' \<and> grid_shown (plotitem d')"
proof -
  obtain lo1 hi1 lo2 hi2 where "py_min y1 = Inr lo1" "py_max y1 = Inr hi1"
      "py_min y2 = Inr lo2" "py_max y2 = Inr hi2"
    using assms by (cases y1; cases y2) auto
  then show ?thesis
    using assms by (simp add: first_draw_def pui_def mk_curve_def pbind_assoc pmodify_def)
qed

lemma first_draw_curve2_mismatch:
  assumes "length y1 = length x" and "length y2 \<noteq> length x"
  shows "\<exists>d'. first_draw x y1 y2 mn mx d = Exc ShapeError d'
     \<and> plotdataitem d' = Some \<lparr>c_x = x, c_y = y1, c_pen = ''y''\<rparr>
     \<and> plotdataitem1 d' = plotdataitem1 d \<and> LiveG_shown d' = LiveG_shown d
     \<and> xrange (plotitem d') = xrange (plotitem d)"
  using assms by (simp add: first_draw_def pui_def mk_curve_def pbind_assoc pmodify_def)

text \<open>Claim C16: the first redraw with a consistent, non-empty channel-1 snapshot and a
  channel-2 snapshot of the same length creates both curves on channel 1's time axis, sets
  the horizontal range to the extremes of channel 1's times and shows the window.\<close>

theorem plot_channel_first_draw:
  assumes "disp_Scope_wave d CHAN1 = Some r1" and "disp_Scope_wave d CHAN2 = Some r2"
    and "plotdataitem d = None" and "LiveG_win d"
    and "sd_consistent (objs h r1)" and "sd_x (objs h r1) \<noteq> []"
    and "length (sd_y (objs h r2)) = length (sd_x (objs h r1))"
  shows "\<exists>d'. plot_channel h d = Ret () d'
     \<and> xrange (plotitem d') = Some (Min (set (sd_x (objs h r1))), Max (set (sd_x (objs h r1))))
     \<and> plotdataitem d' = Some \<lparr>c_x = sd_x (objs h r1), c_y = sd_y (objs h r1), c_pen = ''y''\<rparr>
     \<and> plotdataitem1 d' = Some \<lparr>c_x = sd_x (objs h r1), c_y = sd_y (objs h r2), c_pen = ''c''\<rparr>
     \<and> LiveG_shown d'"
proof -
  let ?x = "sd_x (objs h r1)"
  have mx: "py_max ?x = Inr (Max (set ?x))" and mn: "py_min ?x = Inr (Min (set ?x))"
    using assms(6) by (simp_all add: py_max_Max py_min_Min)
  have "length (sd_y (objs h r1)) = length ?x"
    using assms(5) by (simp add: sd_consistent_def)
  then obtain d' where "first_draw ?x (sd_y (objs h r1)) (sd_y (objs h r2)) (Min (set ?x)) (Max (set ?x)) d = Ret () d'"
    and "plotdataitem d' = Some \<lparr>c_x = ?x, c_y = sd_y (objs h r1), c_pen = ''y''\<rparr>"
    and "plotdataitem1 d' = Some \<lparr>c_x = ?x, c_y = sd_y (objs h r2), c_pen = ''c''\<rparr>"
    and "xrange (plotitem d') = Some (Min (set ?x), Max (set ?x))" and "LiveG_shown d'"
    using first_draw_ok assms(6,7) by blast
  then show ?thesis
    using assms(1-4) mx mn by (simp add: plot_channel_eq)
qed

text \<open>Claim C17: channel 2 is drawn against channel 1's time axis; when the two channels'
  sample counts differ, the first redraw raises pyqtgraph's shape error after creating
  curve 1, so curve 2 is never created and the window is not shown.\<close>

theorem plot_channel_channel_mismatch:
  assumes "disp_Scope_wave d CHAN1 = Some r1" and "disp_Scope_wave d CHAN2 = Some r2"
    and "LiveG_win d" and "plotdataitem d = None"
    and "sd_consistent (objs h r1)" and "sd_x (objs h r1) \<noteq> []"
    and "length (sd_y (objs h r2)) \<noteq> length (sd_x (objs h r1))"
  shows "\<exists>d'. plot_channel h d = Exc ShapeError d' \<and> plotdataitem d' \<noteq> None
             \<and> plotdataitem1 d' = plotdataitem1 d \<and> LiveG_shown d' = LiveG_shown d"
proof -
  let ?x = "sd_x (objs h r1)"
  have mx: "py_max ?x = Inr (Max (set ?x))" and mn: "py_min ?x = Inr (Min (set ?x))"
    using assms(6) by (simp_all add: py_max_Max py_min_Min)
  have "length (sd_y (objs h r1)) = length ?x"
    using assms(5) by (simp add: sd_consistent_def)
  then obtain d' where "first_draw ?x (sd_y (objs h r1)) (sd_y (objs h r2)) (Min (set ?x)) (Max (set ?x)) d = Exc ShapeError d'"
    and "plotdataitem d' \<noteq> None" and "plotdataitem1 d' = plotdataitem1 d" and "LiveG_shown d' = LiveG_shown d"
    using first_draw_curve2_mismatch [OF _ assms(7)] by fastforce
  then show ?thesis
    using assms(1-4) mx mn by (simp add: plot_channel_eq)
qed

lemma redraw_no_curve2:
  assumes "plotdataitem1 d = None"
  shows "\<not> is_Ret (redraw x y1 y2 mn mx d)
       \<and> plotdataitem1 (res_state (redraw x y1 y2 mn mx d)) = None
       \<and> LiveG_shown (res_state (redraw x y1 y2 mn mx d)) = LiveG_shown d"
  using assms by (auto simp: redraw_def pui_def pbind_assoc set_data_def pmodify_def split: option.splits)

text \<open>Claim C19: after a first draw that failed at curve 2, every later redraw raises
  (\<open>self.plotdataitem1\<close> is \<open>None\<close>), curve 2 stays missing and the window's shown
  state never changes: the plot does not recover even when the channels agree again.\<close>

theorem plot_channel_broken_after_failed_first_draw:
  assumes "plotdataitem d \<noteq> None" and "plotdataitem1 d = None"
  shows "\<not> is_Ret (plot_channel h d)
       \<and> plotdataitem1 (res_state (plot_channel h d)) = None
       \<and> LiveG_shown (res_state (plot_channel h d)) = LiveG_shown d"
  using assms redraw_no_curve2
  by (auto simp: plot_channel_eq Let_def split: option.splits sum.splits)


section \<open>Witnesses\<close>

theorem plot_channel_no_data_witness:
  "disp_Scope_wave Rigol_Live_display CHAN1 = None
   \<and> plot_channel (demo_heap [1, 1]) Rigol_Live_display = Exc (KeyError ''CHAN1'') Rigol_Live_display"
proof -
  have h: "disp_Scope_wave Rigol_Live_display CHAN1 = None"
    by (simp add: Rigol_Live_display_def)
  show ?thesis using h plot_channel_no_data [OF h] by blast
qed

theorem plot_channel_xrange_after_first_witness:
  "plotdataitem (demo_received\<lparr>plotdataitem := Some demo_curve, plotdataitem1 := Some demo_curve,
                                  plotitem := initial_plot_item\<lparr>xrange := Some (5, 6)\<rparr>\<rparr>) \<noteq> None
   \<and> xrange (plotitem (res_state (plot_channel (demo_heap [1, 1])
        (demo_received\<lparr>plotdataitem := Some demo_curve, plotdataitem1 := Some demo_curve,
                         plotitem := initial_plot_item\<lparr>xrange := Some (5, 6)\<rparr>\<rparr>)))) = Some (5, 6)"
proof -
  let ?d = "demo_received\<lparr>plotdataitem := Some demo_curve, plotdataitem1 := Some demo_curve,
                             plotitem := initial_plot_item\<lparr>xrange := Some (5, 6)\<rparr>\<rparr>"
  have h: "plotdataitem ?d \<noteq> None" by simp
  show ?thesis using h plot_channel_xrange_after_first [OF h, of "demo_heap [1, 1]"] by simp
qed

theorem plot_channel_first_draw_witness:
  "\<exists>d'. plot_channel (demo_heap [1, 1]) demo_received = Ret () d'
        \<and> xrange (plotitem d') = Some (0, 1) \<and> LiveG_shown d'"
proof -
  have h: "disp_Scope_wave demo_received CHAN1 = Some 0" "disp_Scope_wave demo_received CHAN2 = Some 1"
    "plotdataitem demo_received = None" "LiveG_win demo_received"
    "sd_consistent (objs (demo_heap [1, 1]) 0)" "sd_x (objs (demo_heap [1, 1]) 0) \<noteq> []"
    "length (sd_y (objs (demo_heap [1, 1]) 1)) = length (sd_x (objs (demo_heap [1, 1]) 0))"
    by (simp_all add: demo_received_def Rigol_Live_display_def demo_heap_def sd_consistent_def
        ScopeData_nativ_init_def)
  have x: "sd_x (objs (demo_heap [1, 1]) 0) = [0, 1]"
    by (simp add: demo_heap_def)
  show ?thesis
    using plot_channel_first_draw [OF h] x by auto
qed

theorem plot_channel_channel_mismatch_witness:
  "\<exists>d'. plot_channel (demo_heap [1]) demo_received = Exc ShapeError d'
        \<and> plotdataitem1 d' = None \<and> \<not> LiveG_shown d'"
proof -
  have h: "disp_Scope_wave demo_received CHAN1 = Some 0" "disp_Scope_wave demo_received CHAN2 = Some 1"
    "LiveG_win demo_received" "plotdataitem demo_received = None"
    "sd_consistent (objs (demo_heap [1]) 0)" "sd_x (objs (demo_heap [1]) 0) \<noteq> []"
    "length (sd_y (objs (demo_heap [1]) 1)) \<noteq> length (sd_x (objs (demo_heap [1]) 0))"
    by (simp_all add: demo_received_def Rigol_Live_display_def demo_heap_def sd_consistent_def
        ScopeData_nativ_init_def)
  have "plotdataitem1 demo_received = None" "\<not> LiveG_shown demo_received"
    by (simp_all add: demo_received_def Rigol_Live_display_def)
  then show ?thesis
    using plot_channel_channel_mismatch [OF h] by auto
qed

theorem plot_channel_broken_after_failed_first_draw_witness:
  "plotdataitem (demo_received\<lparr>plotdataitem := Some demo_curve\<rparr>) \<noteq> None
   \<and> plotdataitem1 (demo_received\<lparr>plotdataitem := Some demo_curve\<rparr>) = None
   \<and> \<not> is_Ret (plot_channel (demo_heap [1, 1]) (demo_received\<lparr>plotdataitem := Some demo_curve\<rparr>))"
proof -
  have h: "plotdataitem (demo_received\<lparr>plotdataitem := Some demo_curve\<rparr>) \<noteq> None"
    "plotdataitem1 (demo_received\<lparr>plotdataitem := Some demo_curve\<rparr>) = None"
    by (simp_all add: demo_received_def Rigol_Live_display_def)
  show ?thesis
    using h plot_channel_broken_after_failed_first_draw [OF h, of "demo_heap [1, 1]"] by blast
qed

end
