(* ===== verification/Helpers.thy ===== *)
theory Helpers
  imports Instrument
begin

unbundle bit_operations_syntax

text \<open>
  The three helper methods of \<open>Rigol_Live\<close> that are not on the acquisition path
  (src/Rigol_Live_View.py, lines 367--403): \<open>wait_ready\<close>, which polls \<open>*OPC?\<close> until
  the instrument answers \<open>1\<close>; \<open>Rigol_ESR\<close>, which reads the standard event status
  register and decodes its eight bits; and the generator \<open>crange\<close>, which splits an
  integer interval into chunks. Python's \<open>str.strip\<close> and \<open>int(str)\<close> are modelled on
  the characters a \<open>char\<close> holds (code points 0--255): the whitespace of \<open>str.isspace\<close>,
  an optional sign, and decimal digits with single underscores between them.
\<close>

section \<open>Python string helpers\<close>

text \<open>\<open>str.isspace\<close> on code points 0--255: tab, line feed, vertical tab, form feed,
  carriage return, the separators 28--31, space, next line (133) and no-break space (160).\<close>

definition is_py_space :: "char \<Rightarrow> bool" where
  "is_py_space c \<longleftrightarrow> (of_char c :: nat) \<in> {9, 10, 11, 12, 13, 28, 29, 30, 31, 32, 133, 160}"

definition py_strip :: "string \<Rightarrow> string" where
  "py_strip s = rev (dropWhile is_py_space (rev (dropWhile is_py_space s)))"

definition digit_value :: "char \<Rightarrow> int" where
  "digit_value c = int (of_char c) - 48"

definition is_digit :: "char \<Rightarrow> bool" where
  "is_digit c \<longleftrightarrow> 48 \<le> (of_char c :: nat) \<and> (of_char c :: nat) \<le> 57"

text \<open>The digits \<open>int()\<close> accepts in base 10: decimal digits, with single underscores
  between two digits.\<close>

fun digit_run :: "string \<Rightarrow> bool" where
  "digit_run [] = False"
| "digit_run [c] = is_digit c"
| "digit_run (c # d # cs) = (is_digit c \<and> (if d = CHR ''_'' then digit_run cs else digit_run (d # cs)))"

definition parse_digits :: "string \<Rightarrow> py_exc + int" where
  "parse_digits ds =
     (if digit_run ds then Inr (foldl (\<lambda>acc d. 10 * acc + digit_value d) 0 (filter is_digit ds))
      else Inl ValueError)"

text \<open>\<open>int(text)\<close>.\<close>

definition parse_int :: "string \<Rightarrow> py_exc + int" where
  "parse_int s =
     (case py_strip s of
        [] \<Rightarrow> Inl ValueError
      | c # cs \<Rightarrow>
          (if c = CHR ''-'' then (case parse_digits cs of Inl e \<Rightarrow> Inl e | Inr n \<Rightarrow> Inr (- n))
           else if c = CHR ''+'' then parse_digits cs
           else parse_digits (c # cs)))"

section \<open>\<open>Rigol_ESR\<close>\<close>

definition bit_weights :: "int list" where
  "bit_weights = [128, 64, 32, 16, 8, 4, 2, 1]"

definition bit_names :: "string list" where
  "bit_names = [''PON'', ''URQ'', ''CME'', ''EXE'', ''DDE'', ''QYE'', ''RQL'', ''OPC'']"

definition bit_long_names :: "string list" where
  "bit_long_names = [''Power On'', ''User Request'', ''Command Error'', ''Execution Error'',
                     ''Dev. Dependent Error'', ''Query Error'', ''Request Control'', ''Operation Complete'']"

text \<open>\<open>bit_states = [(response & bit_weights[i]) != 0 for i in range(8)]\<close>; Python's
  \<open>&\<close> on ints is the two's-complement \<open>AND\<close> of \<open>int\<close>.\<close>

definition esr_bit_states :: "int \<Rightarrow> bool list" where
  "esr_bit_states response = map (\<lambda>i. response AND (bit_weights ! i) \<noteq> 0) [0..<8]"

definition esr_bit_info :: "int \<Rightarrow> (string \<times> string \<times> bool) list" where
  "esr_bit_info response = zip bit_names (zip bit_long_names (esr_bit_states response))"

text \<open>\<open>Rigol_ESR\<close> (lines 377--396): what it prints (the decoded register and the error
  text), with the session it changes.\<close>

definition Rigol_ESR :: "((string \<times> string \<times> bool) list \<times> string, session) pyfn" where
  "Rigol_ESR =
     pbind (sess_query ESR_Q) (\<lambda>t.
     pbind (plift (parse_int t)) (\<lambda>response.
     pbind (sess_query SYST_ERR_Q) (\<lambda>scope_error.
     pbind (sess_write CLS) (\<lambda>_.
     pret (esr_bit_info response, scope_error)))))"

text \<open>The Standard Event Status Register as IEEE 488.2 defines it: the bit position of
  each of the eight names (a reference, not code of the repository), and the register
  read back from a report that names its bits.\<close>

definition ieee_esr_bits :: "(string \<times> nat) list" where
  "ieee_esr_bits = [(''OPC'', 0), (''RQL'', 1), (''QYE'', 2), (''DDE'', 3), (''EXE'', 4), (''CME'', 5),
                    (''URQ'', 6), (''PON'', 7)]"

definition esr_reencode :: "(string \<times> string \<times> bool) list \<Rightarrow> int" where
  "esr_reencode info =
     sum_list (map (\<lambda>(name, _, st). case map_of ieee_esr_bits name of
                                       Some k \<Rightarrow> if st then 2 ^ k else 0
                                     | None \<Rightarrow> 0) info)"

section \<open>\<open>wait_ready\<close>\<close>

text \<open>The loop of lines 372--374. Every \<open>*OPC?\<close> query consumes one reply of the
  instrument's script, so the loop ends: with the answer \<open>1\<close>, or with the exception of
  the query that failed.\<close>

function opc_wait :: "(unit, session) pyfn" where
  "opc_wait s =
     (case sess_query OPC_Q s of
        Exc e s' \<Rightarrow> Exc e s'
      | Ret t s' \<Rightarrow> (if py_strip t \<noteq> ''1'' then opc_wait s' else Ret () s'))"
  by pat_completeness auto

termination opc_wait
  by (relation "measure (\<lambda>s. length (replies s))") (auto dest: sess_query_Ret_replies)

text \<open>\<open>wait_ready\<close> (lines 367--374): \<open>*WAI\<close>, a first \<open>*OPC?\<close>, then the loop.\<close>

definition wait_ready :: "(unit, session) pyfn" where
  "wait_ready =
     pbind (sess_write WAI) (\<lambda>_.
     pbind (sess_query OPC_Q) (\<lambda>t.
     if py_strip t \<noteq> ''1'' then opc_wait else pret ()))"

section \<open>\<open>crange\<close>\<close>

text \<open>The generator of lines 398--403, as the list of everything it yields; \<open>None\<close> is a
  generator that never stops (a step of 0 or less with a first chunk to yield).\<close>

partial_function (option) crange_from :: "int \<Rightarrow> int \<Rightarrow> int \<Rightarrow> (int \<times> int) list option" where
  "crange_from i end_val step =
     (if i < end_val - step + 1
      then Option.bind (crange_from (i + step) end_val step) (\<lambda>rest. Some ((i, i + step - 1) # rest))
      else Some [(i, end_val)])"

declare crange_from.simps [code]

text \<open>What the chunks of a finished \<open>crange\<close> look like: consecutive chunks of
  \<open>step\<close> numbers from \<open>start\<close>, the last one ending at \<open>end\<close>.\<close>

fun chunked :: "int \<Rightarrow> int \<Rightarrow> int \<Rightarrow> (int \<times> int) list \<Rightarrow> bool" where
  "chunked i e st [] = False"
| "chunked i e st [(a, b)] = (a = i \<and> b = e)"
| "chunked i e st ((a, b) # c # cs) = (a = i \<and> b = i + st - 1 \<and> chunked (i + st) e st (c # cs))"

definition crange :: "int \<Rightarrow> int \<Rightarrow> int \<Rightarrow> (int \<times> int) list option" where
  "crange start end_val step = crange_from start end_val step"

definition esr_demo :: session where
  "esr_demo = \<lparr>resource_name = ''USB0'', written = [], replies = [RText ''32\<newline>'', RText ''0,No error''],
                session_open = True\<rparr>"

section \<open>Properties\<close>

lemma bit_weights_nth: "i < 8 \<Longrightarrow> bit_weights ! i = 2 ^ (7 - i)"
  by (auto simp: bit_weights_def less_Suc_eq numeral_eq_Suc)

lemma esr_bit_states_eq: "esr_bit_states r = map (\<lambda>i. bit r (7 - i)) [0..<8]"
  by (simp add: esr_bit_states_def bit_weights_nth and_exp_eq_0_iff_not_bit)

lemma mod_256_bits: "r mod 256 = (\<Sum>k = 0..<8. push_bit k (of_bool (bit r k)) :: int)"
proof -
  have "r mod 256 = take_bit 8 r" by (simp add: take_bit_eq_mod)
  also have "\<dots> = (\<Sum>k = 0..<8. push_bit k (of_bool (bit r k)))" by (rule take_bit_sum)
  finally show ?thesis .
qed

text \<open>Claim C21: the decoding of line 385 reads the register's bits from the most
  significant down: entry \<open>i\<close> of \<open>bit_states\<close> is bit \<open>7 - i\<close> of the response.\<close>

theorem esr_bit_states_bits: "esr_bit_states r = map (\<lambda>i. bit r (7 - i)) [0..<8]"
  by (rule esr_bit_states_eq)

text \<open>Claim C20: the named report of \<open>Rigol_ESR\<close> is the register: re-encoding the
  \<open>(name, (long name, state))\<close> entries with the bit positions IEEE 488.2 assigns to
  those names (\<open>ieee_esr_bits\<close>) gives back the response modulo 256. So every name
  reports its own bit of the register.\<close>

theorem esr_info_roundtrip: "esr_reencode (esr_bit_info r) = r mod 256"
  by (simp add: mod_256_bits esr_reencode_def esr_bit_info_def esr_bit_states_eq bit_names_def
      bit_long_names_def ieee_esr_bits_def upt_rec push_bit_eq_mult numeral_eq_Suc atLeast0LessThan
      lessThan_Suc add.commute add.left_commute)


declare opc_wait.simps [simp del]

lemma opc_wait_answers:
  assumes "session_open s" and "replies s = map RText ts @ RText t1 # rest"
    and "\<forall>t\<in>set ts. py_strip t \<noteq> ''1''" and "py_strip t1 = ''1''"
  shows "opc_wait s = Ret () (s\<lparr>written := written s @ replicate (Suc (length ts)) OPC_Q, replies := rest\<rparr>)"
  using assms
proof (induction ts arbitrary: s)
  case Nil
  then show ?case by (subst opc_wait.simps) simp
next
  case (Cons t ts)
  let ?s1 = "s\<lparr>written := written s @ [OPC_Q], replies := map RText ts @ RText t1 # rest\<rparr>"
  have "opc_wait ?s1 = Ret () (?s1\<lparr>written := written ?s1 @ replicate (Suc (length ts)) OPC_Q, replies := rest\<rparr>)"
    using Cons.prems by (intro Cons.IH) auto
  then show ?case
    using Cons.prems by (subst opc_wait.simps) (simp add: replicate_append_same)
qed

lemma opc_wait_times_out:
  assumes "session_open s" and "replies s = map RText ts" and "\<forall>t\<in>set ts. py_strip t \<noteq> ''1''"
  shows "opc_wait s = Exc VisaIOError (s\<lparr>written := written s @ replicate (Suc (length ts)) OPC_Q, replies := []\<rparr>)"
  using assms
proof (induction ts arbitrary: s)
  case Nil
  then show ?case by (subst opc_wait.simps) (simp add: sess_query_def sess_read_def pbind_def)
next
  case (Cons t ts)
  let ?s1 = "s\<lparr>written := written s @ [OPC_Q], replies := map RText ts\<rparr>"
  have "opc_wait ?s1 = Exc VisaIOError (?s1\<lparr>written := written ?s1 @ replicate (Suc (length ts)) OPC_Q, replies := []\<rparr>)"
    using Cons.prems by (intro Cons.IH) auto
  then show ?case
    using Cons.prems by (subst opc_wait.simps) (simp add: replicate_append_same)
qed

text \<open>\<open>Rigol_ESR\<close> on an instrument that answers the two queries: the register is read,
  the error queue's text read and \<open>*CLS\<close> sent.\<close>

lemma Rigol_ESR_eq:
  assumes "session_open s" and "replies s = RText t # rest"
  shows "Rigol_ESR s =
           (case parse_int t of
              Inl e \<Rightarrow> Exc e (s\<lparr>written := written s @ [ESR_Q], replies := rest\<rparr>)
            | Inr r \<Rightarrow>
                pbind (sess_query SYST_ERR_Q) (\<lambda>scope_error. pbind (sess_write CLS) (\<lambda>_.
                  pret (esr_bit_info r, scope_error))) (s\<lparr>written := written s @ [ESR_Q], replies := rest\<rparr>))"
  using assms by (simp add: Rigol_ESR_def pbind_def plift_def split: sum.splits)

lemma parse_int_error: "parse_int t = Inl e \<Longrightarrow> e = ValueError"
  by (auto simp: parse_int_def parse_digits_def split: list.splits if_splits sum.splits)

lemma crange_from_chunked:
  assumes ret: "crange_from i e st = Some r"
  shows "chunked i e st r"
proof (rule crange_from.raw_induct [where P = "\<lambda>i e st r. chunked i e st r", OF _ ret])
  fix f i e st r
  assume IH: "\<And>i e st r. f i e st = Some r \<Longrightarrow> chunked i e st r"
    and eq: "(if i < e - st + 1
              then Option.bind (f (i + st) e st) (\<lambda>rest. Some ((i, i + st - 1) # rest))
              else Some [(i, e)]) = Some r"
  show "chunked i e st r"
  proof (cases "i < e - st + 1")
    case True
    with eq obtain rest where f: "f (i + st) e st = Some rest" and r: "r = (i, i + st - 1) # rest"
      by (auto split: Option.bind_splits)
    from IH [OF f] have "chunked (i + st) e st rest" .
    moreover then obtain c cs where "rest = c # cs" by (cases rest) auto
    ultimately show ?thesis using r by simp
  next
    case False
    with eq show ?thesis by auto
  qed
qed

lemma crange_from_terminates:
  assumes "0 < st"
  shows "\<exists>r. crange_from i e st = Some r"
proof (induction "nat (e - st + 1 - i)" arbitrary: i rule: less_induct)
  case less
  show ?case
  proof (cases "i < e - st + 1")
    case True
    have "nat (e - st + 1 - (i + st)) < nat (e - st + 1 - i)"
      using True assms by simp
    then obtain rest where "crange_from (i + st) e st = Some rest"
      using less by blast
    with True show ?thesis by (simp add: crange_from.simps)
  next
    case False
    then show ?thesis by (simp add: crange_from.simps)
  qed
qed

lemma crange_from_diverges:
  assumes "st \<le> 0" and "i < e - st + 1"
  shows "crange_from i e st = None"
proof (rule ccontr)
  assume "crange_from i e st \<noteq> None"
  then obtain r where ret: "crange_from i e st = Some r" by auto
  have "\<not> (st \<le> 0 \<and> i < e - st + 1)"
  proof (rule crange_from.raw_induct [where P = "\<lambda>i e st r. \<not> (st \<le> 0 \<and> i < e - st + 1)", OF _ ret])
    fix f :: "int \<Rightarrow> int \<Rightarrow> int \<Rightarrow> (int \<times> int) list option" and i e st :: int and r
    assume IH: "\<And>i e st r. f i e st = Some r \<Longrightarrow> \<not> (st \<le> 0 \<and> i < e - st + 1)"
      and eq: "(if i < e - st + 1
                then Option.bind (f (i + st) e st) (\<lambda>rest. Some ((i, i + st - 1) # rest))
                else Some [(i, e)]) = Some r"
    show "\<not> (st \<le> 0 \<and> i < e - st + 1)"
    proof
      assume c: "st \<le> 0 \<and> i < e - st + 1"
      with eq obtain rest where "f (i + st) e st = Some rest"
        by (auto split: Option.bind_splits)
      from IH [OF this] c have "\<not> i + st < e - st + 1" by simp
      with c show False by linarith
    qed
  qed
  with assms show False by simp
qed

lemma wait_ready_eq:
  "session_open s \<Longrightarrow> replies s = RText t # rest \<Longrightarrow>
   wait_ready s = (let s1 = s\<lparr>written := written s @ [WAI, OPC_Q], replies := rest\<rparr>
                   in if py_strip t \<noteq> ''1'' then opc_wait s1 else Ret () s1)"
  by (simp add: wait_ready_def pret_def Let_def)

text \<open>Claim C22: \<open>wait_ready\<close> returns as soon as the instrument answers \<open>1\<close>
  (after stripping): having sent \<open>*WAI\<close> and one \<open>*OPC?\<close> per answer read, it stops at
  the first \<open>1\<close> and leaves the later replies unread.\<close>

theorem wait_ready_returns:
  assumes "session_open s" and "replies s = map RText ts @ RText t1 # rest"
    and "\<forall>t\<in>set ts. py_strip t \<noteq> ''1''" and "py_strip t1 = ''1''"
  shows "wait_ready s =
           Ret () (s\<lparr>written := written s @ WAI # replicate (Suc (length ts)) OPC_Q, replies := rest\<rparr>)"
proof (cases ts)
  case Nil
  with assms show ?thesis by (simp add: wait_ready_eq)
next
  case (Cons t ts')
  let ?s1 = "s\<lparr>written := written s @ [WAI, OPC_Q], replies := map RText ts' @ RText t1 # rest\<rparr>"
  have "opc_wait ?s1 = Ret () (?s1\<lparr>written := written ?s1 @ replicate (Suc (length ts')) OPC_Q, replies := rest\<rparr>)"
    using assms Cons by (intro opc_wait_answers) auto
  then show ?thesis
    using assms Cons by (simp add: wait_ready_eq replicate_append_same)
qed

text \<open>Claim C23: with a positive step, \<open>crange\<close> ends, and what it yields is the chain
  of chunks \<open>(start, start + step - 1), (start + step, ...), ...\<close> whose last chunk ends at
  \<open>end\<close>.\<close>

theorem crange_terminates:
  assumes "0 < step"
  shows "\<exists>r. crange start end_val step = Some r \<and> chunked start end_val step r"
proof -
  obtain r where "crange_from start end_val step = Some r"
    using crange_from_terminates [OF assms] by blast
  then show ?thesis
    using crange_from_chunked by (auto simp: crange_def)
qed

text \<open>Claim C24: with a step of 0 or less and a first chunk to yield, the generator never
  stops: \<open>i\<close> never grows, so the loop condition stays true.\<close>

theorem crange_diverges:
  assumes "step \<le> 0" and "start < end_val - step + 1"
  shows "crange start end_val step = None"
  using crange_from_diverges [OF assms] by (simp add: crange_def)

text \<open>Claim C35: \<open>Rigol_ESR\<close> (lines 377--396) on an instrument that answers \<open>*ESR?\<close> with an
  integer and \<open>:SYSTem:ERRor?\<close> with a text reports the eight named register bits decoded
  from that integer and the error text, having sent exactly \<open>*ESR?\<close>,
  \<open>:SYSTem:ERRor?\<close> and \<open>*CLS\<close> and read the two answers.\<close>

theorem Rigol_ESR_decodes:
  assumes "session_open s" and "replies s = RText t # RText err # rest" and "parse_int t = Inr r"
  shows "Rigol_ESR s =
           Ret (esr_bit_info r, err) (s\<lparr>written := written s @ [ESR_Q, SYST_ERR_Q, CLS], replies := rest\<rparr>)"
  using assms by (simp add: Rigol_ESR_eq pbind_def pret_def)

text \<open>Claim C36: when the \<open>*ESR?\<close> answer is not an integer, \<open>int()\<close> raises \<open>ValueError\<close> out
  of \<open>Rigol_ESR\<close> right after the first query: the error queue is not read and \<open>*CLS\<close>
  is never sent, so the instrument's event register is left uncleared.\<close>

theorem Rigol_ESR_bad_response:
  assumes "session_open s" and "replies s = RText t # rest" and "\<exists>e. parse_int t = Inl e"
  shows "Rigol_ESR s = Exc ValueError (s\<lparr>written := written s @ [ESR_Q], replies := rest\<rparr>)"
  using assms parse_int_error by (auto simp: Rigol_ESR_eq split: sum.splits)

text \<open>Claim C37: \<open>wait_ready\<close> (lines 367--374) on an instrument that never answers \<open>1\<close>
  loops on \<open>*OPC?\<close> as long as answers come, one query per answer, and ends with the
  timeout of the query that gets none: the loop the comment calls "never occured" does
  not stop by itself, only the transport's timeout ends it.\<close>

theorem wait_ready_times_out:
  assumes "session_open s" and "replies s = map RText ts" and "\<forall>t\<in>set ts. py_strip t \<noteq> ''1''"
  shows "wait_ready s =
           Exc VisaIOError (s\<lparr>written := written s @ WAI # replicate (Suc (length ts)) OPC_Q, replies := []\<rparr>)"
proof (cases ts)
  case Nil
  with assms show ?thesis by (simp add: wait_ready_def sess_query_def sess_read_def pbind_def)
next
  case (Cons t ts')
  let ?s1 = "s\<lparr>written := written s @ [WAI, OPC_Q], replies := map RText ts'\<rparr>"
  have "opc_wait ?s1 = Exc VisaIOError (?s1\<lparr>written := written ?s1 @ replicate (Suc (length ts')) OPC_Q, replies := []\<rparr>)"
    using assms Cons by (intro opc_wait_times_out) auto
  then show ?thesis
    using assms Cons by (simp add: wait_ready_eq replicate_append_same)
qed

section \<open>Witnesses\<close>

theorem wait_ready_returns_witness:
  "wait_ready \<lparr>resource_name = ''USB0'', written = [], replies = [RText ''0'', RText ''1\<newline>''],
               session_open = True\<rparr> =
     Ret () \<lparr>resource_name = ''USB0'', written = [WAI, OPC_Q, OPC_Q], replies = [], session_open = True\<rparr>"
proof -
  have h: "session_open \<lparr>resource_name = ''USB0'', written = [], replies = [RText ''0'', RText ''1\<newline>''],
               session_open = True\<rparr>"
    "replies \<lparr>resource_name = ''USB0'', written = [], replies = [RText ''0'', RText ''1\<newline>''],
               session_open = True\<rparr> = map RText [''0''] @ RText ''1\<newline>'' # []"
    "\<forall>t\<in>set [''0'']. py_strip t \<noteq> ''1''" "py_strip ''1\<newline>'' = ''1''"
    by (simp_all add: py_strip_def is_py_space_def)
  show ?thesis using wait_ready_returns [OF h] by simp
qed

theorem crange_terminates_witness:
  "0 < (4::int) \<and> crange 0 10 4 = Some [(0, 3), (4, 7), (8, 10)]"
proof -
  obtain r where "crange 0 10 4 = Some r" "chunked 0 10 4 r"
    using crange_terminates [of 4 0 10] by auto
  moreover have "crange 0 10 4 = Some [(0, 3), (4, 7), (8, 10)]"
    by (simp add: crange_def crange_from.simps)
  ultimately show ?thesis by simp
qed

theorem crange_diverges_witness:
  "(0::int) \<le> 0 \<and> (0::int) < 10 - 0 + 1 \<and> crange 0 10 0 = None"
  using crange_diverges [of 0 0 10] by simp

theorem Rigol_ESR_decodes_witness:
  "Rigol_ESR esr_demo =
     Ret (esr_bit_info 32, ''0,No error'')
       \<lparr>resource_name = ''USB0'', written = [ESR_Q, SYST_ERR_Q, CLS], replies = [], session_open = True\<rparr>
   \<and> esr_bit_states 32 = [False, False, True, False, False, False, False, False]"
proof -
  have h: "session_open esr_demo" "replies esr_demo = RText ''32\<newline>'' # RText ''0,No error'' # []"
    "parse_int ''32\<newline>'' = Inr 32"
    by (simp_all add: esr_demo_def) code_simp
  show ?thesis using Rigol_ESR_decodes [OF h] by (simp add: esr_demo_def) code_simp
qed

theorem Rigol_ESR_bad_response_witness:
  "Rigol_ESR \<lparr>resource_name = ''USB0'', written = [], replies = [RText ''ERR''], session_open = True\<rparr> =
     Exc ValueError \<lparr>resource_name = ''USB0'', written = [ESR_Q], replies = [], session_open = True\<rparr>"
proof -
  have h: "session_open \<lparr>resource_name = ''USB0'', written = [], replies = [RText ''ERR''], session_open = True\<rparr>"
    "replies \<lparr>resource_name = ''USB0'', written = [], replies = [RText ''ERR''], session_open = True\<rparr> = RText ''ERR'' # []"
    "\<exists>e. parse_int ''ERR'' = Inl e"
  proof -
    have "parse_int ''ERR'' = Inl ValueError" by code_simp
    then show "\<exists>e. parse_int ''ERR'' = Inl e" by blast
  qed simp_all
  show ?thesis using Rigol_ESR_bad_response [OF h] by simp
qed

theorem wait_ready_times_out_witness:
  "wait_ready \<lparr>resource_name = ''USB0'', written = [], replies = [RText ''0''], session_open = True\<rparr> =
     Exc VisaIOError \<lparr>resource_name = ''USB0'', written = [WAI, OPC_Q, OPC_Q], replies = [], session_open = True\<rparr>"
proof -
  have h: "session_open \<lparr>resource_name = ''USB0'', written = [], replies = [RText ''0''], session_open = True\<rparr>"
    "replies \<lparr>resource_name = ''USB0'', written = [], replies = [RText ''0''], session_open = True\<rparr> = map RText [''0'']"
    "\<forall>t\<in>set [''0'']. py_strip t \<noteq> ''1''"
    by (simp_all add: py_strip_def is_py_space_def)
  show ?thesis using wait_ready_times_out [OF h] by simp
qed

end
