(* ===== verification/System.thy ===== *)
theory System
  imports Display
begin

text \<open>
  The two threads together (spec section 5). The acquisition thread runs \<open>run\<close>; the UI
  thread runs Qt's event loop, which delivers the worker's queued signals to their slots,
  fires the redraw timer and runs the menu actions. Python threads interleave between
  statements, so the worker is modelled here at a finer grain than \<open>run_step\<close>: a
  program counter \<open>wpc\<close> says where the thread is in its loop. One worker step performs,
  for one channel, the placeholder check and all the instrument I/O (lines 129--156), or one
  field assignment of lines 167--176, or the status emission of line 177 together with the
  next channel's I/O or with the end of the iteration (lines 89--99). An exception in the
  worker ends the thread (\<open>W_Dead\<close>); an exception in a slot is printed by Qt and the
  event loop goes on, so the UI keeps the state reached when it was raised.
\<close>

section \<open>The worker at statement granularity\<close>

datatype wpc = W_Top | W_Write chan acq "field_write list" | W_Dead py_exc

definition prep_channel :: "chan \<Rightarrow> wstate \<Rightarrow> wpc \<times> wstate" where
  "prep_channel c s =
     (case pbind (ensure_wave c) (\<lambda>_. read_channel c) s of
        Ret a s' \<Rightarrow> (W_Write c a (channel_writes a), s')
      | Exc e s' \<Rightarrow> (W_Dead e, s'))"

definition end_iteration :: "wstate \<Rightarrow> wpc \<times> wstate" where
  "end_iteration s = (case poll_tail True s of Ret _ s' \<Rightarrow> (W_Top, s') | Exc e s' \<Rightarrow> (W_Dead e, s'))"

fun wstep :: "wpc \<Rightarrow> wstate \<Rightarrow> wpc \<times> wstate" where
  "wstep W_Top s =
     (if scope (wk s) = None then (W_Top, res_state (idle_iteration s)) else prep_channel CHAN1 s)"
| "wstep (W_Write c a (w # ws)) s =
     (case write_field c w s of Ret _ s' \<Rightarrow> (W_Write c a ws, s') | Exc e s' \<Rightarrow> (W_Dead e, s'))"
| "wstep (W_Write c a []) s =
     (case emit_status (ReadStatus c (length (acq_raw a))) s of
        Ret _ s' \<Rightarrow> (if c = CHAN1 then prep_channel CHAN2 s' else end_iteration s')
      | Exc e s' \<Rightarrow> (W_Dead e, s'))"
| "wstep (W_Dead e) s = (W_Dead e, s)"

fun wrun :: "nat \<Rightarrow> wpc \<Rightarrow> wstate \<Rightarrow> wpc \<times> wstate" where
  "wrun 0 pc s = (pc, s)"
| "wrun (Suc n) pc s = (case wstep pc s of (pc', s') \<Rightarrow> wrun n pc' s')"

fun is_dead :: "wpc \<Rightarrow> bool" where
  "is_dead (W_Dead e) = True"
| "is_dead _ = False"

section \<open>The system\<close>

record sys =
  ap :: app
  wpc :: wpc

text \<open>The state once \<open>Rigol_thread.start()\<close> (line 247) has run: the window and a
  started, unconnected thread. \<open>__init__\<close>'s own \<open>connect_tool()\<close> (line 249) is the
  first \<open>connect\<close> step below; the worker may run before it.\<close>

definition sys_init :: sys where
  "sys_init = \<lparr>ap = initial_app, wpc = W_Top\<rparr>"

text \<open>One step of either thread. The user's actions are the Tool menu's Connect,
  DisConnect and Add Connection (lines 208--232, the dialog's answer as the step's
  argument) and editing the combo box's text.\<close>

inductive sys_step :: "visa_bus \<Rightarrow> sys \<Rightarrow> sys \<Rightarrow> bool" for bus where
  worker: "\<not> is_dead (wpc s) \<Longrightarrow> wstep (wpc s) (thr (ap s)) = (pc', w') \<Longrightarrow>
           sys_step bus s \<lparr>ap = (ap s)\<lparr>thr := w'\<rparr>, wpc = pc'\<rparr>"
| deliver: "outq (thr (ap s)) \<noteq> [] \<Longrightarrow> sys_step bus s (s\<lparr>ap := res_state (deliver (ap s))\<rparr>)"
| tick: "pqTimer (ui (ap s)) \<Longrightarrow>
         sys_step bus s (s\<lparr>ap := res_state (on_ui (plot_channel (hp (thr (ap s)))) (ap s))\<rparr>)"
| connect: "sys_step bus s (s\<lparr>ap := res_state (connect_tool bus (ap s))\<rparr>)"
| disconnect: "sys_step bus s (s\<lparr>ap := res_state (Disconnect_tool (ap s))\<rparr>)"
| edit: "sys_step bus s (s\<lparr>ap := (ap s)\<lparr>ui := (ui (ap s))\<lparr>combo_text := t\<rparr>\<rparr>\<rparr>)"
| add: "sys_step bus s (s\<lparr>ap := res_state (on_ui (add_connection_string str ok) (ap s))\<rparr>)"

inductive reachable :: "visa_bus \<Rightarrow> sys \<Rightarrow> bool" for bus where
  init: "reachable bus sys_init"
| step: "reachable bus s \<Longrightarrow> sys_step bus s t \<Longrightarrow> reachable bus t"

text \<open>The same steps as an executable scheduler: an action names the thread and the event,
  and \<open>sys_act\<close> is \<open>None\<close> when the event cannot happen in the state.\<close>

datatype action = A_Worker | A_Deliver | A_Tick | A_Connect | A_Disconnect | A_Edit string | A_Add string bool

fun sys_act :: "visa_bus \<Rightarrow> action \<Rightarrow> sys \<Rightarrow> sys option" where
  "sys_act bus A_Worker s =
     (if is_dead (wpc s) then None
      else (case wstep (wpc s) (thr (ap s)) of (pc', w') \<Rightarrow> Some \<lparr>ap = (ap s)\<lparr>thr := w'\<rparr>, wpc = pc'\<rparr>))"
| "sys_act bus A_Deliver s =
     (if outq (thr (ap s)) = [] then None else Some (s\<lparr>ap := res_state (deliver (ap s))\<rparr>))"
| "sys_act bus A_Tick s =
     (if pqTimer (ui (ap s))
      then Some (s\<lparr>ap := res_state (on_ui (plot_channel (hp (thr (ap s)))) (ap s))\<rparr>) else None)"
| "sys_act bus A_Connect s = Some (s\<lparr>ap := res_state (connect_tool bus (ap s))\<rparr>)"
| "sys_act bus A_Disconnect s = Some (s\<lparr>ap := res_state (Disconnect_tool (ap s))\<rparr>)"
| "sys_act bus (A_Edit t) s = Some (s\<lparr>ap := (ap s)\<lparr>ui := (ui (ap s))\<lparr>combo_text := t\<rparr>\<rparr>\<rparr>)"
| "sys_act bus (A_Add t ok) s = Some (s\<lparr>ap := res_state (on_ui (add_connection_string t ok) (ap s))\<rparr>)"

fun sys_run :: "visa_bus \<Rightarrow> action list \<Rightarrow> sys \<Rightarrow> sys option" where
  "sys_run bus [] s = Some s"
| "sys_run bus (a # as) s = (case sys_act bus a s of None \<Rightarrow> None | Some t \<Rightarrow> sys_run bus as t)"

section \<open>Frames of the UI thread's events\<close>

lemma on_ui_thr: "thr (res_state (on_ui m s)) = thr s"
  by (cases "m (ui s)") (simp_all add: on_ui_def)

lemma on_ui_ui: "ui (res_state (on_ui m s)) = res_state (m (ui s))"
  by (cases "m (ui s)") (simp_all add: on_ui_def)

lemma add_connection_string_dict:
  "disp_Scope_wave (res_state (add_connection_string str ok d)) = disp_Scope_wave d"
  by (simp add: add_connection_string_def pui_def pmodify_def pret_def)

section \<open>The fine-grained worker refines \<open>run_step\<close>\<close>

lemma wrun_dead [simp]: "wrun n (W_Dead e) s = (W_Dead e, s)"
  by (induction n) simp_all

lemma wrun_add: "wrun (m + n) pc s = (case wrun m pc s of (pc', s') \<Rightarrow> wrun n pc' s')"
  by (induction m arbitrary: pc s) (simp_all split: prod.splits)

lemma wrun_writes:
  "wrun (length ws) (W_Write c a ws) s =
     (case pfor ws (write_field c) s of Ret _ s' \<Rightarrow> (W_Write c a [], s') | Exc e s' \<Rightarrow> (W_Dead e, s'))"
proof (induction ws arbitrary: s)
  case Nil
  then show ?case by (simp add: pret_def)
next
  case (Cons w ws)
  then show ?case
    by (cases "write_field c w s") (simp_all add: pbind_def)
qed

lemma length_channel_writes [simp]: "length (channel_writes a) = 8"
  by (simp add: channel_writes_def)

lemma wrun_channel:
  "wrun 9 (W_Write c a (channel_writes a)) s =
     (case pbind (pfor (channel_writes a) (write_field c)) (\<lambda>_. emit_status (ReadStatus c (length (acq_raw a)))) s of
        Ret _ s' \<Rightarrow> (if c = CHAN1 then prep_channel CHAN2 s' else end_iteration s')
      | Exc e s' \<Rightarrow> (W_Dead e, s'))"
proof -
  have "wrun (8 + 1) (W_Write c a (channel_writes a)) s =
          (case wrun 8 (W_Write c a (channel_writes a)) s of (pc', s') \<Rightarrow> wrun 1 pc' s')"
    by (rule wrun_add)
  also have "\<dots> = (case pfor (channel_writes a) (write_field c) s of
                    Ret _ s' \<Rightarrow> wrun 1 (W_Write c a []) s' | Exc e s' \<Rightarrow> (W_Dead e, s'))"
    using wrun_writes [of "channel_writes a" c a s] by (simp split: res.splits)
  finally show ?thesis
    by (simp add: pbind_def emit_status_def emit_def pmodify_def split: res.splits prod.splits)
qed

lemma get_channel_split:
  "get_channel c =
     pbind (pbind (ensure_wave c) (\<lambda>_. read_channel c))
       (\<lambda>a. pbind (pfor (channel_writes a) (write_field c)) (\<lambda>_. emit_status (ReadStatus c (length (acq_raw a)))))"
  by (simp add: get_channel_def pbind_assoc)

text \<open>The two grains agree: the statement-level worker, started at the loop head,
  reaches after enough steps exactly the state \<open>run_step\<close> ends in, back at
  the loop head when the iteration returns and dead with the same exception when it raises.\<close>

lemma wstep_refines_run_step:
  "\<exists>n. wrun n W_Top s = (case run_step s of Ret _ s' \<Rightarrow> (W_Top, s') | Exc e s' \<Rightarrow> (W_Dead e, s'))"
proof (cases "scope (wk s) = None")
  case True
  then show ?thesis
    by (intro exI [of _ 1]) (simp add: run_step_def idle_iteration_def emit_status_def emit_def pmodify_def)
next
  case False
  let ?P = "\<lambda>c. pbind (ensure_wave c) (\<lambda>_. read_channel c)"
  let ?G = "\<lambda>c a. pbind (pfor (channel_writes a) (write_field c)) (\<lambda>_. emit_status (ReadStatus c (length (acq_raw a))))"
  have a: "wrun 19 W_Top s = (case wrun 10 W_Top s of (pc, s1) \<Rightarrow> wrun 9 pc s1)"
    using wrun_add [of 10 9 W_Top s] by simp
  have b: "wrun 10 W_Top s = (case wrun (Suc 0) W_Top s of (pc, s1) \<Rightarrow> wrun 9 pc s1)"
    using wrun_add [of "Suc 0" 9 W_Top s] by simp
  have run: "run_step s =
      pbind (?P CHAN1) (\<lambda>a1. pbind (?G CHAN1 a1) (\<lambda>_. pbind (?P CHAN2) (\<lambda>a2.
        pbind (?G CHAN2 a2) (\<lambda>_. poll_tail True)))) s"
    using False
    by (simp add: run_step_def poll_iteration_def getData_online_def channels_def get_channel_split
        pbind_assoc)
  have ws: "wstep W_Top s = prep_channel CHAN1 s"
    using False by (simp only: wstep.simps(1) if_not_P [OF False] if_False)
  have w1: "wrun (Suc 0) W_Top s = prep_channel CHAN1 s"
    by (simp add: ws del: wstep.simps split: prod.splits)
  have "wrun 19 W_Top s = (case run_step s of Ret _ s' \<Rightarrow> (W_Top, s') | Exc e s' \<Rightarrow> (W_Dead e, s'))"
  proof (cases "?P CHAN1 s")
    case (Exc e s1)
    then show ?thesis by (simp add: a b w1 run prep_channel_def del: wrun.simps)
  next
    case (Ret a1 s1)
    then have w1': "wrun (Suc 0) W_Top s = (W_Write CHAN1 a1 (channel_writes a1), s1)"
      by (simp add: w1 prep_channel_def del: wrun.simps)
    show ?thesis
    proof (cases "?G CHAN1 a1 s1")
      case (Exc e s2)
      then show ?thesis using Ret by (simp add: a b w1' run wrun_channel del: wrun.simps)
    next
      case (Ret u s2)
      note r1 = \<open>?P CHAN1 s = Ret a1 s1\<close>
      show ?thesis
      proof (cases "?P CHAN2 s2")
        case (Exc e s3)
        then show ?thesis using r1 Ret
          by (simp add: a b w1' run wrun_channel prep_channel_def del: wrun.simps)
      next
        case (Ret a2 s3)
        note r2 = this
        have w10: "wrun 10 W_Top s = (W_Write CHAN2 a2 (channel_writes a2), s3)"
          using r1 \<open>?G CHAN1 a1 s1 = Ret u s2\<close> r2
          by (simp add: b w1' wrun_channel prep_channel_def del: wrun.simps)
        show ?thesis
          using r1 \<open>?G CHAN1 a1 s1 = Ret u s2\<close> r2
          by (cases "?G CHAN2 a2 s3")
             (simp_all add: a w10 run wrun_channel end_iteration_def del: wrun.simps split: res.splits)
      qed
    qed
  qed
  then show ?thesis by blast
qed

section \<open>The scheduler and the step relation\<close>

lemma sys_act_step: "sys_act bus a s = Some t \<Longrightarrow> sys_step bus s t"
  by (cases a) (auto intro: sys_step.intros split: if_splits prod.splits)

lemma sys_step_act: "sys_step bus s t \<Longrightarrow> \<exists>a. sys_act bus a s = Some t"
proof (induction rule: sys_step.induct)
  case (worker s pc' w')
  then show ?case by (intro exI [of _ A_Worker]) simp
next
  case (deliver s)
  then show ?case by (intro exI [of _ A_Deliver]) simp
next
  case (tick s)
  then show ?case by (intro exI [of _ A_Tick]) simp
next
  case (connect s)
  then show ?case by (intro exI [of _ A_Connect]) simp
next
  case (disconnect s)
  then show ?case by (intro exI [of _ A_Disconnect]) simp
next
  case (edit s t)
  then show ?case by (intro exI [of _ "A_Edit t"]) simp
next
  case (add s str ok)
  then show ?case by (intro exI [of _ "A_Add str ok"]) simp
qed

text \<open>The executable scheduler and the step relation describe the same steps.\<close>

lemma sys_step_iff_act: "sys_step bus s t \<longleftrightarrow> (\<exists>a. sys_act bus a s = Some t)"
  using sys_act_step sys_step_act by blast

lemma sys_run_reachable: "reachable bus s \<Longrightarrow> sys_run bus as s = Some t \<Longrightarrow> reachable bus t"
proof (induction as arbitrary: s)
  case Nil
  then show ?case by simp
next
  case (Cons a as)
  then obtain s1 where "sys_act bus a s = Some s1" and "sys_run bus as s1 = Some t"
    by (auto split: option.splits)
  then show ?case using Cons.IH Cons.prems(1) by (blast intro: reachable.step sys_act_step)
qed

end
