(* ===== verification/Interleaving.thy ===== *)
theory Interleaving
  imports System
begin

text \<open>
  What the two threads can and cannot observe of each other. The invariant \<open>sys_inv\<close>
  says that the worker's dictionary names distinct allocated objects, that every queued
  snapshot signal and every entry of the window's dictionary name the worker's current
  object for that channel (the window never holds a copy), that a worker inside a
  channel's assignments has the rest of that channel's assignment list to do, and that
  every object has arrays of equal length except while the worker is between the
  assignments of \<open>x\<close> and \<open>y\<close> of that object. It is proved for every reachable state
  by rule induction, one preservation lemma per kind of step. A concrete interleaving on
  an instrument that changes its memory depth shows that the exception is real: the
  redraw timer then reads a half-written object and pyqtgraph refuses it. The same run
  shows the window's object changing between two deliveries and a Connect swapping the
  session under a worker in mid-cycle; a dead worker stays dead under every step.
\<close>

section \<open>The invariant of the two threads\<close>

text \<open>The worker is between its assignments of \<open>x\<close> and \<open>y\<close> to a channel's object when
  one assignment, that of \<open>y\<close>, is left.\<close>

fun writing_y :: "wpc \<Rightarrow> chan \<Rightarrow> bool" where
  "writing_y (W_Write c' a [w]) c = (c' = c)"
| "writing_y _ c = False"

definition obj_lengths_ok :: "wpc \<Rightarrow> chan \<Rightarrow> scope_data \<Rightarrow> bool" where
  "obj_lengths_ok pc c d =
     (case pc of
        W_Write c' a [w] \<Rightarrow>
          (if c' = c then length (sd_x d) = length (acq_raw a) else length (sd_x d) = length (sd_y d))
      | _ \<Rightarrow> length (sd_x d) = length (sd_y d))"

definition lengths_ok :: "wpc \<Rightarrow> wstate \<Rightarrow> bool" where
  "lengths_ok pc w \<longleftrightarrow>
     (\<forall>c r. Scope_wave (wk w) c = Some r \<longrightarrow> obj_lengths_ok pc c (objs (hp w) r))"

text \<open>A worker inside a channel's assignments has the rest of that channel's list to do,
  and the channel has its object.\<close>

definition pc_ok :: "wpc \<Rightarrow> wstate \<Rightarrow> bool" where
  "pc_ok pc w =
     (case pc of
        W_Write c a ws \<Rightarrow> ws = drop (8 - length ws) (channel_writes a) \<and> Scope_wave (wk w) c \<noteq> None
      | _ \<Rightarrow> True)"

text \<open>Every queued snapshot signal names the object the thread's dictionary holds for its
  channel, and so does every entry of the window's dictionary.\<close>

definition signals_ok :: "wstate \<Rightarrow> bool" where
  "signals_ok w \<longleftrightarrow>
     (\<forall>r. SigCH1 r \<in> set (outq w) \<longrightarrow> Scope_wave (wk w) CHAN1 = Some r)
   \<and> (\<forall>r. SigCH2 r \<in> set (outq w) \<longrightarrow> Scope_wave (wk w) CHAN2 = Some r)"

definition display_aliases :: "display \<Rightarrow> wstate \<Rightarrow> bool" where
  "display_aliases d w \<longleftrightarrow> (\<forall>c r. disp_Scope_wave d c = Some r \<longrightarrow> Scope_wave (wk w) c = Some r)"

definition sys_inv :: "sys \<Rightarrow> bool" where
  "sys_inv s \<longleftrightarrow>
     worker_inv (thr (ap s)) \<and> pc_ok (wpc s) (thr (ap s)) \<and> lengths_ok (wpc s) (thr (ap s))
   \<and> signals_ok (thr (ap s)) \<and> display_aliases (ui (ap s)) (thr (ap s))"

text \<open>An instrument at the combo box's first address that answers two channels of two
  samples, then a first channel of three samples (a changed memory depth).\<close>

definition demo_bus :: visa_bus where
  "demo_bus adr =
     (if adr = ''TCPIP0::192.168.1.23::inst0::INSTR''
      then Inr (poll_replies (demo_acq [128, 228]) (demo_acq [128, 28]) @ channel_replies (demo_acq [128, 128, 128]))
      else Inl VisaIOError)"

text \<open>A schedule on \<open>demo_bus\<close>: the \<open>connect_tool\<close> of \<open>__init__\<close>, one full poll
  iteration (19 worker steps), the delivery of its four signals and a redraw; then the
  next iteration up to the assignment of channel 1's \<open>x\<close>. Two more worker steps finish
  that assignment and then time out on channel 2.\<close>

definition published_schedule :: "action list" where
  "published_schedule = [A_Connect] @ replicate 19 A_Worker @ replicate 4 A_Deliver @ [A_Tick]"

definition torn_schedule :: "action list" where
  "torn_schedule = published_schedule @ replicate 8 A_Worker"

definition published_state :: sys where
  "published_state = the (sys_run demo_bus published_schedule sys_init)"

definition dead_schedule :: "action list" where
  "dead_schedule = torn_schedule @ [A_Worker, A_Worker]"

definition torn_state :: sys where
  "torn_state = the (sys_run demo_bus torn_schedule sys_init)"

definition dead_state :: sys where
  "dead_state = the (sys_run demo_bus dead_schedule sys_init)"

section \<open>Frame lemmas of the worker's statements\<close>

lemma write_field_eq:
  "write_field c w s =
     (case Scope_wave (wk s) c of
        None \<Rightarrow> Exc (KeyError (chan_name c)) s
      | Some r \<Rightarrow> Ret () (s\<lparr>hp := set_field r (apply_write w) (hp s)\<rparr>))"
  by (cases "Scope_wave (wk s) c") (simp_all add: write_field_def pbind_def pgets_def pmodify_def)

lemma keeps_read_channel_view:
  "keeps (\<lambda>s. P (Scope_wave (wk s)) (hp s) (outq s)) (read_channel c)"
  unfolding read_channel_def query_scalar_def by (intro keeps_intros) simp_all

lemma keeps_close_connection_view:
  "keeps (\<lambda>s. P (Scope_wave (wk s)) (hp s) (outq s)) close_connection"
proof -
  have "keeps (\<lambda>s. P (Scope_wave (wk s)) (hp s) (outq s)) rm_close"
    by (auto simp: keeps_def rm_close_def split: option.splits)
  then show ?thesis
    unfolding close_connection_def pwk_def by (intro keeps_intros) simp_all
qed

lemma prep_channel_view:
  assumes "prep_channel c s = (pc', s')" and "ensure_wave c s = Ret () s1"
  shows "Scope_wave (wk s') = Scope_wave (wk s1) \<and> hp s' = hp s1 \<and> outq s' = outq s1
       \<and> (is_dead pc' \<or> (\<exists>a. pc' = W_Write c a (channel_writes a)))"
proof -
  have "Scope_wave (wk (res_state (read_channel c s1))) = Scope_wave (wk s1)
        \<and> hp (res_state (read_channel c s1)) = hp s1 \<and> outq (res_state (read_channel c s1)) = outq s1"
    by (rule keepsD [OF keeps_read_channel_view [where P = "\<lambda>sw h q. sw = Scope_wave (wk s1) \<and> h = hp s1 \<and> q = outq s1"]]) simp
  then show ?thesis
    using assms by (cases "read_channel c s1") (auto simp: prep_channel_def)
qed

section \<open>The worker keeps the invariant\<close>

lemma obj_lengths_ok_plain:
  "length ws \<noteq> 1 \<Longrightarrow> obj_lengths_ok (W_Write c' a ws) c d = obj_lengths_ok W_Top c d"
  by (cases ws; cases "tl ws") (auto simp: obj_lengths_ok_def)

lemma lengths_ok_plain:
  "length ws \<noteq> 1 \<Longrightarrow> lengths_ok (W_Write c a ws) w = lengths_ok W_Top w"
  "lengths_ok (W_Dead e) w = lengths_ok W_Top w"
  by (simp_all add: lengths_ok_def obj_lengths_ok_plain) (simp add: obj_lengths_ok_def)

lemma signals_ok_mono:
  "signals_ok s \<Longrightarrow> outq s' = outq s \<Longrightarrow> Scope_wave (wk s) \<subseteq>\<^sub>m Scope_wave (wk s') \<Longrightarrow> signals_ok s'"
  by (auto simp: signals_ok_def map_le_def dom_def)

lemma display_aliases_mono:
  "display_aliases d w \<Longrightarrow> Scope_wave (wk w) \<subseteq>\<^sub>m Scope_wave (wk w') \<Longrightarrow> display_aliases d w'"
  by (auto simp: display_aliases_def map_le_def dom_def)

lemma ensure_wave_inv:
  assumes "worker_inv s" and "lengths_ok W_Top s" and "signals_ok s" and "ensure_wave c s = Ret () s'"
  shows "worker_inv s' \<and> lengths_ok W_Top s' \<and> signals_ok s' \<and> Scope_wave (wk s) \<subseteq>\<^sub>m Scope_wave (wk s')
       \<and> Scope_wave (wk s') c \<noteq> None"
proof (cases "Scope_wave (wk s) c")
  case (Some r)
  then show ?thesis using assms by (simp add: ensure_wave_present)
next
  case None
  have fresh: "\<And>c' r'. Scope_wave (wk s) c' = Some r' \<Longrightarrow> r' \<noteq> next_ref (hp s)"
    using assms(1) by (fastforce simp: worker_inv_def allocated_def)
  have le: "Scope_wave (wk s) \<subseteq>\<^sub>m Scope_wave (wk s')"
    using assms(4) None by (auto simp: ensure_wave_absent map_le_def)
  have objs': "\<And>r. objs (hp s') r =
      (if r = next_ref (hp s) then ScopeData_nativ_init\<lparr>sd_x := [0, 1], sd_y := [0, 0]\<rparr> else objs (hp s) r)"
    using assms(4) None by (auto simp: ensure_wave_absent alloc_def set_field_def)
  have sw': "Scope_wave (wk s') = (Scope_wave (wk s))(c \<mapsto> next_ref (hp s))"
    using assms(4) None by (auto simp: ensure_wave_absent)
  have "lengths_ok W_Top s'"
    using assms(2) fresh unfolding lengths_ok_def obj_lengths_ok_def sw' objs'
    by (auto simp: ScopeData_nativ_init_def)
  then show ?thesis
    using worker_inv_ensure_wave [OF assms(1,4)] signals_ok_mono [OF assms(3) _ le] le by auto
qed

lemma obj_lengths_ok_other:
  "c' \<noteq> c \<Longrightarrow> obj_lengths_ok (W_Write c a ws) c' d = obj_lengths_ok W_Top c' d"
  by (cases ws; cases "tl ws") (auto simp: obj_lengths_ok_def)

lemma obj_lengths_ok_write:
  assumes "k < 8" and "w # ws = drop k (channel_writes a)"
    and "obj_lengths_ok (W_Write c a (w # ws)) c d"
  shows "obj_lengths_ok (W_Write c a ws) c (apply_write w d)"
proof -
  have "k \<in> {0, 1, 2, 3, 4, 5, 6, 7}" using assms(1) by auto
  then show ?thesis
    using assms(2,3) by (auto simp: channel_writes_def Let_def obj_lengths_ok_def)
qed

lemma write_step_inv:
  assumes inv: "worker_inv s" and pc: "pc_ok (W_Write c a (w # ws)) s"
    and len: "lengths_ok (W_Write c a (w # ws)) s" and wf: "write_field c w s = Ret () s'"
  shows "worker_inv s' \<and> pc_ok (W_Write c a ws) s' \<and> lengths_ok (W_Write c a ws) s'
       \<and> Scope_wave (wk s') = Scope_wave (wk s) \<and> outq s' = outq s"
proof -
  obtain r where r: "Scope_wave (wk s) c = Some r" using pc by (auto simp: pc_ok_def)
  have s': "s' = s\<lparr>hp := set_field r (apply_write w) (hp s)\<rparr>"
    using wf r by (simp add: write_field_eq)
  define k where "k = 8 - length (w # ws)"
  have drop: "w # ws = drop k (channel_writes a)" using pc by (simp add: pc_ok_def k_def)
  then have k: "k < 8" by (metis length_channel_writes drop_all list.distinct(1) not_less)
  have ws: "ws = drop (Suc k) (channel_writes a)"
    using drop by (metis drop_Suc list.sel(3) tl_drop)
  have "8 - length ws = Suc k" using ws k by simp
  then have pc': "pc_ok (W_Write c a ws) s'" using ws r s' by (simp add: pc_ok_def)
  have "lengths_ok (W_Write c a ws) s'"
    unfolding lengths_ok_def
  proof (intro allI impI)
    fix c' r' assume r': "Scope_wave (wk s') c' = Some r'"
    show "obj_lengths_ok (W_Write c a ws) c' (objs (hp s') r')"
    proof (cases "c' = c")
      case True
      then show ?thesis
        using r r' s' len obj_lengths_ok_write [OF k drop] by (simp add: lengths_ok_def)
    next
      case False
      then have "r' \<noteq> r" using inv r r' s' worker_inv_distinct by simp
      have "obj_lengths_ok (W_Write c a (w # ws)) c' (objs (hp s) r')"
        using len r' s' by (simp add: lengths_ok_def)
      then show ?thesis
        using False \<open>r' \<noteq> r\<close> s' by (simp add: obj_lengths_ok_other)
    qed
  qed
  moreover have "worker_inv s'" using inv s' worker_inv_cong [of s' s] by simp
  ultimately show ?thesis using pc' s' by simp
qed

lemma poll_tail_view:
  assumes "signals_ok s"
  shows "signals_ok (res_state (poll_tail b s)) \<and> Scope_wave (wk (res_state (poll_tail b s))) = Scope_wave (wk s)
       \<and> hp (res_state (poll_tail b s)) = hp s"
proof (cases "Scope_wave (wk s) CHAN1")
  case None
  then show ?thesis using assms by (simp add: poll_tail_def wave_ref_def pbind_def pgets_def)
next
  case (Some r1)
  show ?thesis
  proof (cases "Scope_wave (wk s) CHAN2")
    case None
    then show ?thesis using assms Some
      by (simp add: poll_tail_def wave_ref_Some wave_ref_def pbind_def pgets_def emit_def pmodify_def signals_ok_def)
  next
    case (Some r2)
    let ?s2 = "s\<lparr>outq := outq s @ [SigCH1 r1, SigCH2 r2]\<rparr>"
    have pt: "poll_tail b s = (if stop_connection (wk s) then close_connection else pret ()) ?s2"
      using \<open>Scope_wave (wk s) CHAN1 = Some r1\<close> Some
      by (simp add: poll_tail_def wave_ref_Some emit_def pmodify_def pbind_def pgets_def)
    let ?P = "\<lambda>sw h q. sw = Scope_wave (wk s) \<and> h = hp s \<and>
                (\<forall>r. SigCH1 r \<in> set q \<longrightarrow> sw CHAN1 = Some r) \<and> (\<forall>r. SigCH2 r \<in> set q \<longrightarrow> sw CHAN2 = Some r)"
    have p2: "?P (Scope_wave (wk ?s2)) (hp ?s2) (outq ?s2)"
      using assms \<open>Scope_wave (wk s) CHAN1 = Some r1\<close> Some by (auto simp: signals_ok_def)
    have "?P (Scope_wave (wk (res_state (poll_tail b s)))) (hp (res_state (poll_tail b s)))
                  (outq (res_state (poll_tail b s)))"
    proof (cases "stop_connection (wk s)")
      case True
      have "?P (Scope_wave (wk (res_state (close_connection ?s2)))) (hp (res_state (close_connection ?s2)))
              (outq (res_state (close_connection ?s2)))"
        by (rule keepsD [OF keeps_close_connection_view [where P = ?P] p2])
      then show ?thesis using pt True by auto
    next
      case False
      then show ?thesis using pt p2 Some \<open>Scope_wave (wk s) CHAN1 = Some r1\<close> by (auto simp: pret_def)
    qed
    then show ?thesis by (elim conjE) (simp add: signals_ok_def)
  qed
qed

lemma emit_status_state: "emit_status m s = Ret () (s\<lparr>outq := outq s @ [SigStatus m]\<rparr>)"
  by (simp add: emit_status_def emit_def pmodify_def)

lemma signals_ok_status: "signals_ok (s\<lparr>outq := outq s @ [SigStatus m]\<rparr>) = signals_ok s"
  by (auto simp: signals_ok_def)

lemma is_dead_iff: "is_dead pc \<longleftrightarrow> (\<exists>e. pc = W_Dead e)"
  by (cases pc) simp_all

lemma prep_channel_inv:
  assumes "worker_inv s" and "lengths_ok W_Top s" and "signals_ok s" and "prep_channel c s = (pc', s')"
  shows "worker_inv s' \<and> pc_ok pc' s' \<and> lengths_ok pc' s' \<and> signals_ok s' \<and> Scope_wave (wk s) \<subseteq>\<^sub>m Scope_wave (wk s')"
proof -
  obtain s1 where e: "ensure_wave c s = Ret () s1" using ensure_wave_Ret by blast
  note E = ensure_wave_inv [OF assms(1-3) e]
  note V = prep_channel_view [OF assms(4) e]
  have "worker_inv s'" using E V worker_inv_cong [of s' s1] by simp
  moreover have "lengths_ok W_Top s'" using E V by (simp add: lengths_ok_def)
  moreover have "signals_ok s'" using E V by (simp add: signals_ok_def)
  moreover have "pc_ok pc' s' \<and> lengths_ok pc' s' = lengths_ok W_Top s'"
    using V E by (auto simp: is_dead_iff pc_ok_def lengths_ok_plain)
  ultimately show ?thesis using E V by simp
qed

lemma end_iteration_inv:
  assumes "signals_ok s" and "end_iteration s = (pc', s')"
  shows "signals_ok s' \<and> Scope_wave (wk s') = Scope_wave (wk s) \<and> hp s' = hp s \<and> (pc' = W_Top \<or> is_dead pc')"
  using poll_tail_view [OF assms(1), of True] assms(2)
  by (cases "poll_tail True s") (auto simp: end_iteration_def)


lemma view_cong:
  "Scope_wave (wk w') = Scope_wave (wk w) \<Longrightarrow> hp w' = hp w \<Longrightarrow>
   worker_inv w' = worker_inv w \<and> lengths_ok pc w' = lengths_ok pc w \<and> pc_ok pc w' = pc_ok pc w"
  using worker_inv_cong [of w' w] by (cases pc) (simp_all add: lengths_ok_def pc_ok_def)

lemma wstep_inv:
  assumes inv: "worker_inv w" and pc: "pc_ok pc w" and len: "lengths_ok pc w" and sig: "signals_ok w"
    and st: "wstep pc w = (pc', w')"
  shows "worker_inv w' \<and> pc_ok pc' w' \<and> lengths_ok pc' w' \<and> signals_ok w' \<and> Scope_wave (wk w) \<subseteq>\<^sub>m Scope_wave (wk w')"
proof (cases pc)
  case W_Top
  show ?thesis
  proof (cases "scope (wk w) = None")
    case True
    let ?w1 = "w\<lparr>outq := outq w @ [SigStatus (StatusText ''Disconnected'')]\<rparr>"
    have "pc' = W_Top \<and> w' = ?w1"
      using st W_Top True by (simp add: idle_iteration_def emit_status_state)
    then show ?thesis
      using view_cong [of ?w1 w] inv pc len sig W_Top by (simp add: signals_ok_status)
  next
    case False
    have "prep_channel CHAN1 w = (pc', w')" using st unfolding W_Top wstep.simps(1) if_not_P [OF False] .
    then show ?thesis
      using prep_channel_inv [OF inv _ sig, of CHAN1 pc' w'] W_Top len by simp
  qed
next
  case (W_Write c a ws)
  show ?thesis
  proof (cases ws)
    case (Cons x ws')
    obtain r where r: "Scope_wave (wk w) c = Some r" using pc W_Write by (auto simp: pc_ok_def)
    then have wf: "write_field c x w = Ret () (w\<lparr>hp := set_field r (apply_write x) (hp w)\<rparr>)"
      by (simp add: write_field_eq)
    then have "pc' = W_Write c a ws' \<and> w' = w\<lparr>hp := set_field r (apply_write x) (hp w)\<rparr>"
      using st W_Write Cons by simp
    then show ?thesis
      using write_step_inv [OF inv _ _ wf] pc len sig W_Write Cons by (simp add: signals_ok_def)
  next
    case Nil
    let ?w1 = "w\<lparr>outq := outq w @ [SigStatus (ReadStatus c (length (acq_raw a)))]\<rparr>"
    have inv1: "worker_inv ?w1 \<and> lengths_ok W_Top ?w1 \<and> signals_ok ?w1"
      using view_cong [of ?w1 w] inv len sig W_Write Nil by (simp add: signals_ok_status lengths_ok_plain)
    have st1: "(if c = CHAN1 then prep_channel CHAN2 ?w1 else end_iteration ?w1) = (pc', w')"
      using st W_Write Nil by (simp add: emit_status_state)
    show ?thesis
    proof (cases "c = CHAN1")
      case True
      then show ?thesis using prep_channel_inv [of ?w1 CHAN2 pc' w'] inv1 st1 by simp
    next
      case False
      then have e: "end_iteration ?w1 = (pc', w')" using st1 by simp
      have E: "signals_ok w' \<and> Scope_wave (wk w') = Scope_wave (wk ?w1) \<and> hp w' = hp ?w1
               \<and> (pc' = W_Top \<or> is_dead pc')"
        using end_iteration_inv [OF _ e] inv1 by blast
      then have V: "worker_inv w' = worker_inv ?w1 \<and> lengths_ok W_Top w' = lengths_ok W_Top ?w1"
        using view_cong [of w' ?w1 W_Top] by blast
      have "pc_ok pc' w' \<and> lengths_ok pc' w' = lengths_ok W_Top w'"
        using E by (auto simp: is_dead_iff pc_ok_def lengths_ok_plain)
      then show ?thesis using E V inv1 by simp
    qed
  qed
next
  case (W_Dead e)
  then show ?thesis using st inv pc len sig by simp
qed


section \<open>The UI thread keeps the invariant\<close>

lemma keeps_on_ui_view:
  fixes m :: "('b, display) pyfn"
  assumes m: "\<And>w :: wstate. keeps (\<lambda>d. P (disp_Scope_wave d) (Scope_wave (wk w)) (hp w) (outq w)) m"
  shows "keeps (\<lambda>s. P (disp_Scope_wave (ui s)) (Scope_wave (wk (thr s))) (hp (thr s)) (outq (thr s))) (on_ui m)"
  unfolding keeps_def
proof (intro allI impI)
  fix s :: app assume "P (disp_Scope_wave (ui s)) (Scope_wave (wk (thr s))) (hp (thr s)) (outq (thr s))"
  then have "P (disp_Scope_wave (res_state (m (ui s)))) (Scope_wave (wk (thr s))) (hp (thr s)) (outq (thr s))"
    using keepsD [OF m [of "thr s"], of "ui s"] by simp
  then show "P (disp_Scope_wave (ui (res_state (on_ui m s)))) (Scope_wave (wk (thr (res_state (on_ui m s)))))
               (hp (thr (res_state (on_ui m s)))) (outq (thr (res_state (on_ui m s))))"
    by (cases "m (ui s)") (simp_all add: on_ui_def)
qed

lemma keeps_on_thread_view:
  fixes m :: "('b, wstate) pyfn"
  assumes m: "\<And>d :: display. keeps (\<lambda>w. P (disp_Scope_wave d) (Scope_wave (wk w)) (hp w) (outq w)) m"
  shows "keeps (\<lambda>s. P (disp_Scope_wave (ui s)) (Scope_wave (wk (thr s))) (hp (thr s)) (outq (thr s))) (on_thread m)"
  unfolding keeps_def
proof (intro allI impI)
  fix s :: app assume "P (disp_Scope_wave (ui s)) (Scope_wave (wk (thr s))) (hp (thr s)) (outq (thr s))"
  then have "P (disp_Scope_wave (ui s)) (Scope_wave (wk (res_state (m (thr s))))) (hp (res_state (m (thr s))))
               (outq (res_state (m (thr s))))"
    using keepsD [OF m [of "ui s"], of "thr s"] by simp
  then show "P (disp_Scope_wave (ui (res_state (on_thread m s)))) (Scope_wave (wk (thr (res_state (on_thread m s)))))
               (hp (thr (res_state (on_thread m s)))) (outq (thr (res_state (on_thread m s))))"
    by (cases "m (thr s)") (simp_all add: on_thread_def)
qed

lemma keeps_plot_channel_dict: "keeps (\<lambda>d. Q (disp_Scope_wave d)) (plot_channel h)"
  unfolding plot_channel_def disp_wave_def first_draw_def redraw_def pui_def Let_def
  by (intro keeps_intros) simp_all

lemma keeps_pui_dict:
  "(\<And>d. disp_Scope_wave (f d) = disp_Scope_wave d) \<Longrightarrow> keeps (\<lambda>d. Q (disp_Scope_wave d)) (pui f)"
  unfolding pui_def by (intro keeps_intros) simp

lemma keeps_connect_scope_ADR_view:
  "keeps (\<lambda>w. Q (Scope_wave (wk w)) (hp w) (outq w)) (connect_scope_ADR bus adr)"
  unfolding connect_scope_ADR_def pwk_def by (intro keeps_intros) simp_all

lemma keeps_Disconnect_scope_view:
  "keeps (\<lambda>w. Q (Scope_wave (wk w)) (hp w) (outq w)) Disconnect_scope"
  unfolding Disconnect_scope_def pwk_def by (intro keeps_intros) simp_all

lemma keeps_connect_tool_view:
  "keeps (\<lambda>s. P (disp_Scope_wave (ui s)) (Scope_wave (wk (thr s))) (hp (thr s)) (outq (thr s))) (connect_tool bus)"
  unfolding connect_tool_def showMessage_def
  by (intro keeps_pbind keeps_pgets keeps_on_ui_view keeps_on_thread_view keeps_pui_dict
        keeps_connect_scope_ADR_view) simp_all

lemma keeps_Disconnect_tool_view:
  "keeps (\<lambda>s. P (disp_Scope_wave (ui s)) (Scope_wave (wk (thr s))) (hp (thr s)) (outq (thr s))) Disconnect_tool"
  unfolding Disconnect_tool_def showMessage_def
  by (intro keeps_pbind keeps_on_ui_view keeps_on_thread_view keeps_pui_dict keeps_Disconnect_scope_view) simp_all

lemma keeps_tick_view:
  "keeps (\<lambda>s. P (disp_Scope_wave (ui s)) (Scope_wave (wk (thr s))) (hp (thr s)) (outq (thr s))) (on_ui (plot_channel h))"
  by (intro keeps_on_ui_view keeps_plot_channel_dict)

section \<open>Every step and every reachable state\<close>

lemma keeps_view_frame:
  assumes "\<And>P. keeps (\<lambda>s. P (disp_Scope_wave (ui s)) (Scope_wave (wk (thr s))) (hp (thr s)) (outq (thr s))) m"
  shows "disp_Scope_wave (ui (res_state (m a))) = disp_Scope_wave (ui a)
       \<and> Scope_wave (wk (thr (res_state (m a)))) = Scope_wave (wk (thr a))
       \<and> hp (thr (res_state (m a))) = hp (thr a) \<and> outq (thr (res_state (m a))) = outq (thr a)"
  using keepsD [OF assms [of "\<lambda>D SW H Q. D = disp_Scope_wave (ui a) \<and> SW = Scope_wave (wk (thr a))
                                       \<and> H = hp (thr a) \<and> Q = outq (thr a)"], of a]
  by simp

lemma deliver_inv:
  assumes sig: "signals_ok (thr a)" and al: "display_aliases (ui a) (thr a)"
    and q: "outq (thr a) = x # rest"
  shows "Scope_wave (wk (thr (res_state (deliver a)))) = Scope_wave (wk (thr a))
       \<and> hp (thr (res_state (deliver a))) = hp (thr a) \<and> outq (thr (res_state (deliver a))) = rest
       \<and> display_aliases (ui (res_state (deliver a))) (thr (res_state (deliver a)))"
proof -
  have "display_aliases (res_state (slot_of x (hp (thr a)) (ui a))) (thr a)"
    using sig al q
    by (cases x) (auto simp: display_aliases_def signals_ok_def receive_dataCH1_def receive_dataCH2_def
        update_status_def showMessage_def on_worker_finished_def pui_def pmodify_def pret_def)
  then show ?thesis
    using q by (cases "slot_of x (hp (thr a)) (ui a)")
      (simp_all add: deliver_def on_ui_def display_aliases_def)
qed

lemma signals_ok_tl: "signals_ok w \<Longrightarrow> outq w = x # rest \<Longrightarrow> signals_ok (w\<lparr>outq := rest\<rparr>)"
  by (simp add: signals_ok_def)

lemma sys_inv_frame:
  assumes "wpc t = wpc s" and "disp_Scope_wave (ui (ap t)) = disp_Scope_wave (ui (ap s))"
    and "Scope_wave (wk (thr (ap t))) = Scope_wave (wk (thr (ap s)))" and "hp (thr (ap t)) = hp (thr (ap s))"
    and "outq (thr (ap t)) = outq (thr (ap s))"
  shows "sys_inv t = sys_inv s"
  using assms view_cong [of "thr (ap t)" "thr (ap s)" "wpc s"]
  by (simp add: sys_inv_def signals_ok_def display_aliases_def)

lemma sys_step_inv:
  assumes "sys_step bus s t" and "sys_inv s"
  shows "sys_inv t"
  using assms
proof (cases rule: sys_step.cases)
  case (worker pc' w')
  then have "worker_inv w' \<and> pc_ok pc' w' \<and> lengths_ok pc' w' \<and> signals_ok w'
             \<and> Scope_wave (wk (thr (ap s))) \<subseteq>\<^sub>m Scope_wave (wk w')"
    using assms(2) wstep_inv [of "thr (ap s)" "wpc s" pc' w'] by (simp add: sys_inv_def)
  then show ?thesis
    using worker assms(2) display_aliases_mono [of "ui (ap s)" "thr (ap s)" w'] by (simp add: sys_inv_def)
next
  case deliver
  then obtain x rest where q: "outq (thr (ap s)) = x # rest" by (cases "outq (thr (ap s))") auto
  have "signals_ok (thr (ap s))" and "display_aliases (ui (ap s)) (thr (ap s))"
    using assms(2) by (simp_all add: sys_inv_def)
  note D = deliver_inv [OF this q]
  have "signals_ok (thr (ap s)\<lparr>outq := rest\<rparr>)"
    using signals_ok_tl assms(2) q by (simp add: sys_inv_def)
  then have "signals_ok (thr (res_state (deliver (ap s))))"
    using D by (simp add: signals_ok_def)
  then show ?thesis
    using deliver D assms(2) view_cong [of "thr (res_state (deliver (ap s)))" "thr (ap s)" "wpc s"]
    by (simp add: sys_inv_def)
next
  case tick
  then show ?thesis
    using keeps_view_frame [OF keeps_tick_view, of "hp (thr (ap s))" "ap s"] assms(2)
      sys_inv_frame [of t s] by simp
next
  case connect
  then show ?thesis
    using keeps_view_frame [OF keeps_connect_tool_view, of bus "ap s"] assms(2) sys_inv_frame [of t s] by simp
next
  case disconnect
  then show ?thesis
    using keeps_view_frame [OF keeps_Disconnect_tool_view, of "ap s"] assms(2) sys_inv_frame [of t s] by simp
next
  case (edit str)
  then show ?thesis using assms(2) sys_inv_frame [of t s] by simp
next
  case (add str ok)
  then show ?thesis using assms(2) sys_inv_frame [of t s] by (simp add: on_ui_thr on_ui_ui add_connection_string_dict)
qed

lemma sys_inv_init: "sys_inv sys_init"
  by (simp add: sys_inv_def sys_init_def initial_app_def Rigol_get_Data_init_def Rigol_Live_display_def
      worker_inv_def pc_ok_def lengths_ok_def signals_ok_def display_aliases_def)

lemma reachable_sys_inv: "reachable bus s \<Longrightarrow> sys_inv s"
  by (induction rule: reachable.induct) (auto intro: sys_inv_init sys_step_inv)

lemma obj_lengths_ok_not_writing:
  "obj_lengths_ok pc c d \<Longrightarrow> \<not> writing_y pc c \<Longrightarrow> length (sd_x d) = length (sd_y d)"
  by (cases "(pc, c)" rule: writing_y.cases) (auto simp: obj_lengths_ok_def)

lemma writing_y_other: "writing_y pc c \<Longrightarrow> c' \<noteq> c \<Longrightarrow> \<not> writing_y pc c'"
  by (cases "(pc, c)" rule: writing_y.cases) auto

lemma deliver_thr:
  "outq (thr a) = x # rest \<Longrightarrow> thr (res_state (deliver a)) = (thr a)\<lparr>outq := rest\<rparr>"
  by (cases "slot_of x (hp (thr a)) (ui a)") (simp_all add: deliver_def on_ui_def)

lemma sys_run_append:
  "sys_run bus (xs @ ys) s = (case sys_run bus xs s of None \<Rightarrow> None | Some t \<Rightarrow> sys_run bus ys t)"
  by (induction xs arbitrary: s) (simp_all split: option.splits)

section \<open>Properties of every reachable state\<close>

text \<open>Claim C5: the window never holds a copy of a snapshot: in every reachable state each
  entry of the window's \<open>Scope_wave\<close> names the very object the worker keeps in its own
  \<open>Scope_wave\<close> for that channel, the one it assigns the next capture into.\<close>

theorem reachable_display_aliases:
  assumes "reachable bus s" and "disp_Scope_wave (ui (ap s)) c = Some r"
  shows "Scope_wave (wk (thr (ap s))) c = Some r"
  using reachable_sys_inv [OF assms(1)] assms(2) by (simp add: sys_inv_def display_aliases_def)

text \<open>Claim C7: in every reachable state every snapshot object has \<open>x\<close> and \<open>y\<close> of the same
  length, except the object of a channel whose worker is between its assignments of
  \<open>x\<close> (line 175) and \<open>y\<close> (line 176).\<close>

theorem reachable_lengths_agree:
  assumes "reachable bus s" and "Scope_wave (wk (thr (ap s))) c = Some r" and "\<not> writing_y (wpc s) c"
  shows "length (sd_x (objs (hp (thr (ap s))) r)) = length (sd_y (objs (hp (thr (ap s))) r))"
proof -
  have "obj_lengths_ok (wpc s) c (objs (hp (thr (ap s))) r)"
    using reachable_sys_inv [OF assms(1)] assms(2) by (simp add: sys_inv_def lengths_ok_def)
  then show ?thesis
    using assms(3) by (rule obj_lengths_ok_not_writing)
qed

text \<open>Claim C8: once the worker thread has died, no step of the system brings it back: the
  menu's Connect opens a new session but nothing polls it, the objects are never written
  again and the pending signals only drain.\<close>

theorem dead_worker_stays_dead:
  assumes "sys_step bus s t" and "wpc s = W_Dead e"
  shows "wpc t = W_Dead e \<and> hp (thr (ap t)) = hp (thr (ap s))
       \<and> (\<exists>ys. outq (thr (ap s)) = ys @ outq (thr (ap t)))"
  using assms(1)
proof (cases rule: sys_step.cases)
  case (worker pc' w')
  then show ?thesis using assms(2) by simp
next
  case deliver
  then obtain x rest where q: "outq (thr (ap s)) = x # rest" by (cases "outq (thr (ap s))") auto
  then show ?thesis using deliver assms(2) deliver_thr [OF q] by simp
next
  case tick
  then show ?thesis using assms(2) keeps_view_frame [OF keeps_tick_view, of "hp (thr (ap s))" "ap s"] by simp
next
  case connect
  then show ?thesis using assms(2) keeps_view_frame [OF keeps_connect_tool_view, of bus "ap s"] by simp
next
  case disconnect
  then show ?thesis using assms(2) keeps_view_frame [OF keeps_Disconnect_tool_view, of "ap s"] by simp
next
  case (edit str)
  then show ?thesis using assms(2) by simp
next
  case (add str ok)
  then show ?thesis using assms(2) by (simp add: on_ui_thr)
qed

section \<open>A concrete interleaving\<close>

lemma published_run:
  "case sys_run demo_bus published_schedule sys_init of
     None \<Rightarrow> False
   | Some p \<Rightarrow> disp_Scope_wave (ui (ap p)) CHAN1 = Some 0 \<and> sd_x (objs (hp (thr (ap p))) 0) = [0, 1]"
  by code_simp

lemma torn_run:
  "case sys_run demo_bus torn_schedule sys_init of
     None \<Rightarrow> False
   | Some t \<Rightarrow> writing_y (wpc t) CHAN1
       \<and> disp_Scope_wave (ui (ap t)) CHAN1 = Some 0 \<and> Scope_wave (wk (thr (ap t))) CHAN1 = Some 0
       \<and> Scope_wave (wk (thr (ap t))) CHAN2 = Some 1
       \<and> sd_x (objs (hp (thr (ap t))) 0) = [0, 1, 2] \<and> length (sd_y (objs (hp (thr (ap t))) 0)) = 2
       \<and> length (sd_x (objs (hp (thr (ap t))) 1)) = 2 \<and> length (sd_y (objs (hp (thr (ap t))) 1)) = 2
       \<and> (case plot_channel (hp (thr (ap t))) (ui (ap t)) of Exc e _ \<Rightarrow> e = ShapeError | Ret _ _ \<Rightarrow> False)
       \<and> (case scope (wk (thr (ap t))) of None \<Rightarrow> False | Some sess \<Rightarrow> session_open sess)
       \<and> combo_text (ui (ap t)) = ''TCPIP0::192.168.1.23::inst0::INSTR''
       \<and> (case sys_run demo_bus [A_Worker, A_Worker] t of None \<Rightarrow> False | Some u \<Rightarrow> wpc u = W_Dead VisaIOError)"
  by code_simp

lemma torn_state_facts:
  "sys_run demo_bus torn_schedule sys_init = Some torn_state
   \<and> sys_run demo_bus published_schedule sys_init = Some published_state
   \<and> sys_run demo_bus (replicate 8 A_Worker) published_state = Some torn_state
   \<and> disp_Scope_wave (ui (ap published_state)) CHAN1 = Some 0
   \<and> sd_x (objs (hp (thr (ap published_state))) 0) = [0, 1]
   \<and> writing_y (wpc torn_state) CHAN1
   \<and> disp_Scope_wave (ui (ap torn_state)) CHAN1 = Some 0 \<and> Scope_wave (wk (thr (ap torn_state))) CHAN1 = Some 0
   \<and> Scope_wave (wk (thr (ap torn_state))) CHAN2 = Some 1
   \<and> sd_x (objs (hp (thr (ap torn_state))) 0) = [0, 1, 2] \<and> length (sd_y (objs (hp (thr (ap torn_state))) 0)) = 2
   \<and> length (sd_x (objs (hp (thr (ap torn_state))) 1)) = 2 \<and> length (sd_y (objs (hp (thr (ap torn_state))) 1)) = 2
   \<and> (\<exists>d. plot_channel (hp (thr (ap torn_state))) (ui (ap torn_state)) = Exc ShapeError d)
   \<and> (\<exists>sess. scope (wk (thr (ap torn_state))) = Some sess \<and> session_open sess)
   \<and> combo_text (ui (ap torn_state)) = ''TCPIP0::192.168.1.23::inst0::INSTR''
   \<and> sys_run demo_bus dead_schedule sys_init = Some dead_state \<and> wpc dead_state = W_Dead VisaIOError"
proof -
  obtain p where pr: "sys_run demo_bus published_schedule sys_init = Some p"
    using published_run by (cases "sys_run demo_bus published_schedule sys_init") simp_all
  then have p: "published_state = p" by (simp add: published_state_def)
  obtain t where run: "sys_run demo_bus torn_schedule sys_init = Some t"
    using torn_run by (cases "sys_run demo_bus torn_schedule sys_init") simp_all
  then have t: "torn_state = t" by (simp add: torn_state_def)
  have pt: "sys_run demo_bus (replicate 8 A_Worker) p = Some t"
    using pr run by (simp add: torn_schedule_def sys_run_append)
  obtain u where u: "sys_run demo_bus [A_Worker, A_Worker] t = Some u"
    using torn_run run by (cases "sys_run demo_bus [A_Worker, A_Worker] t") simp_all
  then have "sys_run demo_bus dead_schedule sys_init = Some u"
    using run by (simp add: dead_schedule_def sys_run_append)
  moreover have "dead_state = u" using calculation by (simp add: dead_state_def)
  ultimately show ?thesis
    using published_run pr torn_run run u t p pt by (simp split: res.splits option.splits)
qed

lemma torn_state_reachable: "reachable demo_bus torn_state"
  using sys_run_reachable [OF reachable.init] torn_state_facts by blast

lemma dead_state_reachable: "reachable demo_bus dead_state"
  using sys_run_reachable [OF reachable.init] torn_state_facts by blast

text \<open>Claim C6: the interleavings the code allows include one in which the redraw timer fires
  while the worker has assigned channel 1's new, longer time array but not yet its
  voltage array: the window's channel 1 entry is that object, its arrays differ in length,
  and \<open>plot_channel\<close> raises pyqtgraph's shape error.\<close>

theorem torn_read_reachable:
  "\<exists>t. reachable demo_bus t \<and> writing_y (wpc t) CHAN1
     \<and> disp_Scope_wave (ui (ap t)) CHAN1 = Scope_wave (wk (thr (ap t))) CHAN1
     \<and> length (sd_x (objs (hp (thr (ap t))) 0)) \<noteq> length (sd_y (objs (hp (thr (ap t))) 0))
     \<and> disp_Scope_wave (ui (ap t)) CHAN1 = Some 0
     \<and> (\<exists>d. plot_channel (hp (thr (ap t))) (ui (ap t)) = Exc ShapeError d)"
  using torn_state_reachable torn_state_facts by (intro exI [of _ torn_state]) simp

lemma published_state_reachable: "reachable demo_bus published_state"
  using sys_run_reachable [OF reachable.init] torn_state_facts by blast

text \<open>Claim C26: a published snapshot does not stay as it was published: from a reachable
  state in which the window holds channel 1's object, worker steps alone, with no signal
  delivered in between, change the time array of the object the window holds.\<close>

theorem published_snapshot_changes:
  "\<exists>p t. reachable demo_bus p \<and> sys_run demo_bus (replicate 8 A_Worker) p = Some t
     \<and> disp_Scope_wave (ui (ap p)) CHAN1 = Some 0 \<and> disp_Scope_wave (ui (ap t)) CHAN1 = Some 0
     \<and> sd_x (objs (hp (thr (ap t))) 0) \<noteq> sd_x (objs (hp (thr (ap p))) 0)"
  using published_state_reachable torn_state_facts
  by (intro exI [of _ published_state] exI [of _ torn_state]) simp

text \<open>Claim C27: Connect runs the worker's \<open>connect_scope_ADR\<close> on the UI thread: whatever the
  worker is doing, even in the middle of a poll cycle, a Connect on an address the bus
  opens replaces the worker's session by a new one and leaves the worker where it was.\<close>

theorem connect_replaces_session:
  assumes "bus (combo_text (ui (ap s))) = Inr rs"
  shows "sys_step bus s (s\<lparr>ap := res_state (connect_tool bus (ap s))\<rparr>)
       \<and> wpc (s\<lparr>ap := res_state (connect_tool bus (ap s))\<rparr>) = wpc s
       \<and> scope (wk (thr (res_state (connect_tool bus (ap s))))) =
           Some \<lparr>resource_name = combo_text (ui (ap s)), written = [], replies = rs, session_open = True\<rparr>"
proof -
  have "sys_step bus s (s\<lparr>ap := res_state (connect_tool bus (ap s))\<rparr>)"
    by (rule sys_step.connect)
  moreover have "scope (wk (thr (res_state (connect_tool bus (ap s))))) =
      Some \<lparr>resource_name = combo_text (ui (ap s)), written = [], replies = rs, session_open = True\<rparr>"
    using assms
    by (simp add: connect_tool_def pbind_def pgets_def on_ui_def on_thread_def showMessage_def pui_def
        pmodify_def connect_scope_ADR_ok)
  ultimately show ?thesis by simp
qed

section \<open>Witnesses\<close>

theorem reachable_display_aliases_witness:
  "reachable demo_bus torn_state \<and> disp_Scope_wave (ui (ap torn_state)) CHAN1 = Some 0
   \<and> Scope_wave (wk (thr (ap torn_state))) CHAN1 = Some 0"
  using reachable_display_aliases [OF torn_state_reachable, of CHAN1 0] torn_state_reachable torn_state_facts
  by simp

theorem reachable_lengths_agree_witness:
  "reachable demo_bus torn_state \<and> Scope_wave (wk (thr (ap torn_state))) CHAN2 = Some 1
   \<and> \<not> writing_y (wpc torn_state) CHAN2
   \<and> length (sd_x (objs (hp (thr (ap torn_state))) 1)) = length (sd_y (objs (hp (thr (ap torn_state))) 1))"
proof -
  have w: "\<not> writing_y (wpc torn_state) CHAN2"
    using torn_state_facts writing_y_other [of "wpc torn_state" CHAN1 CHAN2] by simp
  show ?thesis
    using reachable_lengths_agree [OF torn_state_reachable _ w, of 1] torn_state_reachable torn_state_facts w
    by simp
qed

theorem dead_worker_stays_dead_witness:
  "sys_step demo_bus dead_state (dead_state\<lparr>ap := res_state (connect_tool demo_bus (ap dead_state))\<rparr>)
   \<and> wpc dead_state = W_Dead VisaIOError
   \<and> wpc (dead_state\<lparr>ap := res_state (connect_tool demo_bus (ap dead_state))\<rparr>) = W_Dead VisaIOError"
proof -
  have st: "sys_step demo_bus dead_state (dead_state\<lparr>ap := res_state (connect_tool demo_bus (ap dead_state))\<rparr>)"
    by (rule sys_step.connect)
  have d: "wpc dead_state = W_Dead VisaIOError" using torn_state_facts by simp
  show ?thesis using dead_worker_stays_dead [OF st d] st d by simp
qed


theorem connect_replaces_session_witness:
  "demo_bus (combo_text (ui (ap torn_state))) = Inr (poll_replies (demo_acq [128, 228]) (demo_acq [128, 28])
      @ channel_replies (demo_acq [128, 128, 128]))
   \<and> writing_y (wpc torn_state) CHAN1
   \<and> (\<exists>sess. scope (wk (thr (ap torn_state))) = Some sess \<and> session_open sess)
   \<and> sys_step demo_bus torn_state (torn_state\<lparr>ap := res_state (connect_tool demo_bus (ap torn_state))\<rparr>)
   \<and> wpc (torn_state\<lparr>ap := res_state (connect_tool demo_bus (ap torn_state))\<rparr>) = wpc torn_state
   \<and> scope (wk (thr (res_state (connect_tool demo_bus (ap torn_state))))) =
       Some \<lparr>resource_name = ''TCPIP0::192.168.1.23::inst0::INSTR'', written = [],
             replies = poll_replies (demo_acq [128, 228]) (demo_acq [128, 28])
                       @ channel_replies (demo_acq [128, 128, 128]), session_open = True\<rparr>"
proof -
  have b: "demo_bus (combo_text (ui (ap torn_state))) = Inr (poll_replies (demo_acq [128, 228]) (demo_acq [128, 28])
      @ channel_replies (demo_acq [128, 128, 128]))"
    using torn_state_facts by (simp add: demo_bus_def)
  show ?thesis using connect_replaces_session [where bus = demo_bus and s = torn_state, OF b] b torn_state_facts
    by simp
qed

end
