(* ===== verification/Lifecycle.thy ===== *)
theory Lifecycle
  imports Interleaving
begin

text \<open>
  The connection's life cycle across the two threads (spec sections 3, 4.1, 4.2): who
  opens and clears \<open>self.scope\<close>, that the worker only ever talks to an open session, that
  a disconnect request is served at the end of the worker's iteration, and the state the
  program starts in (lines 410--415). The invariant \<open>conn_inv\<close> is proved for every
  reachable state together with \<open>sys_inv\<close> of \<open>Interleaving\<close>, and every step is shown
  to be a transition of the spec's Idle/Connected state machine (\<open>conn_machine\<close>).
\<close>

section \<open>The program's start\<close>

text \<open>\<open>__main__\<close> (lines 410--415): \<open>Rigol_Live()\<close> builds the window, starts the
  worker thread and runs \<open>connect_tool\<close> once; \<open>Rigol_View.show()\<close> only maps the
  window; \<open>app.exec()\<close> then runs Qt's event loop, whose executions are the steps of
  \<open>sys_step\<close> from this state.\<close>

definition main_state :: "visa_bus \<Rightarrow> sys" where
  "main_state bus = \<lparr>ap = res_state (Rigol_Live_init bus), wpc = W_Top\<rparr>"

section \<open>The connection invariant\<close>

text \<open>Every session the worker holds is open, a held session comes with a resource
  manager (so \<open>self.rm.close()\<close> cannot fail), and a worker inside a poll cycle holds a
  session and channel 1's object (so the emit after the loop finds it).\<close>

definition scope_open :: "wstate \<Rightarrow> bool" where
  "scope_open w \<longleftrightarrow> (\<forall>sess. scope (wk w) = Some sess \<longrightarrow> session_open sess)"

definition conn_base :: "wstate \<Rightarrow> bool" where
  "conn_base w \<longleftrightarrow> scope_open w \<and> (scope (wk w) \<noteq> None \<longrightarrow> rm (wk w) \<noteq> None)"

definition conn_ok :: "wpc \<Rightarrow> wstate \<Rightarrow> bool" where
  "conn_ok pc w \<longleftrightarrow>
     conn_base w \<and> (\<forall>c a ws. pc = W_Write c a ws \<longrightarrow>
                        scope (wk w) \<noteq> None \<and> Scope_wave (wk w) CHAN1 \<noteq> None)"

definition conn_inv :: "sys \<Rightarrow> bool" where
  "conn_inv s \<longleftrightarrow> conn_ok (wpc s) (thr (ap s))"

text \<open>A schedule on \<open>demo_bus\<close> up to the end of the first poll iteration (18 worker steps)
  followed by a Disconnect.\<close>

definition disc_schedule :: "action list" where
  "disc_schedule = [A_Connect] @ replicate 18 A_Worker @ [A_Disconnect]"

definition disc_state :: sys where
  "disc_state = the (sys_run demo_bus disc_schedule sys_init)"

section \<open>The connection state machine of the spec\<close>

text \<open>The life cycle the display observes (spec section 4.2): \<open>Idle\<close> or \<open>Connected\<close>,
  read off \<open>self.scope\<close>. \<open>Connecting\<close> is not a state here: \<open>connect_tool\<close> runs
  to its end on the UI thread in one step. A step of the system is labelled with the
  event of the machine it performs: a Connect whose address opens or does not, a step of
  the worker's loop, or any other event.\<close>

datatype conn_state = Idle | Connected

datatype conn_event = Ev_Connect bool | Ev_Loop | Ev_Other

definition conn_view :: "sys \<Rightarrow> conn_state" where
  "conn_view s = (if scope (wk (thr (ap s))) = None then Idle else Connected)"

fun conn_label :: "visa_bus \<Rightarrow> action \<Rightarrow> sys \<Rightarrow> conn_event" where
  "conn_label bus A_Connect s =
     Ev_Connect (case bus (combo_text (ui (ap s))) of Inl _ \<Rightarrow> False | Inr _ \<Rightarrow> True)"
| "conn_label bus A_Worker s = Ev_Loop"
| "conn_label bus _ s = Ev_Other"

text \<open>The machine: a Connect that opens ends \<open>Connected\<close>, one that fails changes nothing;
  only the worker's loop goes from \<open>Connected\<close> to \<open>Idle\<close>; every other event leaves the
  state alone.\<close>

inductive conn_machine :: "conn_event \<Rightarrow> conn_state \<Rightarrow> conn_state \<Rightarrow> bool" where
  connect_ok: "conn_machine (Ev_Connect True) q Connected"
| connect_fail: "conn_machine (Ev_Connect False) q q"
| loop: "conn_machine Ev_Loop q q"
| served: "conn_machine Ev_Loop Connected Idle"
| other: "conn_machine Ev_Other q q"

section \<open>Sessions stay open\<close>

lemma keeps_open_sess_write: "keeps session_open (sess_write q)"
  by (simp add: keeps_def sess_write_def)

lemma keeps_open_sess_read: "keeps session_open sess_read"
  by (auto simp: keeps_def sess_read_def split: list.splits)

lemma keeps_open_query_binary: "keeps session_open (query_binary_values q)"
  unfolding keeps_def query_binary_values_def
  by (auto simp: pbind_def sess_write_def sess_read_def pret_def praise_def
      split: list.splits reply.splits res.splits)

lemma keeps_open_query_ascii: "keeps session_open (query_ascii_values q)"
  unfolding keeps_def query_ascii_values_def
  by (auto simp: pbind_def sess_write_def sess_read_def pret_def praise_def
      split: list.splits reply.splits res.splits)

lemma keeps_on_scope_conn:
  "keeps session_open m \<Longrightarrow> keeps conn_base (on_scope m)"
  unfolding keeps_def conn_base_def scope_open_def on_scope_def
  by (auto split: option.splits res.splits)

lemma keeps_on_scope_held: "keeps (\<lambda>w. scope (wk w) \<noteq> None) (on_scope m)"
  unfolding keeps_def on_scope_def by (auto split: option.splits res.splits)

lemma keeps_read_channel_conn: "keeps conn_base (read_channel c)"
  unfolding read_channel_def query_scalar_def
  by (intro keeps_pbind keeps_plift keeps_pret keeps_on_scope_conn keeps_open_sess_write
        keeps_open_query_binary keeps_open_query_ascii)

lemma keeps_read_channel_held: "keeps (\<lambda>w. scope (wk w) \<noteq> None) (read_channel c)"
  unfolding read_channel_def query_scalar_def
  by (intro keeps_pbind keeps_plift keeps_pret keeps_on_scope_held)

section \<open>The worker keeps the connection invariant\<close>

lemma conn_ok_wk: "wk w' = wk w \<Longrightarrow> conn_ok pc w' = conn_ok pc w"
  by (simp add: conn_ok_def conn_base_def scope_open_def)

lemma conn_ok_idle: "(\<And>c a ws. pc \<noteq> W_Write c a ws) \<Longrightarrow> conn_ok pc w = conn_base w"
  by (simp add: conn_ok_def)

lemma ensure_wave_conn:
  "\<exists>w1. ensure_wave c w = Ret () w1 \<and> scope (wk w1) = scope (wk w) \<and> rm (wk w1) = rm (wk w)
      \<and> Scope_wave (wk w) \<subseteq>\<^sub>m Scope_wave (wk w1) \<and> Scope_wave (wk w1) c \<noteq> None"
  by (auto simp: ensure_wave_def Let_def map_le_def split: prod.splits)

lemma prep_channel_conn:
  assumes b: "conn_base w" and h: "scope (wk w) \<noteq> None"
    and c1: "Scope_wave (wk w) CHAN1 \<noteq> None \<or> c = CHAN1"
    and st: "prep_channel c w = (pc', w')"
  shows "conn_ok pc' w'"
proof -
  obtain w1 where e: "ensure_wave c w = Ret () w1" and s1: "scope (wk w1) = scope (wk w)"
    and r1: "rm (wk w1) = rm (wk w)" and m1: "Scope_wave (wk w) \<subseteq>\<^sub>m Scope_wave (wk w1)"
    and n1: "Scope_wave (wk w1) c \<noteq> None"
    using ensure_wave_conn by blast
  have "Scope_wave (wk w1) CHAN1 \<noteq> None"
    using c1 n1 m1 by (auto simp: map_le_def dom_def)
  moreover have "conn_base w1"
    using b s1 r1 by (simp add: conn_base_def scope_open_def)
  ultimately have "conn_base (res_state (read_channel c w1)) \<and> scope (wk (res_state (read_channel c w1))) \<noteq> None
       \<and> Scope_wave (wk (res_state (read_channel c w1))) CHAN1 \<noteq> None"
    using keepsD [OF keeps_read_channel_conn, of w1] keepsD [OF keeps_read_channel_held, of w1]
      keepsD [OF keeps_read_channel_view [where P = "\<lambda>sw _ _. sw CHAN1 \<noteq> None"], of w1] h s1
    by simp
  then show ?thesis
    using st e by (cases "read_channel c w1") (auto simp: prep_channel_def pbind_def conn_ok_def)
qed

text \<open>\<open>self.scope.close()\<close> leaves a closed session in \<open>self.scope\<close> until line 98
  clears it; \<open>self.rm.close()\<close> cannot fail in between because a held session comes with a
  resource manager.\<close>

lemma keeps_conn_base_close_connection: "keeps conn_base close_connection"
  unfolding keeps_def conn_base_def scope_open_def close_connection_def
  by (auto simp: pbind_def on_scope_def sess_close_def rm_close_def pwk_def pmodify_def
      split: option.splits)

lemma keeps_conn_base_poll_tail: "keeps conn_base (poll_tail b)"
  unfolding poll_tail_def wave_ref_def emit_def
  by (intro keeps_pbind keeps_pgets keeps_plift keeps_if keeps_pret keeps_pmodify
        keeps_conn_base_close_connection) (simp_all add: conn_base_def scope_open_def)

lemma wstep_conn:
  assumes ok: "conn_ok pc w" and pc: "pc_ok pc w" and st: "wstep pc w = (pc', w')"
  shows "conn_ok pc' w'"
proof (cases pc)
  case W_Top
  show ?thesis
  proof (cases "scope (wk w) = None")
    case True
    then have "pc' = W_Top \<and> wk w' = wk w"
      using st W_Top by (auto simp: idle_iteration_def emit_status_state)
    then show ?thesis using ok conn_ok_wk [of w' w] W_Top by simp
  next
    case False
    have "prep_channel CHAN1 w = (pc', w')" using st unfolding W_Top wstep.simps(1) if_not_P [OF False] .
    then show ?thesis
      using prep_channel_conn [of w CHAN1] ok False W_Top by (simp add: conn_ok_def)
  qed
next
  case (W_Write c a ws)
  have b: "conn_base w" and h: "scope (wk w) \<noteq> None" and c1: "Scope_wave (wk w) CHAN1 \<noteq> None"
    using ok W_Write by (simp_all add: conn_ok_def)
  show ?thesis
  proof (cases ws)
    case (Cons x ws')
    obtain r where "Scope_wave (wk w) c = Some r" using pc W_Write by (auto simp: pc_ok_def)
    then have "pc' = W_Write c a ws' \<and> wk w' = wk w"
      using st W_Write Cons by (auto simp: write_field_eq)
    then show ?thesis using ok conn_ok_wk [of w' w] W_Write by (simp add: conn_ok_def)
  next
    case Nil
    let ?w1 = "w\<lparr>outq := outq w @ [SigStatus (ReadStatus c (length (acq_raw a)))]\<rparr>"
    have b1: "conn_base ?w1" using b by (simp add: conn_base_def scope_open_def)
    have st1: "(if c = CHAN1 then prep_channel CHAN2 ?w1 else end_iteration ?w1) = (pc', w')"
      using st W_Write Nil by (simp add: emit_status_state)
    show ?thesis
    proof (cases "c = CHAN1")
      case True
      then show ?thesis using prep_channel_conn [OF b1, of CHAN2 pc' w'] st1 h c1 by simp
    next
      case False
      then have "end_iteration ?w1 = (pc', w')" using st1 by simp
      then have "w' = res_state (poll_tail True ?w1) \<and> (pc' = W_Top \<or> is_dead pc')"
        by (cases "poll_tail True ?w1") (auto simp: end_iteration_def)
      then show ?thesis
        using keepsD [OF keeps_conn_base_poll_tail b1] by (auto simp: conn_ok_def is_dead_iff)
    qed
  qed
next
  case (W_Dead e)
  then show ?thesis using st ok by simp
qed

section \<open>The UI thread keeps the connection invariant\<close>

text \<open>Connect opens a new session without closing the held one; a failed open leaves
  \<open>self.scope\<close> as it was but the new resource manager in \<open>self.rm\<close>.\<close>

lemma keeps_conn_connect_scope_ADR: "keeps (conn_ok pc) (connect_scope_ADR bus adr)"
  unfolding keeps_def connect_scope_ADR_def conn_ok_def conn_base_def scope_open_def
  by (auto simp: pwk_def ptry_def pbind_def plift_def pmodify_def pret_def open_resource_def
      split: sum.splits)

lemma keeps_thr_on_thread:
  fixes m :: "('b, wstate) pyfn"
  shows "keeps P m \<Longrightarrow> keeps (\<lambda>s. P (thr s)) (on_thread m)"
  unfolding keeps_def on_thread_def by (auto split: res.splits)

lemma keeps_thr_on_ui: "keeps (\<lambda>s. P (thr s)) (on_ui m)"
  by (simp add: keeps_def on_ui_thr)

lemma keeps_conn_connect_tool: "keeps (\<lambda>s. conn_ok pc (thr s)) (connect_tool bus)"
  unfolding connect_tool_def
  by (intro keeps_pbind keeps_pgets keeps_thr_on_ui keeps_thr_on_thread keeps_conn_connect_scope_ADR)

lemma keeps_conn_Disconnect_tool: "keeps (\<lambda>s. conn_ok pc (thr s)) Disconnect_tool"
  unfolding Disconnect_tool_def Disconnect_scope_def pwk_def
  by (intro keeps_pbind keeps_thr_on_ui keeps_thr_on_thread keeps_pmodify)
    (simp add: conn_ok_def conn_base_def scope_open_def)

lemma sys_step_conn:
  assumes st: "sys_step bus s t" and inv: "sys_inv s" and ok: "conn_inv s"
  shows "conn_inv t"
  using st
proof (cases rule: sys_step.cases)
  case (worker pc' w')
  then show ?thesis
    using wstep_conn [of "wpc s" "thr (ap s)" pc' w'] inv ok by (simp add: sys_inv_def conn_inv_def)
next
  case deliver
  then obtain x rest where "outq (thr (ap s)) = x # rest" by (cases "outq (thr (ap s))") auto
  then have "wk (thr (ap t)) = wk (thr (ap s))" using deliver deliver_thr [of "ap s" x rest] by simp
  then show ?thesis
    using deliver ok conn_ok_wk [of "thr (ap t)" "thr (ap s)"] by (simp add: conn_inv_def)
next
  case tick
  then show ?thesis using ok by (simp add: conn_inv_def on_ui_thr)
next
  case connect
  then show ?thesis using ok keepsD [OF keeps_conn_connect_tool] by (simp add: conn_inv_def)
next
  case disconnect
  then show ?thesis using ok keepsD [OF keeps_conn_Disconnect_tool] by (simp add: conn_inv_def)
next
  case (edit str)
  then show ?thesis using ok by (simp add: conn_inv_def)
next
  case (add str ok)
  then show ?thesis using \<open>conn_inv s\<close> by (simp add: conn_inv_def on_ui_thr)
qed

lemma conn_inv_init: "conn_inv sys_init"
  by (simp add: conn_inv_def conn_ok_def conn_base_def scope_open_def sys_init_def initial_app_def
      Rigol_get_Data_init_def)

lemma reachable_conn_inv: "reachable bus s \<Longrightarrow> conn_inv s"
proof (induction rule: reachable.induct)
  case init
  then show ?case by (rule conn_inv_init)
next
  case (step s t)
  then show ?case using sys_step_conn reachable_sys_inv by blast
qed

section \<open>Who clears the connection\<close>

lemma close_connection_eq:
  "scope (wk w) = Some sess \<Longrightarrow>
   close_connection w =
     (case rm (wk w) of
        None \<Rightarrow> Exc AttributeError (w\<lparr>wk := (wk w)\<lparr>scope := Some (sess\<lparr>session_open := False\<rparr>)\<rparr>\<rparr>)
      | Some _ \<Rightarrow> Ret () (w\<lparr>wk := (wk w)\<lparr>scope := None, rm := Some False\<rparr>\<rparr>))"
  by (simp add: close_connection_def on_scope_def sess_close_def rm_close_def pwk_def pmodify_def pbind_def
      split: option.splits)

lemma poll_tail_Some:
  "Scope_wave (wk w) CHAN1 = Some r1 \<Longrightarrow> Scope_wave (wk w) CHAN2 = Some r2 \<Longrightarrow>
   poll_tail b w = (if stop_connection (wk w) then close_connection else pret ())
                      (w\<lparr>outq := outq w @ [SigCH1 r1, SigCH2 r2]\<rparr>)"
  by (simp add: poll_tail_def wave_ref_Some emit_def pmodify_def pbind_def pgets_def)

text \<open>The end of the loop body only clears \<open>self.scope\<close> through \<open>close_connection\<close>,
  that is when the stop flag is set, and then it completes.\<close>

lemma poll_tail_clears:
  assumes h: "scope (wk w) \<noteq> None" and c: "scope (wk (res_state (poll_tail b w))) = None"
  shows "stop_connection (wk w) \<and> (\<exists>u. poll_tail b w = Ret u (res_state (poll_tail b w)))"
proof (cases "Scope_wave (wk w) CHAN1")
  case None
  then show ?thesis using h c by (simp add: poll_tail_def wave_ref_def pbind_def pgets_def)
next
  case (Some r1)
  show ?thesis
  proof (cases "Scope_wave (wk w) CHAN2")
    case None
    then show ?thesis using h c Some
      by (simp add: poll_tail_def wave_ref_Some wave_ref_def pbind_def pgets_def emit_def pmodify_def)
  next
    case (Some r2)
    obtain sess where sc: "scope (wk w) = Some sess" using h by blast
    show ?thesis
      using c poll_tail_Some [OF \<open>Scope_wave (wk w) CHAN1 = Some r1\<close> Some, where b = b] sc
      by (auto simp: close_connection_eq pret_def split: if_splits option.splits)
  qed
qed

lemma prep_channel_scope:
  assumes k: "keeps (\<lambda>w. P (scope (wk w))) (read_channel c)" and h: "P (scope (wk w))"
    and st: "prep_channel c w = (pc', w')"
  shows "P (scope (wk w'))"
proof -
  obtain w1 where e: "ensure_wave c w = Ret () w1" and s1: "scope (wk w1) = scope (wk w)"
    using ensure_wave_conn by blast
  have "P (scope (wk (res_state (read_channel c w1))))"
    using keepsD [OF k, of w1] h s1 by simp
  then show ?thesis
    using st e by (cases "read_channel c w1") (auto simp: prep_channel_def pbind_def)
qed

lemma prep_channel_held:
  "scope (wk w) \<noteq> None \<Longrightarrow> prep_channel c w = (pc', w') \<Longrightarrow> scope (wk w') \<noteq> None"
  using prep_channel_scope [where P = "\<lambda>x. x \<noteq> None", OF keeps_read_channel_held] by blast

lemma wstep_clears:
  assumes h: "scope (wk w) \<noteq> None" and st: "wstep pc w = (pc', w')" and c: "scope (wk w') = None"
  shows "stop_connection (wk w) \<and> (\<exists>a. pc = W_Write CHAN2 a []) \<and> pc' = W_Top"
proof (cases pc)
  case W_Top
  have "prep_channel CHAN1 w = (pc', w')"
    using st unfolding W_Top wstep.simps(1) if_not_P [OF h] .
  then show ?thesis using prep_channel_held [OF h] c by blast
next
  case (W_Write ch a ws)
  show ?thesis
  proof (cases ws)
    case (Cons x ws')
    then have "wk w' = wk w"
      using st W_Write by (auto simp: write_field_eq split: option.splits)
    then show ?thesis using h c by simp
  next
    case Nil
    let ?w1 = "w\<lparr>outq := outq w @ [SigStatus (ReadStatus ch (length (acq_raw a)))]\<rparr>"
    have st1: "(if ch = CHAN1 then prep_channel CHAN2 ?w1 else end_iteration ?w1) = (pc', w')"
      using st W_Write Nil by (simp add: emit_status_state)
    show ?thesis
    proof (cases ch)
      case CHAN1
      then show ?thesis using st1 prep_channel_held [of ?w1 CHAN2 pc' w'] h c by simp
    next
      case CHAN2
      then have e: "end_iteration ?w1 = (pc', w')" using st1 by simp
      then have "w' = res_state (poll_tail True ?w1)"
        by (cases "poll_tail True ?w1") (auto simp: end_iteration_def)
      then have "stop_connection (wk w) \<and> (\<exists>u. poll_tail True ?w1 = Ret u w')"
        using poll_tail_clears [of ?w1 True] h c by simp
      then show ?thesis using e W_Write Nil CHAN2 by (auto simp: end_iteration_def)
    qed
  qed
next
  case (W_Dead e)
  then show ?thesis using st h c by simp
qed

lemma keeps_held_connect_tool: "keeps (\<lambda>s. scope (wk (thr s)) \<noteq> None) (connect_tool bus)"
proof -
  have "keeps (\<lambda>w. scope (wk w) \<noteq> None) (connect_scope_ADR bus adr)" for adr
    unfolding keeps_def connect_scope_ADR_def
    by (auto simp: pwk_def ptry_def pbind_def plift_def pmodify_def pret_def open_resource_def
        split: sum.splits)
  then show ?thesis
    unfolding connect_tool_def by (intro keeps_pbind keeps_pgets keeps_thr_on_ui keeps_thr_on_thread)
qed

lemma Disconnect_tool_wk:
  "wk (thr (res_state (Disconnect_tool a))) = (wk (thr a))\<lparr>stop_connection := True\<rparr>"
  by (simp add: Disconnect_tool_def Disconnect_scope_def pwk_def pmodify_def pbind_def on_thread_def on_ui_thr)

section \<open>Only Connect connects\<close>

lemma keeps_on_scope_none: "keeps (\<lambda>w. scope (wk w) = None) (on_scope m)"
  by (simp add: keeps_def on_scope_def split: option.splits)

lemma keeps_read_channel_none: "keeps (\<lambda>w. scope (wk w) = None) (read_channel c)"
  unfolding read_channel_def query_scalar_def
  by (intro keeps_pbind keeps_plift keeps_pret keeps_on_scope_none)

lemma keeps_poll_tail_none: "keeps (\<lambda>w. scope (wk w) = None) (poll_tail b)"
proof -
  have "keeps (\<lambda>w. scope (wk w) = None) rm_close"
    by (simp add: keeps_def rm_close_def split: option.splits)
  then show ?thesis
    unfolding poll_tail_def wave_ref_def emit_def close_connection_def pwk_def
    by (intro keeps_pbind keeps_pgets keeps_plift keeps_if keeps_pret keeps_pmodify keeps_on_scope_none)
      simp_all
qed

text \<open>The worker never connects: from \<open>self.scope = None\<close> no worker statement sets it.\<close>

lemma wstep_no_connect:
  assumes n: "scope (wk w) = None" and st: "wstep pc w = (pc', w')"
  shows "scope (wk w') = None"
proof (cases pc)
  case W_Top
  then show ?thesis using n st by (auto simp: idle_iteration_def emit_status_state)
next
  case (W_Write c a ws)
  show ?thesis
  proof (cases ws)
    case (Cons x ws')
    then show ?thesis using n st W_Write by (auto simp: write_field_eq split: option.splits)
  next
    case Nil
    let ?w1 = "w\<lparr>outq := outq w @ [SigStatus (ReadStatus c (length (acq_raw a)))]\<rparr>"
    have st1: "(if c = CHAN1 then prep_channel CHAN2 ?w1 else end_iteration ?w1) = (pc', w')"
      using st W_Write Nil by (simp add: emit_status_state)
    show ?thesis
    proof (cases "c = CHAN1")
      case True
      have n1: "scope (wk ?w1) = None" using n by simp
      show ?thesis
        using prep_channel_scope [where P = "\<lambda>x. x = None", OF keeps_read_channel_none n1] st1 True
        by simp
    next
      case False
      then have "end_iteration ?w1 = (pc', w')" using st1 by simp
      then have "w' = res_state (poll_tail True ?w1)"
        by (cases "poll_tail True ?w1") (auto simp: end_iteration_def)
      then show ?thesis using keepsD [OF keeps_poll_tail_none, of ?w1 True] n by simp
    qed
  qed
next
  case (W_Dead e)
  then show ?thesis using n st by simp
qed

lemma connect_tool_scope:
  "scope (wk (thr (res_state (connect_tool bus a)))) =
     (case bus (combo_text (ui a)) of
        Inl _ \<Rightarrow> scope (wk (thr a))
      | Inr rs \<Rightarrow> Some \<lparr>resource_name = combo_text (ui a), written = [], replies = rs, session_open = True\<rparr>)"
  by (auto simp: connect_tool_def connect_scope_ADR_def pwk_def ptry_def pbind_def plift_def pmodify_def
      pret_def pgets_def open_resource_def on_ui_def on_thread_def showMessage_def pui_def split: sum.splits)

section \<open>A concrete disconnect\<close>

lemma disc_run:
  "case sys_run demo_bus disc_schedule sys_init of
     None \<Rightarrow> False
   | Some s \<Rightarrow> (case wpc s of W_Write c a ws \<Rightarrow> c = CHAN2 \<and> ws = [] | _ \<Rightarrow> False)
       \<and> stop_connection (wk (thr (ap s)))
       \<and> (case scope (wk (thr (ap s))) of None \<Rightarrow> False | Some sess \<Rightarrow> session_open sess)
       \<and> (case sys_run demo_bus [A_Worker] s of
            None \<Rightarrow> False
          | Some t \<Rightarrow> wpc t = W_Top \<and> scope (wk (thr (ap t))) = None \<and> rm (wk (thr (ap t))) = Some False)"
  by code_simp

lemma disc_state_facts:
  "sys_run demo_bus disc_schedule sys_init = Some disc_state
   \<and> (\<exists>a. wpc disc_state = W_Write CHAN2 a []) \<and> stop_connection (wk (thr (ap disc_state)))
   \<and> (\<exists>sess. scope (wk (thr (ap disc_state))) = Some sess \<and> session_open sess)
   \<and> (\<exists>t. sys_act demo_bus A_Worker disc_state = Some t \<and> wpc t = W_Top
          \<and> scope (wk (thr (ap t))) = None \<and> rm (wk (thr (ap t))) = Some False)"
proof -
  obtain s where run: "sys_run demo_bus disc_schedule sys_init = Some s"
    using disc_run by (cases "sys_run demo_bus disc_schedule sys_init") simp_all
  then have d: "disc_state = s" by (simp add: disc_state_def)
  obtain t where t: "sys_act demo_bus A_Worker s = Some t"
    using disc_run run by (cases "sys_act demo_bus A_Worker s") simp_all
  show ?thesis
    using disc_run run d t by (simp split: wpc.splits option.splits)
qed

lemma disc_state_reachable: "reachable demo_bus disc_state"
  using sys_run_reachable [OF reachable.init] disc_state_facts by blast

lemma reconnect_run:
  "case sys_run demo_bus [A_Connect, A_Worker] disc_state of
     None \<Rightarrow> False
   | Some u \<Rightarrow> wpc u = W_Top \<and> scope (wk (thr (ap u))) \<noteq> None \<and> \<not> stop_connection (wk (thr (ap u)))"
proof -
  have "case sys_run demo_bus (disc_schedule @ [A_Connect, A_Worker]) sys_init of
          None \<Rightarrow> False
        | Some u \<Rightarrow> wpc u = W_Top \<and> scope (wk (thr (ap u))) \<noteq> None \<and> \<not> stop_connection (wk (thr (ap u)))"
    by code_simp
  then show ?thesis using disc_state_facts by (simp add: sys_run_append)
qed

section \<open>The worker reaches the end of its iteration\<close>

lemma write_act:
  assumes r: "reachable bus s" and pc: "wpc s = W_Write c a (x # ws)"
  shows "\<exists>s'. sys_act bus A_Worker s = Some s' \<and> wpc s' = W_Write c a ws
           \<and> wk (thr (ap s')) = wk (thr (ap s)) \<and> reachable bus s'"
proof -
  obtain r where "Scope_wave (wk (thr (ap s))) c = Some r"
    using reachable_sys_inv [OF r] pc by (auto simp: sys_inv_def pc_ok_def)
  then have a: "sys_act bus A_Worker s =
      Some \<lparr>ap = (ap s)\<lparr>thr := (thr (ap s))\<lparr>hp := set_field r (apply_write x) (hp (thr (ap s)))\<rparr>\<rparr>,
            wpc = W_Write c a ws\<rparr>"
    using pc by (simp add: write_field_eq)
  moreover note reachable.step [OF r sys_act_step [OF a]]
  ultimately show ?thesis by simp
qed

lemma tail_act:
  assumes r: "reachable bus s" and pc: "wpc s = W_Write CHAN2 a []"
    and stop: "stop_connection (wk (thr (ap s)))"
  shows "\<exists>t. sys_act bus A_Worker s = Some t \<and> wpc t = W_Top
           \<and> scope (wk (thr (ap t))) = None \<and> rm (wk (thr (ap t))) = Some False"
proof -
  have ok: "conn_inv s" and inv: "sys_inv s" using r by (simp_all add: reachable_conn_inv reachable_sys_inv)
  obtain sess where sc: "scope (wk (thr (ap s))) = Some sess"
    using ok pc by (auto simp: conn_inv_def conn_ok_def)
  obtain m where rmv: "rm (wk (thr (ap s))) = Some m"
    using ok sc by (auto simp: conn_inv_def conn_ok_def conn_base_def)
  obtain r1 where r1: "Scope_wave (wk (thr (ap s))) CHAN1 = Some r1"
    using ok pc by (auto simp: conn_inv_def conn_ok_def)
  obtain r2 where r2: "Scope_wave (wk (thr (ap s))) CHAN2 = Some r2"
    using inv pc by (auto simp: sys_inv_def pc_ok_def)
  show ?thesis
    using pc stop sc rmv r1 r2
    by (simp add: emit_status_state end_iteration_def poll_tail_Some close_connection_eq)
qed

section \<open>The program's first redraw\<close>

lemma main_state_step: "sys_step bus sys_init (main_state bus)"
proof -
  have "main_state bus = sys_init\<lparr>ap := res_state (connect_tool bus (ap sys_init))\<rparr>"
    by (simp add: main_state_def Rigol_Live_init_def sys_init_def)
  then show ?thesis by (simp add: sys_step.connect)
qed

lemma connect_tool_timer:
  assumes "case bus (combo_text (ui a)) of Inl e \<Rightarrow> e = VisaIOError | Inr _ \<Rightarrow> True"
  shows "pqTimer (ui (res_state (connect_tool bus a)))"
  using assms
  by (auto simp: connect_tool_def connect_scope_ADR_def pwk_def ptry_def pbind_def plift_def pmodify_def
      pret_def pgets_def open_resource_def on_ui_def on_thread_def showMessage_def pui_def split: sum.splits)

section \<open>Claims\<close>

text \<open>Claim C28: in every reachable state of the two threads the worker's session, when it
  holds one, is open, and comes with a resource manager; and a worker inside a poll cycle
  holds a session and already has channel 1's object. So the worker never sends a command
  on a session \<open>close_connection\<close> closed, and \<open>self.rm.close()\<close> never fails.\<close>

theorem reachable_session_open:
  assumes "reachable bus s"
  shows "(\<forall>sess. scope (wk (thr (ap s))) = Some sess \<longrightarrow> session_open sess \<and> rm (wk (thr (ap s))) \<noteq> None)
       \<and> (\<forall>c a ws. wpc s = W_Write c a ws \<longrightarrow>
            scope (wk (thr (ap s))) \<noteq> None \<and> Scope_wave (wk (thr (ap s))) CHAN1 \<noteq> None)"
  using reachable_conn_inv [OF assms] by (auto simp: conn_inv_def conn_ok_def conn_base_def scope_open_def)

text \<open>Claim C29: the only step of the two threads that clears a held connection is the
  worker's end of a poll iteration with the stop flag set (lines 95--98): Connect, a
  failed Connect, Disconnect, a redraw, a delivery and every other worker statement
  leave \<open>self.scope\<close> set; in particular an instrument failure does not clear it.\<close>

theorem only_served_disconnect_clears:
  assumes st: "sys_step bus s t" and h: "scope (wk (thr (ap s))) \<noteq> None"
    and c: "scope (wk (thr (ap t))) = None"
  shows "stop_connection (wk (thr (ap s))) \<and> (\<exists>a. wpc s = W_Write CHAN2 a []) \<and> wpc t = W_Top"
  using st
proof (cases rule: sys_step.cases)
  case (worker pc' w')
  then show ?thesis using wstep_clears [OF h, of "wpc s" pc' w'] c by simp
next
  case deliver
  then obtain x rest where "outq (thr (ap s)) = x # rest" by (cases "outq (thr (ap s))") auto
  then show ?thesis using deliver deliver_thr [of "ap s" x rest] h c by simp
next
  case tick
  then show ?thesis using h c by (simp add: on_ui_thr)
next
  case connect
  then show ?thesis using keepsD [OF keeps_held_connect_tool, of "ap s" bus] h c by simp
next
  case disconnect
  then show ?thesis using Disconnect_tool_wk [of "ap s"] h c by simp
next
  case (edit str)
  then show ?thesis using h c by simp
next
  case (add str ok)
  then show ?thesis using h c by (simp add: on_ui_thr)
qed

text \<open>Claim C30: a disconnect request is served within the worker's current iteration: from
  a reachable state in which the worker is in channel 2's assignments with the stop flag
  set, the worker's own steps alone, one per remaining assignment and one for the end of
  the loop body, bring it back to the loop's head with \<open>self.scope\<close> cleared and the
  resource manager closed.\<close>

theorem disconnect_served_within_iteration:
  assumes "reachable bus s" and "wpc s = W_Write CHAN2 a ws" and "stop_connection (wk (thr (ap s)))"
  shows "\<exists>t. sys_run bus (replicate (Suc (length ws)) A_Worker) s = Some t \<and> wpc t = W_Top
           \<and> scope (wk (thr (ap t))) = None \<and> rm (wk (thr (ap t))) = Some False"
  using assms
proof (induction ws arbitrary: s)
  case Nil
  then show ?case using tail_act [of bus s a] by auto
next
  case (Cons x ws)
  obtain s' where "sys_act bus A_Worker s = Some s'" and "wpc s' = W_Write CHAN2 a ws"
    and "wk (thr (ap s')) = wk (thr (ap s))" and "reachable bus s'"
    using write_act [OF Cons.prems(1,2)] by blast
  then show ?case using Cons.IH [of s'] Cons.prems(3) by simp
qed

text \<open>Claim C31: the program's start (lines 410--415): when the combo box's default address
  opens, or fails with \<open>VisaIOError\<close>, the state after \<open>Rigol_Live()\<close> is reachable, its
  redraw timer runs, and a tick that comes before the worker has published anything
  raises \<open>KeyError('CHAN1')\<close> in \<open>plot_channel\<close>.\<close>

theorem startup_tick_raises:
  assumes "case bus (combo_text Rigol_Live_display) of Inl e \<Rightarrow> e = VisaIOError | Inr _ \<Rightarrow> True"
  shows "reachable bus (main_state bus) \<and> pqTimer (ui (ap (main_state bus)))
       \<and> sys_step bus (main_state bus)
           ((main_state bus)\<lparr>ap := res_state (on_ui (plot_channel (hp (thr (ap (main_state bus))))) (ap (main_state bus)))\<rparr>)
       \<and> (\<exists>d. plot_channel (hp (thr (ap (main_state bus)))) (ui (ap (main_state bus))) = Exc (KeyError ''CHAN1'') d)"
proof -
  have r: "reachable bus (main_state bus)"
    using reachable.step [OF reachable.init main_state_step] .
  have a: "ap (main_state bus) = res_state (connect_tool bus initial_app)"
    by (simp add: main_state_def Rigol_Live_init_def)
  have p: "pqTimer (ui (ap (main_state bus)))"
    using connect_tool_timer [of bus initial_app] assms a by (simp add: initial_app_def)
  have "disp_Scope_wave (ui (ap (main_state bus))) = Map.empty"
    using keeps_view_frame [OF keeps_connect_tool_view, of bus initial_app] a
    by (simp add: initial_app_def Rigol_Live_display_def)
  then show ?thesis using r p by (simp add: sys_step.tick plot_channel_eq)
qed

text \<open>Claim C32: the connection's life cycle refines the state machine of the spec, read off
  \<open>self.scope\<close>: a Connect whose address opens ends connected, from either state (the
  code offers Connect while connected and replaces the session); a Connect that fails
  changes nothing; only a step of the worker's loop goes from connected to idle; and
  the worker never connects, the redraw, the deliveries, DisConnect, Add Connection and
  the combo box's edits never change the state.\<close>

theorem conn_refinement:
  assumes "sys_act bus a s = Some t"
  shows "conn_machine (conn_label bus a s) (conn_view s) (conn_view t)"
proof (cases a)
  case A_Worker
  then obtain pc' w' where st: "wstep (wpc s) (thr (ap s)) = (pc', w')"
    and t: "t = \<lparr>ap = (ap s)\<lparr>thr := w'\<rparr>, wpc = pc'\<rparr>"
    using assms by (auto split: if_splits prod.splits)
  show ?thesis
  proof (cases "scope (wk (thr (ap s))) = None")
    case True
    then have "scope (wk w') = None" using wstep_no_connect st by blast
    then show ?thesis using True t A_Worker by (simp add: conn_view_def conn_machine.loop)
  next
    case False
    then show ?thesis
      using t A_Worker by (cases "scope (wk w') = None") (auto simp: conn_view_def intro: conn_machine.intros)
  qed
next
  case A_Deliver
  then obtain x rest where q: "outq (thr (ap s)) = x # rest" and t: "t = s\<lparr>ap := res_state (deliver (ap s))\<rparr>"
    using assms by (cases "outq (thr (ap s))") auto
  then show ?thesis using A_Deliver deliver_thr [OF q] by (simp add: conn_view_def conn_machine.other)
next
  case A_Tick
  then show ?thesis using assms by (auto simp: on_ui_thr conn_view_def conn_machine.other split: if_splits)
next
  case A_Connect
  then show ?thesis
    using assms by (cases "bus (combo_text (ui (ap s)))") (auto simp: connect_tool_scope conn_view_def
        intro: conn_machine.intros)
next
  case A_Disconnect
  then show ?thesis
    using assms by (auto simp: Disconnect_tool_def Disconnect_scope_def pwk_def pmodify_def pbind_def
        on_thread_def on_ui_thr conn_view_def conn_machine.other)
next
  case (A_Edit str)
  then show ?thesis using assms by (auto simp: conn_view_def conn_machine.other)
next
  case (A_Add str ok)
  then show ?thesis using assms by (auto simp: on_ui_thr conn_view_def conn_machine.other)
qed

text \<open>Claim C34: Add Connection (lines 251--254) appends the dialog's text to the combo box's
  list when the dialog was accepted with a non-empty text, and changes nothing else: the
  combo box's current text stays what it was, so the next Connect still opens the address
  shown before, and neither thread's state changes.\<close>

theorem add_connection_appends:
  "\<exists>t. sys_act bus (A_Add str ok) s = Some t
     \<and> combo_items (ui (ap t)) = (if ok \<and> str \<noteq> [] then combo_items (ui (ap s)) @ [str] else combo_items (ui (ap s)))
     \<and> combo_text (ui (ap t)) = combo_text (ui (ap s)) \<and> thr (ap t) = thr (ap s) \<and> wpc t = wpc s"
  by (simp add: on_ui_thr on_ui_ui add_connection_string_def pui_def pmodify_def pret_def)

text \<open>Claim C33: a Connect between a Disconnect request and the end of the worker's iteration
  cancels the request: \<open>connect_scope_ADR\<close> resets \<open>self.stop_connection\<close> (line 120),
  so the loop's tail finds no request and keeps the new connection; in the reachable
  state below the worker ends the iteration still connected with no request pending.\<close>

theorem connect_cancels_disconnect_request:
  "\<exists>s u. reachable demo_bus s \<and> stop_connection (wk (thr (ap s))) \<and> (\<exists>a. wpc s = W_Write CHAN2 a [])
     \<and> sys_run demo_bus [A_Connect, A_Worker] s = Some u \<and> wpc u = W_Top
     \<and> scope (wk (thr (ap u))) \<noteq> None \<and> \<not> stop_connection (wk (thr (ap u)))"
proof -
  obtain u where u: "sys_run demo_bus [A_Connect, A_Worker] disc_state = Some u"
    using reconnect_run by (cases "sys_run demo_bus [A_Connect, A_Worker] disc_state") simp_all
  show ?thesis
    using disc_state_reachable disc_state_facts reconnect_run u
    by (intro exI [of _ disc_state] exI [of _ u]) simp
qed

section \<open>Witnesses\<close>

theorem reachable_session_open_witness:
  "reachable demo_bus disc_state \<and> stop_connection (wk (thr (ap disc_state)))
   \<and> (\<exists>sess. scope (wk (thr (ap disc_state))) = Some sess \<and> session_open sess)
   \<and> rm (wk (thr (ap disc_state))) \<noteq> None \<and> Scope_wave (wk (thr (ap disc_state))) CHAN1 \<noteq> None"
proof -
  obtain sess a where "scope (wk (thr (ap disc_state))) = Some sess" and "wpc disc_state = W_Write CHAN2 a []"
    using disc_state_facts by blast
  then show ?thesis
    using reachable_session_open [OF disc_state_reachable] disc_state_reachable disc_state_facts by auto
qed

theorem only_served_disconnect_clears_witness:
  "\<exists>t. sys_step demo_bus disc_state t \<and> scope (wk (thr (ap disc_state))) \<noteq> None
     \<and> scope (wk (thr (ap t))) = None \<and> stop_connection (wk (thr (ap disc_state)))
     \<and> (\<exists>a. wpc disc_state = W_Write CHAN2 a []) \<and> wpc t = W_Top"
proof -
  obtain t where a: "sys_act demo_bus A_Worker disc_state = Some t" and c: "scope (wk (thr (ap t))) = None"
    using disc_state_facts by blast
  have st: "sys_step demo_bus disc_state t" using sys_act_step [OF a] .
  have h: "scope (wk (thr (ap disc_state))) \<noteq> None" using disc_state_facts by auto
  show ?thesis using only_served_disconnect_clears [OF st h c] st h c by blast
qed

theorem disconnect_served_within_iteration_witness:
  "\<exists>a t. reachable demo_bus disc_state \<and> wpc disc_state = W_Write CHAN2 a []
     \<and> stop_connection (wk (thr (ap disc_state)))
     \<and> sys_run demo_bus [A_Worker] disc_state = Some t \<and> wpc t = W_Top
     \<and> scope (wk (thr (ap t))) = None \<and> rm (wk (thr (ap t))) = Some False"
proof -
  obtain a where pc: "wpc disc_state = W_Write CHAN2 a []" using disc_state_facts by blast
  have stop: "stop_connection (wk (thr (ap disc_state)))" using disc_state_facts by blast
  show ?thesis
    using disconnect_served_within_iteration [OF disc_state_reachable pc stop] disc_state_reachable pc stop
    by simp
qed

theorem startup_tick_raises_witness:
  "reachable demo_bus (main_state demo_bus) \<and> pqTimer (ui (ap (main_state demo_bus)))
   \<and> (\<exists>d. plot_channel (hp (thr (ap (main_state demo_bus)))) (ui (ap (main_state demo_bus)))
          = Exc (KeyError ''CHAN1'') d)"
  using startup_tick_raises [of demo_bus] by (simp add: demo_bus_def Rigol_Live_display_def)

theorem conn_refinement_witness:
  "\<exists>t. sys_act demo_bus A_Worker disc_state = Some t \<and> conn_view disc_state = Connected \<and> conn_view t = Idle
     \<and> conn_machine (conn_label demo_bus A_Worker disc_state) Connected Idle"
proof -
  obtain t where a: "sys_act demo_bus A_Worker disc_state = Some t" and c: "scope (wk (thr (ap t))) = None"
    using disc_state_facts by blast
  have "conn_view disc_state = Connected" using disc_state_facts by (auto simp: conn_view_def)
  moreover have "conn_view t = Idle" using c by (simp add: conn_view_def)
  ultimately show ?thesis using conn_refinement [OF a] a by auto
qed

end
