(* ===== verification/Spec2Isabelle.thy ===== *)
theory Spec2Isabelle
  imports Display Helpers Lifecycle
begin

text \<open>
  Verification development of Rigol Live Viewer, src/Rigol_Live_View.py: a PySide6
  window that polls a Rigol oscilloscope over pyvisa on a worker thread and plots two
  channels with pyqtgraph.

  \<^bold>\<open>The program.\<close> \<open>ScopeData_nativ\<close> (lines 41--67) is a plain container of one
  channel's capture. The worker \<open>Rigol_get_Data\<close> (lines 70--180) loops forever in
  \<open>run\<close>: while connected it calls \<open>getData_online\<close>, which for CHAN1 then CHAN2 sends
  the waveform commands, reads the raw bytes and six calibration values, computes the
  time and voltage arrays and assigns them into the channel's object in
  \<open>self.Scope_wave\<close>; \<open>run\<close> then emits both objects to the window and serves a
  pending disconnect. The window \<open>Rigol_Live\<close> (lines 183--407) stores the received
  objects by reference, redraws every 500 ms from them (\<open>plot_channel\<close>), and offers
  Connect (running the worker's \<open>connect_scope_ADR\<close> on the UI thread) and Disconnect.
  The two threads share the snapshot objects; Qt's queued connections carry the
  references from the worker to the window.

  \<^bold>\<open>Theories and what they model.\<close>
  \<^item> \<open>Prelude\<close>: Python statements as state functions returning \<open>Ret\<close> or \<open>Exc\<close>
    (an exception keeps the effects done before it), the combinators, \<open>keeps\<close> (a
    statement preserves a state predicate) with its rule collection \<open>keeps_intros\<close>,
    and Python's \<open>max\<close>, \<open>min\<close>, \<open>[0]\<close> and \<open>d[k]\<close> with their errors.
  \<^item> \<open>ScopeData\<close>: \<open>ScopeData_nativ\<close> as a record, the channels, and an explicit object
    heap (\<open>alloc\<close>, \<open>set_field\<close>) so that Python object identity and aliasing are
    visible.
  \<^item> \<open>Waveform\<close>: the arithmetic of lines 158--165 (\<open>time_array\<close>, \<open>sample_voltage\<close>,
    \<open>voltage_array\<close>) on 8-bit words and reals.
  \<^item> \<open>Instrument\<close>: the SCPI commands the code sends, and pyvisa's session, which is
    not part of the repository and is modelled from the spec as a command log and a
    script of replies; an exhausted script is a timeout (\<open>VisaIOError\<close>).
  \<^item> \<open>Worker\<close>: every method of \<open>Rigol_get_Data\<close> over the thread state \<open>wstate\<close>
    (attributes, heap, pending signals); \<open>run_step\<close> is one iteration of \<open>run\<close>'s loop.
  \<^item> \<open>Display\<close>: every method of \<open>Rigol_Live\<close> but the helpers, over the record
    \<open>display\<close>; \<open>app\<close> pairs it with the thread object.
  \<^item> \<open>Helpers\<close>: \<open>wait_ready\<close>, \<open>Rigol_ESR\<close> and \<open>crange\<close> (lines 367--403).
  \<^item> \<open>System\<close>: the worker at statement granularity (\<open>wstep\<close> over a program counter)
    and the interleaving of the two threads as the inductive relation \<open>sys_step\<close>
    (a worker step, delivery of the oldest queued signal, a timer tick, Connect,
    Disconnect, Add Connection, an edit of the combo box), with the executable scheduler
    \<open>sys_act\<close>.
  \<^item> \<open>Interleaving\<close>: the invariant of every reachable state and a concrete run.
  \<^item> \<open>Lifecycle\<close>: the connection's life cycle across the two threads (the invariant
    \<open>conn_inv\<close> on \<open>self.scope\<close> and \<open>self.rm\<close>, who clears the connection, how soon a
    disconnect is served), its refinement of the spec's Idle/Connected state machine
    (\<open>conn_view\<close>, \<open>conn_label\<close>, \<open>conn_machine\<close>), and the program's start
    \<open>main_state\<close> (lines 410--415).

  \<^bold>\<open>What is proved.\<close> Worker: a full poll cycle on answering instruments stores the
  calibrated arrays (\<open>getData_online_stores_snapshots\<close>), reuses the published objects,
  ends the thread on a mid-cycle timeout, serves a disconnect within the iteration,
  never emits \<open>finished\<close> (\<open>run\<close>'s loop, kept as a loop with \<open>while_option\<close>, ends
  only by an exception, which skips line 104), and keeps its invariant over any number
  of iterations. Display: the no-data redraw raises \<open>KeyError\<close>, the x range is
  never re-set after the first draw, the channels' length mismatch breaks the plot for
  good. Waveform: bounds of the voltage formula, its monotonicity in the raw byte, the
  extremes of the time axis. Helpers: ESR decoding bit by bit and the round trip of its
  named report through the IEEE 488.2 bit positions, \<open>Rigol_ESR\<close>'s result and its \<open>ValueError\<close> path that
  skips \<open>*CLS\<close>, \<open>wait_ready\<close> returning at the first \<open>1\<close> and otherwise ending only by
  the transport's timeout, \<open>crange\<close> termination and divergence. System (supporting
  lemmas): \<open>wstep\<close> refines \<open>run_step\<close>; \<open>sys_step\<close> and \<open>sys_act\<close> agree.
  Interleaving: by rule induction over \<open>reachable\<close>, the window's entries always name
  the worker's current objects, and an object's arrays differ in length only while the
  worker is between the assignments of \<open>x\<close> and \<open>y\<close>; a concrete schedule reaches such a
  state and the redraw raises; the object the window holds changes between two
  deliveries; a Connect replaces the session under a worker in mid-cycle; a dead worker
  is never revived. Lifecycle: in every reachable state the worker's session is open and
  has a resource manager; the only step that clears a held connection is the worker's end
  of loop body with the stop flag set, so no failure clears it; a pending disconnect is
  served after the worker's remaining assignments of channel 2 plus one step; the state
  after \<open>Rigol_Live()\<close> is reachable and its first tick raises \<open>KeyError\<close>; every step,
  labelled by its event, is a transition of the spec's connection state machine (only
  Connect connects, only the worker's loop disconnects); a Connect between a Disconnect
  request and the loop's tail cancels the request; Add Connection only appends to the
  combo box's list.

  \<^bold>\<open>Granularity and bounds.\<close> The worker's atomic steps are one channel's I/O, one
  attribute assignment, and a status emit with what follows it: the interleavings
  that matter for the window are those between the assignments, which this grain
  keeps; one loop iteration is at most 19 steps (1 + 8 + 1 + 8 + 1), the \<open>n\<close> of the
  refinement. This grain hides interleavings inside a step: a Connect that lands between
  the stop check (line 94) and \<open>self.scope = None\<close> (line 98) would have its new session
  closed or dropped by the worker, a race the model cannot show; the placeholder arrays
  of lines 131--132 are set in one step, before the object is published. \<open>run\<close>'s
  infinite loop is \<open>while_option\<close> (\<open>run\<close>), \<open>run_iterations n\<close> for every \<open>n\<close>, and
  the unbounded relation \<open>reachable\<close>; \<open>wait_ready\<close> terminates on the
  finite reply script; \<open>crange\<close> is a \<open>partial_function (option)\<close> whose \<open>None\<close> is
  non-termination. The initial state is the window with a started, unconnected thread;
  \<open>__init__\<close>'s own \<open>connect_tool\<close> is the first Connect step, so reachability
  over-approximates by also allowing events before it, which only strengthens the
  invariants; \<open>main_state\<close>, the state \<open>__main__\<close> hands to Qt's event loop, is
  reachable from it by that Connect.

  \<^bold>\<open>Not modelled.\<close> Floating-point rounding (reals are exact; the claims about the
  voltage formula are its bounds, which hold in doubles up to rounding, and its
  monotonicity, which rounding preserves); Qt and pyqtgraph
  internals beyond the state the code sets and pyqtgraph's shape check; \<open>time.sleep\<close>
  and \<open>print\<close>, which have no effect on the modelled state; Python's \<open>str.strip\<close> and
  \<open>int()\<close> beyond code point 255 (a \<open>char\<close> holds one byte); an instrument that answers
  \<open>*OPC?\<close> forever, which the finite reply script cannot express; the Exit action, wired
  to Qt's own \<open>QMainWindow.close\<close> (line 203): what follows it (the event loop's end,
  \<open>sys.exit\<close>, the interpreter's shutdown with the worker thread still running) is
  Qt's and Python's, not code of the repository; of the entry point (lines 410--415),
  \<open>QApplication\<close> and \<open>show()\<close>, which set no modelled state (the event loop is
  \<open>sys_step\<close>, its start \<open>main_state\<close>); pyvisa itself, which is not in the
  repository and is modelled from the spec as a command log and a reply script, so the
  instrument transport is only partly modelled. Every line of src/Rigol_Live_View.py
  but the module docstring and the imports is mapped to a definition.
\<close>

end
